theory Spec2Isabelle
  imports Main "HOL-Library.Word"
begin

section \<open>The device-mapper control plane of devmapper.go\<close>

text \<open>
  The Go package wraps the native device-mapper library. Every function of the library
  (\<open>DmTaskCreate\<close>, \<open>DmTaskRun\<close>, ...) is an external collaborator: the model takes it
  as a parameter, a deterministic function of the calls made so far and of their
  answers. The package's own state is the pair of process-wide flags \<open>dmSawBusy\<close> and
  \<open>dmSawExist\<close>; the model threads it, with the list of native calls issued, through
  every function. Go's \<open>int\<close> and \<open>uint\<close> are 64-bit words (linux/amd64); \<open>TaskType\<close>
  and \<open>AddNodeType\<close> are small constants and are kept as integers. Calls to the process
  logger (\<open>log.Debugf\<close>, \<open>log.Errorf\<close>) have no effect on the package and are left out,
  and so is the finalizer that destroys the native task when the garbage collector
  frees a \<open>Task\<close>.
\<close>

subsection \<open>Data\<close>

type_synonym TaskType = int
type_synonym AddNodeType = int
type_synonym CDmTask = int

definition DeviceCreate :: TaskType where "DeviceCreate = 0"
definition DeviceReload :: TaskType where "DeviceReload = 1"
definition DeviceRemove :: TaskType where "DeviceRemove = 2"
definition DeviceRemoveAll :: TaskType where "DeviceRemoveAll = 3"
definition DeviceSuspend :: TaskType where "DeviceSuspend = 4"
definition DeviceResume :: TaskType where "DeviceResume = 5"
definition DeviceInfo :: TaskType where "DeviceInfo = 6"
definition DeviceDeps :: TaskType where "DeviceDeps = 7"
definition DeviceRename :: TaskType where "DeviceRename = 8"
definition DeviceVersion :: TaskType where "DeviceVersion = 9"
definition DeviceStatus :: TaskType where "DeviceStatus = 10"
definition DeviceTable :: TaskType where "DeviceTable = 11"
definition DeviceWaitevent :: TaskType where "DeviceWaitevent = 12"
definition DeviceList :: TaskType where "DeviceList = 13"
definition DeviceClear :: TaskType where "DeviceClear = 14"
definition DeviceMknodes :: TaskType where "DeviceMknodes = 15"
definition DeviceListVersions :: TaskType where "DeviceListVersions = 16"
definition DeviceTargetMsg :: TaskType where "DeviceTargetMsg = 17"
definition DeviceSetGeometry :: TaskType where "DeviceSetGeometry = 18"

definition AddNodeOnResume :: AddNodeType where "AddNodeOnResume = 0"
definition AddNodeOnCreate :: AddNodeType where "AddNodeOnCreate = 1"

text \<open>Go errors: the package's sentinel values, and the errors built by \<open>fmt.Errorf\<close>.\<close>

datatype error =
    ErrTaskRun
  | ErrTaskSetName
  | ErrTaskSetMessage
  | ErrTaskSetAddNode
  | ErrTaskSetRo
  | ErrTaskAddTarget
  | ErrTaskSetSector
  | ErrTaskGetDeps
  | ErrTaskGetInfo
  | ErrTaskGetDriverVersion
  | ErrTaskSetCookie
  | ErrNilCookie
  | ErrUdevWait
  | ErrBusy
  | ErrInvalidAddNode
  | Errorf string

text \<open>The \<open>Error()\<close> method, which \<open>%s\<close> prints.\<close>

fun Error :: "error \<Rightarrow> string" where
  "Error ErrTaskRun = ''dm_task_run failed''"
| "Error ErrTaskSetName = ''dm_task_set_name failed''"
| "Error ErrTaskSetMessage = ''dm_task_set_message failed''"
| "Error ErrTaskSetAddNode = ''dm_task_set_add_node failed''"
| "Error ErrTaskSetRo = ''dm_task_set_ro failed''"
| "Error ErrTaskAddTarget = ''dm_task_add_target failed''"
| "Error ErrTaskSetSector = ''dm_task_set_sector failed''"
| "Error ErrTaskGetDeps = ''dm_task_get_deps failed''"
| "Error ErrTaskGetInfo = ''dm_task_get_info failed''"
| "Error ErrTaskGetDriverVersion = ''dm_task_get_driver_version failed''"
| "Error ErrTaskSetCookie = ''dm_task_set_cookie failed''"
| "Error ErrNilCookie = ''cookie ptr can't be nil''"
| "Error ErrUdevWait = ''wait on udev cookie failed''"
| "Error ErrBusy = ''Device is Busy''"
| "Error ErrInvalidAddNode = ''Invalid AddNode type''"
| "Error (Errorf s) = s"

text \<open>
  The verb \<open>%d\<close>: a decimal numeral, with a sign when negative. \<open>fmt_digits\<close> is only
  applied to numbers that are not negative.
\<close>

function fmt_digits :: "int \<Rightarrow> string" where
  "fmt_digits n = (if n < 10 then [''0123456789'' ! nat n]
                   else fmt_digits (n div 10) @ [''0123456789'' ! nat (n mod 10)])"
  by pat_completeness auto
termination
  by (relation "measure nat") auto

declare fmt_digits.simps [simp del]

definition fmt_d :: "int \<Rightarrow> string" where
  "fmt_d i = (if i < 0 then CHR ''-'' # fmt_digits (- i) else fmt_digits i)"

record Task =
  unmanaged :: CDmTask

record Info =
  Exists :: int
  Suspended :: int
  LiveTable :: int
  InactiveTable :: int
  OpenCount :: "32 word"
  EventNr :: "32 word"
  Major :: "32 word"
  Minor :: "32 word"
  ReadOnly :: int
  TargetCount :: "32 word"

subsection \<open>The native engine\<close>

text \<open>One constructor for each native function the package calls, with its arguments.\<close>

datatype call =
    DmTaskCreate int
  | DmTaskRun CDmTask
  | DmTaskSetName CDmTask string
  | DmTaskSetMessage CDmTask string
  | DmTaskSetSector CDmTask "64 word"
  | DmTaskSetCookie CDmTask "64 word" "16 word"
  | DmTaskSetAddNode CDmTask AddNodeType
  | DmTaskSetRo CDmTask
  | DmTaskAddTarget CDmTask "64 word" "64 word" string string
  | DmTaskGetInfo CDmTask
  | DmGetNextTarget CDmTask int
  | DmUdevWait "64 word"

text \<open>
  An event is a native call with what came back: the value returned, and whether the
  library, during the call, sent the log callback a message that it takes for a busy
  device or for an existing one. The callback is not part of this file; it sets
  \<open>dmSawBusy\<close> or \<open>dmSawExist\<close> on such a message and never clears them.
\<close>

type_synonym event = "call \<times> int \<times> bool \<times> bool"

text \<open>
  The engine answers a call from the events before it. \<open>result\<close> is the value the
  native function returns: a status for most, the address of the new task for
  \<open>DmTaskCreate\<close> (0 is nil), the next cursor for \<open>DmGetNextTarget\<close>. \<open>logged\<close> is
  the pair of flags of the event; \<open>get_info\<close>, \<open>cookie_out\<close> and \<open>next_target\<close> are
  what the function writes through its pointer arguments.
\<close>

record engine =
  result :: "event list \<Rightarrow> call \<Rightarrow> int"
  logged :: "event list \<Rightarrow> call \<Rightarrow> bool \<times> bool"
  get_info :: "event list \<Rightarrow> call \<Rightarrow> Info"
  cookie_out :: "event list \<Rightarrow> call \<Rightarrow> 64 word"
  next_target :: "event list \<Rightarrow> call \<Rightarrow> 64 word \<times> 64 word \<times> string \<times> string"

record world =
  trace :: "event list"
  dmSawBusy :: bool
  dmSawExist :: bool

text \<open>A native call: its event is appended to the trace, and the callback may raise the flags.\<close>

definition native :: "engine \<Rightarrow> call \<Rightarrow> world \<Rightarrow> world" where
  "native e c w =
     w\<lparr>trace := trace w @ [(c, result e (trace w) c, logged e (trace w) c)],
       dmSawBusy := dmSawBusy w \<or> fst (logged e (trace w) c),
       dmSawExist := dmSawExist w \<or> snd (logged e (trace w) c)\<rparr>"

subsection \<open>Task\<close>

definition TaskCreate :: "engine \<Rightarrow> TaskType \<Rightarrow> world \<Rightarrow> Task option \<times> world" where
  "TaskCreate e tasktype w =
     (let Ctask = result e (trace w) (DmTaskCreate tasktype) in
      if Ctask = 0 then (None, native e (DmTaskCreate tasktype) w)
      else (Some \<lparr>unmanaged = Ctask\<rparr>, native e (DmTaskCreate tasktype) w))"

definition Run :: "engine \<Rightarrow> Task \<Rightarrow> world \<Rightarrow> error option \<times> world" where
  "Run e t w =
     (if result e (trace w) (DmTaskRun (unmanaged t)) \<noteq> 1
      then (Some ErrTaskRun, native e (DmTaskRun (unmanaged t)) w)
      else (None, native e (DmTaskRun (unmanaged t)) w))"

definition SetName :: "engine \<Rightarrow> Task \<Rightarrow> string \<Rightarrow> world \<Rightarrow> error option \<times> world" where
  "SetName e t name w =
     (if result e (trace w) (DmTaskSetName (unmanaged t) name) \<noteq> 1
      then (Some ErrTaskSetName, native e (DmTaskSetName (unmanaged t) name) w)
      else (None, native e (DmTaskSetName (unmanaged t) name) w))"

definition SetMessage :: "engine \<Rightarrow> Task \<Rightarrow> string \<Rightarrow> world \<Rightarrow> error option \<times> world" where
  "SetMessage e t message w =
     (if result e (trace w) (DmTaskSetMessage (unmanaged t) message) \<noteq> 1
      then (Some ErrTaskSetMessage, native e (DmTaskSetMessage (unmanaged t) message) w)
      else (None, native e (DmTaskSetMessage (unmanaged t) message) w))"

definition SetSector :: "engine \<Rightarrow> Task \<Rightarrow> 64 word \<Rightarrow> world \<Rightarrow> error option \<times> world" where
  "SetSector e t sector w =
     (if result e (trace w) (DmTaskSetSector (unmanaged t) sector) \<noteq> 1
      then (Some ErrTaskSetSector, native e (DmTaskSetSector (unmanaged t) sector) w)
      else (None, native e (DmTaskSetSector (unmanaged t) sector) w))"

text \<open>
  \<open>SetCookie\<close> takes a pointer to the caller's cookie: \<open>None\<close> is the nil pointer,
  \<open>Some c\<close> a slot that holds \<open>c\<close>. The second component of the result is the slot after
  the call.
\<close>

definition SetCookie ::
  "engine \<Rightarrow> Task \<Rightarrow> 64 word option \<Rightarrow> 16 word \<Rightarrow> world \<Rightarrow> error option \<times> 64 word option \<times> world"
where
  "SetCookie e t cookie flags w =
     (case cookie of
        None \<Rightarrow> (Some ErrNilCookie, None, w)
      | Some c \<Rightarrow>
          (if result e (trace w) (DmTaskSetCookie (unmanaged t) c flags) \<noteq> 1
           then (Some ErrTaskSetCookie,
                 Some (cookie_out e (trace w) (DmTaskSetCookie (unmanaged t) c flags)),
                 native e (DmTaskSetCookie (unmanaged t) c flags) w)
           else (None,
                 Some (cookie_out e (trace w) (DmTaskSetCookie (unmanaged t) c flags)),
                 native e (DmTaskSetCookie (unmanaged t) c flags) w)))"

definition SetAddNode :: "engine \<Rightarrow> Task \<Rightarrow> AddNodeType \<Rightarrow> world \<Rightarrow> error option \<times> world" where
  "SetAddNode e t addNode w =
     (if addNode \<noteq> AddNodeOnResume \<and> addNode \<noteq> AddNodeOnCreate
      then (Some ErrInvalidAddNode, w)
      else if result e (trace w) (DmTaskSetAddNode (unmanaged t) addNode) \<noteq> 1
      then (Some ErrTaskSetAddNode, native e (DmTaskSetAddNode (unmanaged t) addNode) w)
      else (None, native e (DmTaskSetAddNode (unmanaged t) addNode) w))"

definition SetRo :: "engine \<Rightarrow> Task \<Rightarrow> world \<Rightarrow> error option \<times> world" where
  "SetRo e t w =
     (if result e (trace w) (DmTaskSetRo (unmanaged t)) \<noteq> 1
      then (Some ErrTaskSetRo, native e (DmTaskSetRo (unmanaged t)) w)
      else (None, native e (DmTaskSetRo (unmanaged t)) w))"

definition AddTarget ::
  "engine \<Rightarrow> Task \<Rightarrow> 64 word \<Rightarrow> 64 word \<Rightarrow> string \<Rightarrow> string \<Rightarrow> world \<Rightarrow> error option \<times> world"
where
  "AddTarget e t start sz ttype params w =
     (if result e (trace w) (DmTaskAddTarget (unmanaged t) start sz ttype params) \<noteq> 1
      then (Some ErrTaskAddTarget,
            native e (DmTaskAddTarget (unmanaged t) start sz ttype params) w)
      else (None, native e (DmTaskAddTarget (unmanaged t) start sz ttype params) w))"

definition GetInfo_task :: "engine \<Rightarrow> Task \<Rightarrow> world \<Rightarrow> (Info option \<times> error option) \<times> world" where
  "GetInfo_task e t w =
     (if result e (trace w) (DmTaskGetInfo (unmanaged t)) \<noteq> 1
      then ((None, Some ErrTaskGetInfo), native e (DmTaskGetInfo (unmanaged t)) w)
      else ((Some (get_info e (trace w) (DmTaskGetInfo (unmanaged t))), None),
            native e (DmTaskGetInfo (unmanaged t)) w))"

definition GetNextTarget ::
  "engine \<Rightarrow> Task \<Rightarrow> int \<Rightarrow> world \<Rightarrow> (int \<times> 64 word \<times> 64 word \<times> string \<times> string) \<times> world"
where
  "GetNextTarget e t next w =
     ((result e (trace w) (DmGetNextTarget (unmanaged t) next),
       next_target e (trace w) (DmGetNextTarget (unmanaged t) next)),
      native e (DmGetNextTarget (unmanaged t) next) w)"

text \<open>\<open>TaskCreateNamed\<close> returns the pair of Go results: the task (or nil) and the error.\<close>

definition TaskCreateNamed ::
  "engine \<Rightarrow> TaskType \<Rightarrow> string \<Rightarrow> world \<Rightarrow> (Task option \<times> error option) \<times> world"
where
  "TaskCreateNamed e t name w =
     (case TaskCreate e t w of
        (None, w1) \<Rightarrow> ((None, Some (Errorf (''Can't create task of type '' @ fmt_d t))), w1)
      | (Some task, w1) \<Rightarrow>
          (case SetName e task name w1 of
             (Some err, w2) \<Rightarrow> ((None, Some (Errorf (''Can't set task name '' @ name))), w2)
           | (None, w2) \<Rightarrow> ((Some task, None), w2)))"

definition UdevWait :: "engine \<Rightarrow> 64 word \<Rightarrow> world \<Rightarrow> error option \<times> world" where
  "UdevWait e cookie w =
     (if result e (trace w) (DmUdevWait cookie) \<noteq> 1
      then (Some ErrUdevWait, native e (DmUdevWait cookie) w)
      else (None, native e (DmUdevWait cookie) w))"

subsection \<open>Devices\<close>

text \<open>
  A deferred call runs when the function returns, after the result has been computed;
  its argument is the value \<open>cookie\<close> had at the \<open>defer\<close> statement, and its own
  result is dropped. The local \<open>cookie\<close> starts at 0 and \<open>SetCookie\<close> gets its address.
\<close>

definition RemoveDevice :: "engine \<Rightarrow> string \<Rightarrow> world \<Rightarrow> error option \<times> world" where
  "RemoveDevice e name w =
     (case TaskCreateNamed e DeviceRemove name w of
        ((None, err), w1) \<Rightarrow> (err, w1)
      | ((Some task, err), w1) \<Rightarrow>
          (case SetCookie e task (Some 0) 0 w1 of
             (Some err1, c, w2) \<Rightarrow> (Some (Errorf (''Can not set cookie: '' @ Error err1)), w2)
           | (None, c, w2) \<Rightarrow>
               (let cookie = (case c of None \<Rightarrow> 0 | Some v \<Rightarrow> v) in
                case Run e task (w2\<lparr>dmSawBusy := False\<rparr>) of
                  (Some err2, w3) \<Rightarrow>
                    (if dmSawBusy w3
                     then (Some ErrBusy, snd (UdevWait e cookie w3))
                     else (Some (Errorf (''Error running RemoveDevice '' @ Error err2)),
                           snd (UdevWait e cookie w3)))
                | (None, w3) \<Rightarrow> (None, snd (UdevWait e cookie w3)))))"

definition GetInfo :: "engine \<Rightarrow> string \<Rightarrow> world \<Rightarrow> (Info option \<times> error option) \<times> world" where
  "GetInfo e name w =
     (case TaskCreateNamed e DeviceInfo name w of
        ((None, err), w1) \<Rightarrow> ((None, err), w1)
      | ((Some task, err), w1) \<Rightarrow>
          (case Run e task w1 of
             (Some err1, w2) \<Rightarrow> ((None, Some err1), w2)
           | (None, w2) \<Rightarrow> GetInfo_task e task w2))"

text \<open>
  \<open>GetStatus\<close> reads \<open>devinfo.Exists\<close> once \<open>GetInfo\<close> has returned a nil error. The
  method never returns a nil \<open>Info\<close> with a nil error (lemma \<open>GetInfo_task_not_nil\<close>
  below), so the branch written for that case is never taken.
\<close>

definition GetStatus ::
  "engine \<Rightarrow> string \<Rightarrow> world \<Rightarrow> (64 word \<times> 64 word \<times> string \<times> string \<times> error option) \<times> world"
where
  "GetStatus e name w =
     (case TaskCreateNamed e DeviceStatus name w of
        ((None, err), w1) \<Rightarrow> ((0, 0, [], [], err), w1)
      | ((Some task, err), w1) \<Rightarrow>
          (case Run e task w1 of
             (Some err1, w2) \<Rightarrow> ((0, 0, [], [], Some err1), w2)
           | (None, w2) \<Rightarrow>
               (case GetInfo_task e task w2 of
                  ((devinfo, Some err2), w3) \<Rightarrow> ((0, 0, [], [], Some err2), w3)
                | ((None, None), w3) \<Rightarrow> ((0, 0, [], [], None), w3)
                | ((Some devinfo, None), w3) \<Rightarrow>
                    (if Exists devinfo = 0
                     then ((0, 0, [], [], Some (Errorf (''Non existing device '' @ name))), w3)
                     else (case GetNextTarget e task 0 w3 of
                             ((nxt, start, len, targetType, params), w4) \<Rightarrow>
                               ((start, len, targetType, params, None), w4))))))"

definition SuspendDevice :: "engine \<Rightarrow> string \<Rightarrow> world \<Rightarrow> error option \<times> world" where
  "SuspendDevice e name w =
     (case TaskCreateNamed e DeviceSuspend name w of
        ((None, err), w1) \<Rightarrow> (err, w1)
      | ((Some task, err), w1) \<Rightarrow>
          (case Run e task w1 of
             (Some err1, w2) \<Rightarrow> (Some (Errorf (''Error running DeviceSuspend '' @ Error err1)), w2)
           | (None, w2) \<Rightarrow> (None, w2)))"

definition ResumeDevice :: "engine \<Rightarrow> string \<Rightarrow> world \<Rightarrow> error option \<times> world" where
  "ResumeDevice e name w =
     (case TaskCreateNamed e DeviceResume name w of
        ((None, err), w1) \<Rightarrow> (err, w1)
      | ((Some task, err), w1) \<Rightarrow>
          (case SetCookie e task (Some 0) 0 w1 of
             (Some err1, c, w2) \<Rightarrow> (Some (Errorf (''Can't set cookie '' @ Error err1)), w2)
           | (None, c, w2) \<Rightarrow>
               (let cookie = (case c of None \<Rightarrow> 0 | Some v \<Rightarrow> v) in
                case Run e task w2 of
                  (Some err2, w3) \<Rightarrow>
                    (Some (Errorf (''Error running DeviceResume '' @ Error err2)),
                     snd (UdevWait e cookie w3))
                | (None, w3) \<Rightarrow> (None, snd (UdevWait e cookie w3)))))"

text \<open>
  \<open>CreateDevice\<close> is one unbounded loop. The caller's slot \<open>*deviceId\<close> is passed in and
  returned; \<open>*deviceId++\<close> wraps as Go's \<open>int\<close> does. A call that never leaves the loop
  has the value \<open>None\<close>.
\<close>

partial_function (option) CreateDevice ::
  "engine \<Rightarrow> string \<Rightarrow> world \<Rightarrow> 64 word \<Rightarrow> (error option \<times> world \<times> 64 word) option"
where
  "CreateDevice e poolName w deviceId =
     (case TaskCreateNamed e DeviceTargetMsg poolName w of
        ((None, err), w1) \<Rightarrow> Some (err, w1, deviceId)
      | ((Some task, err), w1) \<Rightarrow>
          (case SetSector e task 0 w1 of
             (Some err1, w2) \<Rightarrow>
               Some (Some (Errorf (''Can't set sector '' @ Error err1)), w2, deviceId)
           | (None, w2) \<Rightarrow>
               (case SetMessage e task (''create_thin '' @ fmt_d (sint deviceId)) w2 of
                  (Some err2, w3) \<Rightarrow>
                    Some (Some (Errorf (''Can't set message '' @ Error err2)), w3, deviceId)
                | (None, w3) \<Rightarrow>
                    (case Run e task (w3\<lparr>dmSawExist := False\<rparr>) of
                       (Some err3, w4) \<Rightarrow>
                         (if dmSawExist w4
                          then CreateDevice e poolName w4 (deviceId + 1)
                          else Some (Some (Errorf (''Error running CreateDevice '' @ Error err3)),
                                     w4, deviceId))
                     | (None, w4) \<Rightarrow> Some (None, w4, deviceId)))))"

declare CreateDevice.simps [code]

text \<open>
  The loop of \<open>CreateSnapDevice\<close> is left either by a \<open>return\<close> or by \<open>break\<close>; the
  code after the loop runs in the second case only.
\<close>

datatype loop_exit = Return "error option" | Break

partial_function (option) CreateSnapDevice_loop ::
  "engine \<Rightarrow> string \<Rightarrow> string \<Rightarrow> 64 word \<Rightarrow> bool \<Rightarrow> world \<Rightarrow> 64 word
     \<Rightarrow> (loop_exit \<times> world \<times> 64 word) option"
where
  "CreateSnapDevice_loop e poolName baseName baseDeviceId doSuspend w deviceId =
     (case TaskCreateNamed e DeviceTargetMsg poolName w of
        ((None, err), w1) \<Rightarrow>
          Some (Return err,
                (if doSuspend then snd (ResumeDevice e baseName w1) else w1), deviceId)
      | ((Some task, err), w1) \<Rightarrow>
          (case SetSector e task 0 w1 of
             (Some err1, w2) \<Rightarrow>
               Some (Return (Some (Errorf (''Can't set sector '' @ Error err1))),
                     (if doSuspend then snd (ResumeDevice e baseName w2) else w2), deviceId)
           | (None, w2) \<Rightarrow>
               (case SetMessage e task
                       (''create_snap '' @ fmt_d (sint deviceId) @ '' ''
                          @ fmt_d (sint baseDeviceId)) w2 of
                  (Some err2, w3) \<Rightarrow>
                    Some (Return (Some (Errorf (''Can't set message '' @ Error err2))),
                          (if doSuspend then snd (ResumeDevice e baseName w3) else w3),
                          deviceId)
                | (None, w3) \<Rightarrow>
                    (case Run e task (w3\<lparr>dmSawExist := False\<rparr>) of
                       (Some err3, w4) \<Rightarrow>
                         (if dmSawExist w4
                          then CreateSnapDevice_loop e poolName baseName baseDeviceId doSuspend
                                 w4 (deviceId + 1)
                          else Some (Return (Some (Errorf
                                       (''Error running DeviceCreate (createSnapDevice) ''
                                          @ Error err3))),
                                     (if doSuspend then snd (ResumeDevice e baseName w4) else w4),
                                     deviceId))
                     | (None, w4) \<Rightarrow> Some (Break, w4, deviceId)))))"

declare CreateSnapDevice_loop.simps [code]

definition CreateSnapDevice ::
  "engine \<Rightarrow> string \<Rightarrow> 64 word \<Rightarrow> string \<Rightarrow> 64 word \<Rightarrow> world
     \<Rightarrow> (error option \<times> world \<times> 64 word) option"
where
  "CreateSnapDevice e poolName deviceId baseName baseDeviceId w =
     (case GetInfo e baseName w of
        ((devinfo, ierr), w0) \<Rightarrow>
          (let doSuspend = (case devinfo of None \<Rightarrow> False | Some i \<Rightarrow> Exists i \<noteq> 0) in
           case (if doSuspend then SuspendDevice e baseName w0 else (None, w0)) of
             (Some err, w1) \<Rightarrow> Some (Some err, w1, deviceId)
           | (None, w1) \<Rightarrow>
               (case CreateSnapDevice_loop e poolName baseName baseDeviceId doSuspend
                       w1 deviceId of
                  None \<Rightarrow> None
                | Some (Return err, w2, deviceId') \<Rightarrow> Some (err, w2, deviceId')
                | Some (Break, w2, deviceId') \<Rightarrow>
                    (if doSuspend
                     then (case ResumeDevice e baseName w2 of
                             (Some err, w3) \<Rightarrow> Some (Some err, w3, deviceId')
                           | (None, w3) \<Rightarrow> Some (None, w3, deviceId'))
                     else Some (None, w2, deviceId')))))"

subsection \<open>Reading a trace\<close>

text \<open>
  What the claims observe is read off the trace. \<open>kinds\<close> follows which task type each
  address was created with.
\<close>

fun kinds :: "(CDmTask \<rightharpoonup> TaskType) \<Rightarrow> event list \<Rightarrow> (CDmTask \<rightharpoonup> TaskType)" where
  "kinds K [] = K"
| "kinds K ((DmTaskCreate ty, r, l) # evs) = kinds (K(r \<mapsto> ty)) evs"
| "kinds K (ev # evs) = kinds K evs"

text \<open>The text last given to \<open>DmTaskSetMessage\<close> for a task, \<open>m\<close> when there is none.\<close>

fun last_message :: "event list \<Rightarrow> CDmTask \<Rightarrow> string \<Rightarrow> string" where
  "last_message [] t m = m"
| "last_message ((DmTaskSetMessage t' s, r, l) # evs) t m =
     last_message evs t (if t' = t then s else m)"
| "last_message (ev # evs) t m = last_message evs t m"

text \<open>
  A run failure classified as already-exists: a \<open>DmTaskRun\<close> of a target-message task
  that did not return 1 and during which the callback saw an existing device.
\<close>

fun exist_failure :: "(CDmTask \<rightharpoonup> TaskType) \<Rightarrow> event \<Rightarrow> bool" where
  "exist_failure K (DmTaskRun t, r, busy, exist) =
     (K t = Some DeviceTargetMsg \<and> r \<noteq> 1 \<and> exist)"
| "exist_failure K ev = False"

fun exist_failures :: "(CDmTask \<rightharpoonup> TaskType) \<Rightarrow> event list \<Rightarrow> nat" where
  "exist_failures K [] = 0"
| "exist_failures K (ev # evs) =
     (if exist_failure K ev then 1 else 0) + exist_failures (kinds K [ev]) evs"

definition calls :: "event list \<Rightarrow> call list" where
  "calls tr = map fst tr"

text \<open>
  \<open>ResumeDevice\<close> and \<open>SuspendDevice\<close> start by creating a task of their type, and no
  other function of the package creates one: their calls are counted by these events.
\<close>

definition resume_calls :: "event list \<Rightarrow> nat" where
  "resume_calls tr = length (filter (\<lambda>c. c = DmTaskCreate DeviceResume) (calls tr))"

definition suspend_calls :: "event list \<Rightarrow> nat" where
  "suspend_calls tr = length (filter (\<lambda>c. c = DmTaskCreate DeviceSuspend) (calls tr))"

fun is_run :: "call \<Rightarrow> bool" where
  "is_run (DmTaskRun t) = True"
| "is_run c = False"

fun is_message :: "call \<Rightarrow> bool" where
  "is_message (DmTaskSetMessage t s) = True"
| "is_message c = False"

fun is_next_target :: "call \<Rightarrow> bool" where
  "is_next_target (DmGetNextTarget t n) = True"
| "is_next_target c = False"

subsection \<open>A simulated engine\<close>

text \<open>
  An engine to run the package against. Task addresses are fresh and never nil unless
  the task type is in \<open>nil_kinds\<close>; a run fails when the task's type is in \<open>fail_kinds\<close>
  (the callback then sees a busy message if \<open>busy\<close>) or when the task's message is one
  of \<open>taken\<close> (the callback then sees an existing device); every other call returns 1.
  The info query reports the existence flag \<open>ex\<close>.
\<close>

definition sim_run_fails :: "(TaskType \<Rightarrow> bool) \<Rightarrow> event list \<Rightarrow> CDmTask \<Rightarrow> bool" where
  "sim_run_fails fail_kinds h t =
     (case kinds Map.empty h t of None \<Rightarrow> False | Some k \<Rightarrow> fail_kinds k)"

definition sim_info :: "int \<Rightarrow> Info" where
  "sim_info ex =
     \<lparr>Exists = ex, Suspended = 0, LiveTable = 1, InactiveTable = 0, OpenCount = 0,
      EventNr = 0, Major = 253, Minor = 0, ReadOnly = 0, TargetCount = 1\<rparr>"

definition sim_engine ::
  "(TaskType \<Rightarrow> bool) \<Rightarrow> (TaskType \<Rightarrow> bool) \<Rightarrow> bool \<Rightarrow> string list \<Rightarrow> int \<Rightarrow> engine"
where
  "sim_engine nil_kinds fail_kinds busy taken ex =
     \<lparr>result = (\<lambda>h c. case c of
          DmTaskCreate ty \<Rightarrow> (if nil_kinds ty then 0 else int (length h) + 1)
        | DmTaskRun t \<Rightarrow>
            (if sim_run_fails fail_kinds h t \<or> last_message h t [] \<in> set taken then 0 else 1)
        | _ \<Rightarrow> 1),
      logged = (\<lambda>h c. case c of
          DmTaskRun t \<Rightarrow>
            (sim_run_fails fail_kinds h t \<and> busy, last_message h t [] \<in> set taken)
        | _ \<Rightarrow> (False, False)),
      get_info = (\<lambda>h c. sim_info ex),
      cookie_out = (\<lambda>h c. 7),
      next_target = (\<lambda>h c. (0, 1024, ''thin'', ''pool 5''))\<rparr>"

definition world0 :: world where
  "world0 = \<lparr>trace = [], dmSawBusy = False, dmSawExist = False\<rparr>"

definition no_kind :: "TaskType \<Rightarrow> bool" where
  "no_kind k = False"

text \<open>The engines the properties below are run against.\<close>

definition healthy :: engine where
  "healthy = sim_engine no_kind no_kind False [] 1"

definition absent :: engine where
  "absent = sim_engine no_kind no_kind False [] 0"

definition busy_remove :: engine where
  "busy_remove = sim_engine no_kind (\<lambda>k. k = DeviceRemove) True [] 1"

definition failing_remove :: engine where
  "failing_remove = sim_engine no_kind (\<lambda>k. k = DeviceRemove) False [] 1"

definition ids_taken :: engine where
  "ids_taken =
     sim_engine no_kind no_kind False [''create_thin 5'', ''create_thin 6'', ''create_thin 7''] 1"

definition msg_fails :: engine where
  "msg_fails = sim_engine no_kind (\<lambda>k. k = DeviceTargetMsg) False [] 1"

definition msg_and_resume_fail :: engine where
  "msg_and_resume_fail =
     sim_engine no_kind (\<lambda>k. k = DeviceTargetMsg \<or> k = DeviceResume) False [] 1"

definition info_fails :: engine where
  "info_fails = sim_engine no_kind (\<lambda>k. k = DeviceInfo) False [''create_snap 5 2''] 1"

definition snap_taken :: engine where
  "snap_taken = sim_engine no_kind no_kind False [''create_snap 5 2''] 0"


definition resume_fails :: engine where
  "resume_fails = sim_engine no_kind (\<lambda>k. k = DeviceResume) False [] 1"

text \<open>
  The world of \<open>CreateSnapDevice\<close> on \<open>msg_and_resume_fail\<close> (pool "pool", id 5, origin
  "base" with id 2) when the run of the create_snap message has just failed.
\<close>

definition rollback_world :: world where
  "rollback_world =
     snd (Run msg_and_resume_fail \<lparr>unmanaged = 8\<rparr>
       ((snd (SetMessage msg_and_resume_fail \<lparr>unmanaged = 8\<rparr> ''create_snap 5 2''
         (snd (SetSector msg_and_resume_fail \<lparr>unmanaged = 8\<rparr> 0
           (snd (TaskCreateNamed msg_and_resume_fail DeviceTargetMsg ''pool''
             (snd (SuspendDevice msg_and_resume_fail ''base''
               (snd (GetInfo msg_and_resume_fail ''base'' world0))))))))))
        \<lparr>dmSawExist := False\<rparr>))"

text \<open>The world after the healthy engine has created a task and run it once.\<close>

definition ran_once :: world where
  "ran_once =
     snd (Run healthy \<lparr>unmanaged = 1\<rparr> (snd (TaskCreate healthy DeviceCreate world0)))"

subsection \<open>Stretches of a trace\<close>

text \<open>
  \<open>step w c rc l w'\<close>: from \<open>w\<close>, the one native call \<open>c\<close>, answered \<open>rc\<close> with the log
  flags \<open>l\<close>, leads to \<open>w'\<close>.
\<close>

definition step :: "world \<Rightarrow> call \<Rightarrow> int \<Rightarrow> bool \<times> bool \<Rightarrow> world \<Rightarrow> bool" where
  "step w c rc l w' \<longleftrightarrow>
     trace w' = trace w @ [(c, rc, l)] \<and> dmSawBusy w' = (dmSawBusy w \<or> fst l)
       \<and> dmSawExist w' = (dmSawExist w \<or> snd l)"

definition first_call :: "event list \<Rightarrow> call option" where
  "first_call seg = (case seg of [] \<Rightarrow> None | ev # evs \<Rightarrow> Some (fst ev))"

definition silent :: "event list \<Rightarrow> bool" where
  "silent seg \<longleftrightarrow> filter is_message (calls seg) = [] \<and> filter is_next_target (calls seg) = []"

text \<open>
  A stretch without messages and without already-exists failures, with \<open>rs\<close> calls of
  \<open>ResumeDevice\<close> and \<open>ss\<close> calls of \<open>SuspendDevice\<close>.
\<close>

definition plain :: "event list \<Rightarrow> nat \<Rightarrow> nat \<Rightarrow> bool" where
  "plain seg rs ss \<longleftrightarrow>
     silent seg \<and> (\<forall>K. exist_failures K seg = 0) \<and> resume_calls seg = rs \<and> suspend_calls seg = ss"


text \<open>The same for the loop of \<open>CreateSnapDevice\<close>, entered with \<open>doSuspend = ds\<close>.\<close>

definition snap_loop_post ::
  "bool \<Rightarrow> 64 word \<Rightarrow> world \<Rightarrow> 64 word \<Rightarrow> loop_exit \<times> world \<times> 64 word \<Rightarrow> bool" where
  "snap_loop_post ds bid w i y \<longleftrightarrow>
     (\<exists>seg. trace (fst (snd y)) = trace w @ seg
        \<and> first_call seg = Some (DmTaskCreate DeviceTargetMsg)
        \<and> fst y \<noteq> Return None
        \<and> suspend_calls seg = 0
        \<and> resume_calls seg = (if ds \<and> fst y \<noteq> Break then 1 else 0)
        \<and> (\<forall>K. snd (snd y) = i + of_nat (exist_failures K seg))
        \<and> (fst y = Break \<or> fst y = Return (Some (Errorf
               ''Error running DeviceCreate (createSnapDevice) dm_task_run failed''))
             \<longrightarrow> filter is_message (calls seg) \<noteq> []
               \<and> (\<exists>t. last (filter is_message (calls seg))
                     = DmTaskSetMessage t (''create_snap '' @ fmt_d (sint (snd (snd y))) @ '' ''
                          @ fmt_d (sint bid)))))"

subsection \<open>The iterations of the two loops\<close>

text \<open>
  The states in which the loop of \<open>CreateDevice\<close> or of \<open>CreateSnapDevice\<close> starts an
  iteration, from the state \<open>s\<close> it was entered in: \<open>s\<close> itself, and the state after an
  iteration whose task was built and whose run failed with the already-exists flag set,
  which is where the code says \<open>*deviceId++; continue\<close>. \<open>msg\<close> is the message of the loop
  as a function of the id.
\<close>

inductive loop_reaches ::
  "engine \<Rightarrow> string \<Rightarrow> (64 word \<Rightarrow> string) \<Rightarrow> world \<times> 64 word \<Rightarrow> world \<times> 64 word \<Rightarrow> bool"
  for e :: engine and p :: string and msg :: "64 word \<Rightarrow> string"
where
  entered: "loop_reaches e p msg s s"
| retried:
    "loop_reaches e p msg s (w, i) \<Longrightarrow>
     TaskCreateNamed e DeviceTargetMsg p w = ((Some task, err), w1) \<Longrightarrow>
     SetSector e task 0 w1 = (None, w2) \<Longrightarrow>
     SetMessage e task (msg i) w2 = (None, w3) \<Longrightarrow>
     Run e task (w3\<lparr>dmSawExist := False\<rparr>) = (Some err3, w4) \<Longrightarrow>
     dmSawExist w4 \<Longrightarrow>
     loop_reaches e p msg s (w4, i + 1)"

subsection \<open>Whether a device is left suspended\<close>

text \<open>
  The state of a device is the engine's. What the package can know of it is what the
  library answered: a device is suspended once a suspend task named for it has run with
  result 1, until a resume task named for it runs with result 1. \<open>sus_step\<close> follows the
  type and the name of every task along a trace, and with them that state for the
  device \<open>n\<close>.
\<close>

fun sus_step ::
  "string \<Rightarrow> (CDmTask \<rightharpoonup> TaskType) \<times> (CDmTask \<rightharpoonup> string) \<times> bool \<Rightarrow> event
     \<Rightarrow> (CDmTask \<rightharpoonup> TaskType) \<times> (CDmTask \<rightharpoonup> string) \<times> bool"
where
  "sus_step n (K, N, s) (DmTaskCreate ty, r, l) = (K(r \<mapsto> ty), N(r := None), s)"
| "sus_step n (K, N, s) (DmTaskSetName t nm, r, l) = (K, (if r = 1 then N(t \<mapsto> nm) else N), s)"
| "sus_step n (K, N, s) (DmTaskRun t, r, l) =
     (K, N,
      if r = 1 \<and> N t = Some n
      then (if K t = Some DeviceSuspend then True
            else if K t = Some DeviceResume then False else s)
      else s)"
| "sus_step n (K, N, s) ev = (K, N, s)"

definition left_suspended :: "string \<Rightarrow> event list \<Rightarrow> bool" where
  "left_suspended n tr = snd (snd (foldl (sus_step n) (Map.empty, Map.empty, False) tr))"


text \<open>A stretch of the trace in which no task has run with result 1.\<close>

definition quiet_runs :: "event list \<Rightarrow> bool" where
  "quiet_runs seg = list_all (\<lambda>ev. \<not> (is_run (fst ev) \<and> fst (snd ev) = 1)) seg"

section \<open>Lemmas on traces\<close>

lemma kinds_append: "kinds K (xs @ ys) = kinds (kinds K xs) ys"
  by (induction K xs rule: kinds.induct) (simp_all add: fun_upd_def)

lemma exist_failures_append:
  "exist_failures K (xs @ ys) = exist_failures K xs + exist_failures (kinds K xs) ys"
proof (induction xs arbitrary: K)
  case Nil
  show ?case by simp
next
  case (Cons ev xs)
  have "kinds K (ev # xs) = kinds (kinds K [ev]) xs"
    using kinds_append [of K "[ev]" xs] by simp
  with Cons show ?case by simp
qed

lemma resume_calls_append: "resume_calls (xs @ ys) = resume_calls xs + resume_calls ys"
  by (simp add: resume_calls_def calls_def)

lemma suspend_calls_append: "suspend_calls (xs @ ys) = suspend_calls xs + suspend_calls ys"
  by (simp add: suspend_calls_def calls_def)


lemma messages_append:
  "filter is_message (calls (xs @ ys)) = filter is_message (calls xs) @ filter is_message (calls ys)"
  by (simp add: calls_def)


lemma first_call_append: "first_call seg = Some c \<Longrightarrow> first_call (seg @ rest) = Some c"
  by (cases seg) (simp_all add: first_call_def)

lemma exist_failure_iff:
  "exist_failure K (c, r, l) = (\<exists>t. c = DmTaskRun t \<and> K t = Some DeviceTargetMsg \<and> r \<noteq> 1 \<and> snd l)"
  by (cases c; cases l) auto

text \<open>One native call adds one event.\<close>

lemma TaskCreate_step:
  assumes "TaskCreate e ty w = (t, w')"
  shows "\<exists>rc l. step w (DmTaskCreate ty) rc l w' \<and> (rc = 0 \<longrightarrow> t = None)
           \<and> (rc \<noteq> 0 \<longrightarrow> t = Some \<lparr>unmanaged = rc\<rparr>)"
  apply (rule exI [of _ "result e (trace w) (DmTaskCreate ty)"])
  apply (rule exI [of _ "logged e (trace w) (DmTaskCreate ty)"])
  using assms by (auto simp: TaskCreate_def Let_def step_def native_def split: if_splits)

lemma SetName_step:
  assumes "SetName e t n w = (r, w')"
  shows "\<exists>rc l. step w (DmTaskSetName (unmanaged t) n) rc l w' \<and> (r = None \<longleftrightarrow> rc = 1)"
  apply (rule exI [of _ "result e (trace w) (DmTaskSetName (unmanaged t) n)"])
  apply (rule exI [of _ "logged e (trace w) (DmTaskSetName (unmanaged t) n)"])
  using assms by (auto simp: SetName_def step_def native_def split: if_splits)

lemma SetSector_step:
  assumes "SetSector e t n w = (r, w')"
  shows "\<exists>rc l. step w (DmTaskSetSector (unmanaged t) n) rc l w' \<and> (r = None \<longleftrightarrow> rc = 1)"
  apply (rule exI [of _ "result e (trace w) (DmTaskSetSector (unmanaged t) n)"])
  apply (rule exI [of _ "logged e (trace w) (DmTaskSetSector (unmanaged t) n)"])
  using assms by (auto simp: SetSector_def step_def native_def split: if_splits)

lemma SetMessage_step:
  assumes "SetMessage e t n w = (r, w')"
  shows "\<exists>rc l. step w (DmTaskSetMessage (unmanaged t) n) rc l w' \<and> (r = None \<longleftrightarrow> rc = 1)"
  apply (rule exI [of _ "result e (trace w) (DmTaskSetMessage (unmanaged t) n)"])
  apply (rule exI [of _ "logged e (trace w) (DmTaskSetMessage (unmanaged t) n)"])
  using assms by (auto simp: SetMessage_def step_def native_def split: if_splits)

lemma Run_step:
  assumes "Run e t w = (r, w')"
  shows "\<exists>rc l. step w (DmTaskRun (unmanaged t)) rc l w' \<and> (r = None \<longleftrightarrow> rc = 1)
           \<and> (r \<noteq> None \<longrightarrow> r = Some ErrTaskRun)"
  apply (rule exI [of _ "result e (trace w) (DmTaskRun (unmanaged t))"])
  apply (rule exI [of _ "logged e (trace w) (DmTaskRun (unmanaged t))"])
  using assms by (auto simp: Run_def step_def native_def split: if_splits)

lemma UdevWait_step:
  assumes "UdevWait e c w = (r, w')"
  shows "\<exists>rc l. step w (DmUdevWait c) rc l w' \<and> (r = None \<longleftrightarrow> rc = 1)"
  apply (rule exI [of _ "result e (trace w) (DmUdevWait c)"])
  apply (rule exI [of _ "logged e (trace w) (DmUdevWait c)"])
  using assms by (auto simp: UdevWait_def step_def native_def split: if_splits)

lemma GetInfo_task_step:
  assumes "GetInfo_task e t w = (r, w')"
  shows "\<exists>rc l. step w (DmTaskGetInfo (unmanaged t)) rc l w'"
  apply (rule exI [of _ "result e (trace w) (DmTaskGetInfo (unmanaged t))"])
  apply (rule exI [of _ "logged e (trace w) (DmTaskGetInfo (unmanaged t))"])
  using assms by (auto simp: GetInfo_task_def step_def native_def split: if_splits)

lemma SetCookie_step:
  assumes "SetCookie e t (Some c) f w = (r, c', w')"
  shows "\<exists>rc l. step w (DmTaskSetCookie (unmanaged t) c f) rc l w' \<and> (r = None \<longleftrightarrow> rc = 1)
           \<and> c' \<noteq> None"
  apply (rule exI [of _ "result e (trace w) (DmTaskSetCookie (unmanaged t) c f)"])
  apply (rule exI [of _ "logged e (trace w) (DmTaskSetCookie (unmanaged t) c f)"])
  using assms by (auto simp: SetCookie_def step_def native_def split: if_splits)

text \<open>What a stretch of the trace shows.\<close>

lemma TaskCreateNamed_trace:
  assumes "TaskCreateNamed e ty n w = ((t, err), w1)"
  shows "\<exists>seg. trace w1 = trace w @ seg \<and> silent seg
           \<and> first_call seg = Some (DmTaskCreate ty)
           \<and> filter is_run (calls seg) = []
           \<and> (\<forall>K. exist_failures K seg = 0)
           \<and> resume_calls seg = (if ty = DeviceResume then 1 else 0)
           \<and> suspend_calls seg = (if ty = DeviceSuspend then 1 else 0)
           \<and> (\<forall>task K. t = Some task \<longrightarrow> kinds K seg (unmanaged task) = Some ty)"
proof -
  obtain t0 w0 where c: "TaskCreate e ty w = (t0, w0)"
    by (cases "TaskCreate e ty w")
  from TaskCreate_step [OF c] obtain rc l where
    s0: "step w (DmTaskCreate ty) rc l w0" and
    nil: "rc = 0 \<longrightarrow> t0 = None" and ok: "rc \<noteq> 0 \<longrightarrow> t0 = Some \<lparr>unmanaged = rc\<rparr>"
    by blast
  show ?thesis
  proof (cases "rc = 0")
    case True
    with nil c assms have "w1 = w0" "t = None"
      by (auto simp: TaskCreateNamed_def)
    with s0 show ?thesis
      by (auto simp: step_def silent_def calls_def resume_calls_def suspend_calls_def
            exist_failure_iff first_call_def)
  next
    case False
    with ok have t0: "t0 = Some \<lparr>unmanaged = rc\<rparr>" by simp
    obtain r2 w2 where sn: "SetName e \<lparr>unmanaged = rc\<rparr> n w0 = (r2, w2)"
      by (cases "SetName e \<lparr>unmanaged = rc\<rparr> n w0")
    from SetName_step [OF sn] obtain rc2 l2 where
      s2: "step w0 (DmTaskSetName rc n) rc2 l2 w2"
      by auto
    from assms c t0 sn have "w1 = w2" "t = None \<or> t = Some \<lparr>unmanaged = rc\<rparr>"
      by (auto simp: TaskCreateNamed_def split: option.splits)
    with s0 s2 show ?thesis
      by (auto simp: step_def silent_def calls_def resume_calls_def suspend_calls_def
            exist_failure_iff first_call_def)
  qed
qed


lemma plain_Nil: "plain [] 0 0"
  by (simp add: plain_def silent_def calls_def resume_calls_def suspend_calls_def)

lemma plain_append:
  "plain xs a b \<Longrightarrow> plain ys c d \<Longrightarrow> plain (xs @ ys) (a + c) (b + d)"
  by (simp add: plain_def silent_def calls_def resume_calls_def suspend_calls_def
        exist_failures_append)

lemma kinds_single: "(\<And>ty. c \<noteq> DmTaskCreate ty) \<Longrightarrow> kinds K [(c, rc, l)] = K"
  by (cases c) auto

lemma TaskCreateNamed_plain:
  assumes "TaskCreateNamed e ty n w = ((t, err), w1)"
  shows "\<exists>seg. trace w1 = trace w @ seg
           \<and> plain seg (if ty = DeviceResume then 1 else 0) (if ty = DeviceSuspend then 1 else 0)
           \<and> first_call seg = Some (DmTaskCreate ty)
           \<and> filter is_run (calls seg) = []
           \<and> (\<forall>task K. t = Some task \<longrightarrow> kinds K seg (unmanaged task) = Some ty)"
  using TaskCreateNamed_trace [OF assms] unfolding plain_def by blast

lemma TaskCreateNamed_err:
  assumes "TaskCreateNamed e ty n w = ((None, err), w1)"
  shows "\<exists>s. err = Some (Errorf (''Can't '' @ s))"
  using assms
  by (auto simp: TaskCreateNamed_def split: prod.splits option.splits)

text \<open>A function that runs one task of a type other than target-message.\<close>

lemmas kind_defs = DeviceTargetMsg_def DeviceResume_def DeviceSuspend_def DeviceInfo_def
  DeviceRemove_def DeviceStatus_def

lemma plain_event:
  assumes "\<not> is_message c" "\<not> is_next_target c" "\<And>ty. c \<noteq> DmTaskCreate ty" "\<not> is_run c"
  shows "plain [(c, rc, l)] 0 0"
  using assms
  by (auto simp: plain_def silent_def calls_def resume_calls_def suspend_calls_def
        exist_failure_iff)

lemma plain_snoc_run:
  assumes "plain seg a b" "\<forall>K. kinds K seg t = Some ty" "ty \<noteq> DeviceTargetMsg"
  shows "plain (seg @ [(DmTaskRun t, rc, l)]) a b"
  using assms
  by (auto simp: plain_def silent_def calls_def resume_calls_def suspend_calls_def
        exist_failure_iff exist_failures_append)

lemma plain_snoc:
  assumes "plain seg a b" "plain [ev] 0 0"
  shows "plain (seg @ [ev]) a b"
  using plain_append [OF assms] by simp

lemma kinds_snoc:
  "(\<And>ty. c \<noteq> DmTaskCreate ty) \<Longrightarrow> kinds K (seg @ [(c, rc, l)]) = kinds K seg"
  by (simp add: kinds_append kinds_single)

lemma SuspendDevice_trace:
  "\<exists>seg. trace (snd (SuspendDevice e n w)) = trace w @ seg \<and> plain seg 0 1"
proof -
  obtain t err w1 where c: "TaskCreateNamed e DeviceSuspend n w = ((t, err), w1)"
    by (metis surj_pair)
  from TaskCreateNamed_plain [OF c] obtain seg1 where
    s1: "trace w1 = trace w @ seg1" "plain seg1 0 1"
      "\<forall>task K. t = Some task \<longrightarrow> kinds K seg1 (unmanaged task) = Some DeviceSuspend"
    by (auto simp: kind_defs)
  show ?thesis
  proof (cases t)
    case None
    with c have "snd (SuspendDevice e n w) = w1" by (simp add: SuspendDevice_def)
    with s1 show ?thesis by auto
  next
    case (Some task)
    obtain r2 w2 where r: "Run e task w1 = (r2, w2)" by (metis surj_pair)
    from Run_step [OF r] obtain rc l where s2: "step w1 (DmTaskRun (unmanaged task)) rc l w2"
      by blast
    from c Some r have w: "snd (SuspendDevice e n w) = w2"
      by (auto simp: SuspendDevice_def split: option.splits)
    have "plain (seg1 @ [(DmTaskRun (unmanaged task), rc, l)]) 0 1"
      using plain_snoc_run [OF s1(2)] s1(3) Some by (simp add: kind_defs)
    with w s1(1) s2 show ?thesis by (auto simp: step_def)
  qed
qed

lemma GetInfo_trace:
  "\<exists>seg. trace (snd (GetInfo e n w)) = trace w @ seg \<and> plain seg 0 0"
proof -
  obtain t err w1 where c: "TaskCreateNamed e DeviceInfo n w = ((t, err), w1)"
    by (metis surj_pair)
  from TaskCreateNamed_plain [OF c] obtain seg1 where
    s1: "trace w1 = trace w @ seg1" "plain seg1 0 0"
      "\<forall>task K. t = Some task \<longrightarrow> kinds K seg1 (unmanaged task) = Some DeviceInfo"
    by (auto simp: kind_defs)
  show ?thesis
  proof (cases t)
    case None
    with c have "snd (GetInfo e n w) = w1" by (simp add: GetInfo_def)
    with s1 show ?thesis by auto
  next
    case (Some task)
    obtain r2 w2 where r: "Run e task w1 = (r2, w2)" by (metis surj_pair)
    from Run_step [OF r] obtain rc l where s2: "step w1 (DmTaskRun (unmanaged task)) rc l w2"
      by blast
    have p2: "plain (seg1 @ [(DmTaskRun (unmanaged task), rc, l)]) 0 0"
      using plain_snoc_run [OF s1(2)] s1(3) Some by (simp add: kind_defs)
    show ?thesis
    proof (cases r2)
      case (Some err2)
      with c \<open>t = Some task\<close> r have "snd (GetInfo e n w) = w2"
        by (simp add: GetInfo_def)
      with p2 s1(1) s2 show ?thesis by (auto simp: step_def)
    next
      case None
      obtain r3 w3 where g: "GetInfo_task e task w2 = (r3, w3)" by (metis surj_pair)
      from GetInfo_task_step [OF g] obtain rc3 l3 where
        s3: "step w2 (DmTaskGetInfo (unmanaged task)) rc3 l3 w3" by blast
      from c \<open>t = Some task\<close> r None g have w: "snd (GetInfo e n w) = w3"
        by (simp add: GetInfo_def)
      have "plain ((seg1 @ [(DmTaskRun (unmanaged task), rc, l)])
               @ [(DmTaskGetInfo (unmanaged task), rc3, l3)]) 0 0"
        by (rule plain_snoc [OF p2]) (simp add: plain_event)
      with w s1(1) s2 s3 show ?thesis by (auto simp: step_def)
    qed
  qed
qed

lemma ResumeDevice_trace:
  "\<exists>seg. trace (snd (ResumeDevice e n w)) = trace w @ seg \<and> plain seg 1 0"
proof -
  obtain t err w1 where c: "TaskCreateNamed e DeviceResume n w = ((t, err), w1)"
    by (metis surj_pair)
  from TaskCreateNamed_plain [OF c] obtain seg1 where
    s1: "trace w1 = trace w @ seg1" "plain seg1 1 0"
      "\<forall>task K. t = Some task \<longrightarrow> kinds K seg1 (unmanaged task) = Some DeviceResume"
    by (auto simp: kind_defs)
  show ?thesis
  proof (cases t)
    case None
    with c have "snd (ResumeDevice e n w) = w1" by (simp add: ResumeDevice_def)
    with s1 show ?thesis by auto
  next
    case (Some task)
    obtain r2 c2 w2 where sc: "SetCookie e task (Some 0) 0 w1 = (r2, c2, w2)"
      by (metis surj_pair)
    from SetCookie_step [OF sc] obtain rc2 l2 where
      s2: "step w1 (DmTaskSetCookie (unmanaged task) 0 0) rc2 l2 w2" by blast
    let ?seg2 = "seg1 @ [(DmTaskSetCookie (unmanaged task) 0 0, rc2, l2)]"
    have p2: "plain ?seg2 1 0"
      by (rule plain_snoc [OF s1(2)]) (simp add: plain_event)
    have k2: "\<forall>K. kinds K ?seg2 (unmanaged task) = Some DeviceResume"
      using s1(3) Some by (simp add: kinds_snoc)
    have t2: "trace w2 = trace w @ ?seg2" using s1(1) s2 by (simp add: step_def)
    show ?thesis
    proof (cases r2)
      case (Some err2)
      with c \<open>t = Some task\<close> sc have "snd (ResumeDevice e n w) = w2"
        by (simp add: ResumeDevice_def)
      with p2 t2 show ?thesis by auto
    next
      case None
      obtain r3 w3 where r: "Run e task w2 = (r3, w3)" by (metis surj_pair)
      from Run_step [OF r] obtain rc3 l3 where
        s3: "step w2 (DmTaskRun (unmanaged task)) rc3 l3 w3" by blast
      let ?seg3 = "?seg2 @ [(DmTaskRun (unmanaged task), rc3, l3)]"
      have p3: "plain ?seg3 1 0"
        using plain_snoc_run [OF p2 k2] by (simp add: kind_defs)
      define ck where "ck = (case c2 of None \<Rightarrow> (0::64 word) | Some v \<Rightarrow> v)"
      obtain r4 w4 where u: "UdevWait e ck w3 = (r4, w4)" by (metis surj_pair)
      from UdevWait_step [OF u] obtain rc4 l4 where
        s4: "step w3 (DmUdevWait ck) rc4 l4 w4" by blast
      from c \<open>t = Some task\<close> sc None r u have w: "snd (ResumeDevice e n w) = w4"
        by (auto simp: ResumeDevice_def Let_def ck_def split: option.splits)
      have "plain (?seg3 @ [(DmUdevWait ck, rc4, l4)]) 1 0"
        by (rule plain_snoc [OF p3]) (simp add: plain_event)
      with w t2 s3 s4 show ?thesis by (auto simp: step_def)
    qed
  qed
qed



lemma iteration_setup:
  assumes c: "TaskCreateNamed e DeviceTargetMsg p w = ((Some task, err), w1)"
    and s: "SetSector e task 0 w1 = (r2, w2)"
  shows "\<exists>seg. trace w2 = trace w @ seg \<and> plain seg 0 0 \<and> filter is_run (calls seg) = []
           \<and> (\<forall>K. kinds K seg (unmanaged task) = Some DeviceTargetMsg)
           \<and> first_call seg = Some (DmTaskCreate DeviceTargetMsg)"
proof -
  from TaskCreateNamed_plain [OF c] obtain seg1 where
    s1: "trace w1 = trace w @ seg1" "plain seg1 0 0" "filter is_run (calls seg1) = []"
      "\<forall>K. kinds K seg1 (unmanaged task) = Some DeviceTargetMsg"
      "first_call seg1 = Some (DmTaskCreate DeviceTargetMsg)"
    by (auto simp: kind_defs)
  from SetSector_step [OF s] obtain rc l where
    s2: "step w1 (DmTaskSetSector (unmanaged task) 0) rc l w2" by blast
  let ?seg = "seg1 @ [(DmTaskSetSector (unmanaged task) 0, rc, l)]"
  have "plain ?seg 0 0"
    by (rule plain_snoc [OF s1(2)]) (simp add: plain_event)
  moreover have "trace w2 = trace w @ ?seg" using s1(1) s2 by (simp add: step_def)
  moreover have "filter is_run (calls ?seg) = []" using s1(3) by (simp add: calls_def)
  moreover have "\<forall>K. kinds K ?seg (unmanaged task) = Some DeviceTargetMsg"
    using s1(4) by (simp add: kinds_snoc)
  moreover have "first_call ?seg = Some (DmTaskCreate DeviceTargetMsg)"
    using s1(5) by (rule first_call_append)
  ultimately show ?thesis by blast
qed

lemma iteration_message:
  assumes c: "TaskCreateNamed e DeviceTargetMsg p w = ((Some task, err), w1)"
    and s: "SetSector e task 0 w1 = (r2, w2)"
    and m: "SetMessage e task msg w2 = (r3, w3)"
  shows "\<exists>seg. trace w3 = trace w @ seg \<and> (\<forall>K. exist_failures K seg = 0)
           \<and> resume_calls seg = 0 \<and> suspend_calls seg = 0
           \<and> filter is_message (calls seg) = [DmTaskSetMessage (unmanaged task) msg]
           \<and> filter is_next_target (calls seg) = []
           \<and> filter is_run (calls seg) = []
           \<and> (\<forall>K. kinds K seg (unmanaged task) = Some DeviceTargetMsg)
           \<and> first_call seg = Some (DmTaskCreate DeviceTargetMsg)"
proof -
  from iteration_setup [OF c s] obtain seg2 where
    s2: "trace w2 = trace w @ seg2" "plain seg2 0 0" "filter is_run (calls seg2) = []"
      "\<forall>K. kinds K seg2 (unmanaged task) = Some DeviceTargetMsg"
      "first_call seg2 = Some (DmTaskCreate DeviceTargetMsg)"
    by blast
  from SetMessage_step [OF m] obtain rc l where
    s3: "step w2 (DmTaskSetMessage (unmanaged task) msg) rc l w3" by blast
  let ?seg = "seg2 @ [(DmTaskSetMessage (unmanaged task) msg, rc, l)]"
  have "trace w3 = trace w @ ?seg" using s2(1) s3 by (simp add: step_def)
  moreover have "\<forall>K. exist_failures K ?seg = 0"
    using s2(2) by (simp add: plain_def exist_failures_append exist_failure_iff)
  moreover have "resume_calls ?seg = 0" "suspend_calls ?seg = 0"
    using s2(2) by (simp_all add: plain_def resume_calls_def suspend_calls_def calls_def)
  moreover have "filter is_message (calls ?seg) = [DmTaskSetMessage (unmanaged task) msg]"
    "filter is_next_target (calls ?seg) = []"
    using s2(2) by (simp_all add: plain_def silent_def calls_def)
  moreover have "filter is_run (calls ?seg) = []" using s2(3) by (simp add: calls_def)
  moreover have "\<forall>K. kinds K ?seg (unmanaged task) = Some DeviceTargetMsg"
    using s2(4) by (simp add: kinds_snoc)
  moreover have "first_call ?seg = Some (DmTaskCreate DeviceTargetMsg)"
    using s2(5) by (rule first_call_append)
  ultimately show ?thesis by blast
qed

lemma iteration_run:
  assumes c: "TaskCreateNamed e DeviceTargetMsg p w = ((Some task, err), w1)"
    and s: "SetSector e task 0 w1 = (r2, w2)"
    and m: "SetMessage e task msg w2 = (r3, w3)"
    and r: "Run e task (w3\<lparr>dmSawExist := False\<rparr>) = (r4, w4)"
  shows "\<exists>seg. trace w4 = trace w @ seg
           \<and> (\<forall>K. exist_failures K seg = (if r4 \<noteq> None \<and> dmSawExist w4 then 1 else 0))
           \<and> resume_calls seg = 0 \<and> suspend_calls seg = 0
           \<and> filter is_message (calls seg) = [DmTaskSetMessage (unmanaged task) msg]
           \<and> filter is_next_target (calls seg) = []
           \<and> filter is_run (calls seg) = [DmTaskRun (unmanaged task)]
           \<and> first_call seg = Some (DmTaskCreate DeviceTargetMsg)"
proof -
  from iteration_message [OF c s m] obtain seg3 where
    s3: "trace w3 = trace w @ seg3" "\<forall>K. exist_failures K seg3 = 0"
      "resume_calls seg3 = 0" "suspend_calls seg3 = 0"
      "filter is_message (calls seg3) = [DmTaskSetMessage (unmanaged task) msg]"
      "filter is_next_target (calls seg3) = []"
      "filter is_run (calls seg3) = []"
      "\<forall>K. kinds K seg3 (unmanaged task) = Some DeviceTargetMsg"
      "first_call seg3 = Some (DmTaskCreate DeviceTargetMsg)"
    by blast
  from Run_step [OF r] obtain rc l where
    s4: "step (w3\<lparr>dmSawExist := False\<rparr>) (DmTaskRun (unmanaged task)) rc l w4"
    and res: "r4 = None \<longleftrightarrow> rc = 1" by blast
  let ?seg = "seg3 @ [(DmTaskRun (unmanaged task), rc, l)]"
  have ex: "dmSawExist w4 = snd l" using s4 by (simp add: step_def)
  have "trace w4 = trace w @ ?seg" using s3(1) s4 by (simp add: step_def)
  moreover have "\<forall>K. exist_failures K ?seg = (if r4 \<noteq> None \<and> dmSawExist w4 then 1 else 0)"
    using s3(2) s3(8) res ex by (simp add: exist_failures_append exist_failure_iff)
  moreover have "resume_calls ?seg = 0" "suspend_calls ?seg = 0"
    using s3(3,4) by (simp_all add: resume_calls_def suspend_calls_def calls_def)
  moreover have "filter is_message (calls ?seg) = [DmTaskSetMessage (unmanaged task) msg]"
    "filter is_next_target (calls ?seg) = []"
    "filter is_run (calls ?seg) = [DmTaskRun (unmanaged task)]"
    using s3(5,6,7) by (simp_all add: calls_def)
  moreover have "first_call ?seg = Some (DmTaskCreate DeviceTargetMsg)"
    using s3(9) by (rule first_call_append)
  ultimately show ?thesis by blast
qed






lemma rollback_trace:
  "\<exists>seg. trace (if ds then snd (ResumeDevice e b w) else w) = trace w @ seg
         \<and> plain seg (if ds then 1 else 0) 0"
  using ResumeDevice_trace [of e b w] plain_Nil by (cases ds) auto

lemma snap_loop_postI:
  assumes "trace w' = trace w @ seg" "first_call seg = Some (DmTaskCreate DeviceTargetMsg)"
    "x \<noteq> Return None" "suspend_calls seg = 0"
    "resume_calls seg = (if ds \<and> x \<noteq> Break then 1 else 0)"
    "\<forall>K. i' = i + of_nat (exist_failures K seg)"
    "x = Break \<or> x = Return (Some (Errorf
               ''Error running DeviceCreate (createSnapDevice) dm_task_run failed''))
       \<Longrightarrow> filter is_message (calls seg) \<noteq> []
               \<and> (\<exists>t. last (filter is_message (calls seg)) = DmTaskSetMessage t (''create_snap '' @ fmt_d (sint i') @ '' ''
                          @ fmt_d (sint bid)))"
  shows "snap_loop_post ds bid w i (x, w', i')"
  unfolding snap_loop_post_def using assms by auto

lemma CreateSnapDevice_loop_obs:
  assumes "CreateSnapDevice_loop e p b bid ds w i = Some y"
  shows "snap_loop_post ds bid w i y"
proof (rule CreateSnapDevice_loop.raw_induct
    [where P = "\<lambda>e p b bid ds w i y. snap_loop_post ds bid w i y", OF _ assms])
  fix f :: "engine \<Rightarrow> string \<Rightarrow> string \<Rightarrow> 64 word \<Rightarrow> bool \<Rightarrow> world \<Rightarrow> 64 word
              \<Rightarrow> (loop_exit \<times> world \<times> 64 word) option"
    and e p b bid ds w i y
  assume IH: "\<And>e p b bid ds w i y. f e p b bid ds w i = Some y \<Longrightarrow> snap_loop_post ds bid w i y"
  assume body:
    "(case TaskCreateNamed e DeviceTargetMsg p w of
        ((None, err), w1) \<Rightarrow>
          Some (Return err,
                (if ds then snd (ResumeDevice e b w1) else w1), i)
      | ((Some task, err), w1) \<Rightarrow>
          (case SetSector e task 0 w1 of
             (Some err1, w2) \<Rightarrow>
               Some (Return (Some (Errorf (''Can't set sector '' @ Error err1))),
                     (if ds then snd (ResumeDevice e b w2) else w2), i)
           | (None, w2) \<Rightarrow>
               (case SetMessage e task
                       (''create_snap '' @ fmt_d (sint i) @ '' ''
                          @ fmt_d (sint bid)) w2 of
                  (Some err2, w3) \<Rightarrow>
                    Some (Return (Some (Errorf (''Can't set message '' @ Error err2))),
                          (if ds then snd (ResumeDevice e b w3) else w3),
                          i)
                | (None, w3) \<Rightarrow>
                    (case Run e task (w3\<lparr>dmSawExist := False\<rparr>) of
                       (Some err3, w4) \<Rightarrow>
                         (if dmSawExist w4
                          then f e p b bid ds
                                 w4 (i + 1)
                          else Some (Return (Some (Errorf
                                       (''Error running DeviceCreate (createSnapDevice) ''
                                          @ Error err3))),
                                     (if ds then snd (ResumeDevice e b w4) else w4),
                                     i))
                     | (None, w4) \<Rightarrow> Some (Break, w4, i))))) = Some y"
  obtain t err w1 where c: "TaskCreateNamed e DeviceTargetMsg p w = ((t, err), w1)"
    by (metis surj_pair)
  show "snap_loop_post ds bid w i y"
  proof (cases t)
    case None
    with c body have y: "y = (Return err, (if ds then snd (ResumeDevice e b w1) else w1), i)"
      by simp
    from TaskCreateNamed_plain [OF c] obtain seg where
      seg: "trace w1 = trace w @ seg" "plain seg 0 0"
        "first_call seg = Some (DmTaskCreate DeviceTargetMsg)" by (auto simp: kind_defs)
    from rollback_trace [of ds e b w1] obtain rb where
      rb: "trace (if ds then snd (ResumeDevice e b w1) else w1) = trace w1 @ rb"
        "plain rb (if ds then 1 else 0) 0" by blast
    from TaskCreateNamed_err c None obtain s where err: "err = Some (Errorf (''Can't '' @ s))"
      by blast
    from plain_append [OF seg(2) rb(2)] have pl: "plain (seg @ rb) (if ds then 1 else 0) 0"
      by simp
    show ?thesis unfolding y
      by (rule snap_loop_postI [where seg = "seg @ rb"])
        (use seg(1) rb(1) pl err first_call_append [OF seg(3)] in \<open>auto simp: plain_def\<close>)
  next
    case (Some task)
    note c = c [unfolded Some]
    obtain r2 w2 where s: "SetSector e task 0 w1 = (r2, w2)" by (metis surj_pair)
    show ?thesis
    proof (cases r2)
      case (Some err1)
      with c s body have y: "y = (Return (Some (Errorf (''Can't set sector '' @ Error err1))),
          (if ds then snd (ResumeDevice e b w2) else w2), i)"
        by simp
      from iteration_setup [OF c s] obtain seg where
        seg: "trace w2 = trace w @ seg" "plain seg 0 0"
          "first_call seg = Some (DmTaskCreate DeviceTargetMsg)" by blast
      from rollback_trace [of ds e b w2] obtain rb where
        rb: "trace (if ds then snd (ResumeDevice e b w2) else w2) = trace w2 @ rb"
          "plain rb (if ds then 1 else 0) 0" by blast
      from plain_append [OF seg(2) rb(2)] have pl: "plain (seg @ rb) (if ds then 1 else 0) 0"
        by simp
      show ?thesis unfolding y
        by (rule snap_loop_postI [where seg = "seg @ rb"])
          (use seg(1) rb(1) pl first_call_append [OF seg(3)] in \<open>auto simp: plain_def\<close>)
    next
      case None
      note s = s [unfolded None]
      let ?msg = "''create_snap '' @ fmt_d (sint i) @ '' '' @ fmt_d (sint bid)"
      obtain r3 w3 where m: "SetMessage e task ?msg w2 = (r3, w3)" by (metis surj_pair)
      show ?thesis
      proof (cases r3)
        case (Some err2)
        with c s m body have
          y: "y = (Return (Some (Errorf (''Can't set message '' @ Error err2))),
                (if ds then snd (ResumeDevice e b w3) else w3), i)"
          by simp
        from iteration_message [OF c s m] obtain seg where seg:
          "trace w3 = trace w @ seg" "\<forall>K. exist_failures K seg = 0"
          "resume_calls seg = 0" "suspend_calls seg = 0"
          "first_call seg = Some (DmTaskCreate DeviceTargetMsg)" by blast
        from rollback_trace [of ds e b w3] obtain rb where
          rb: "trace (if ds then snd (ResumeDevice e b w3) else w3) = trace w3 @ rb"
            "plain rb (if ds then 1 else 0) 0" by blast
        show ?thesis unfolding y
          by (rule snap_loop_postI [where seg = "seg @ rb"])
            (use seg rb first_call_append [OF seg(5)] in
              \<open>auto simp: plain_def resume_calls_append suspend_calls_append
                exist_failures_append\<close>)
      next
        case None
        note m = m [unfolded None]
        obtain r4 w4 where r: "Run e task (w3\<lparr>dmSawExist := False\<rparr>) = (r4, w4)"
          by (metis surj_pair)
        from iteration_run [OF c s m r] obtain seg where seg:
          "trace w4 = trace w @ seg"
          "\<forall>K. exist_failures K seg = (if r4 \<noteq> None \<and> dmSawExist w4 then 1 else 0)"
          "resume_calls seg = 0" "suspend_calls seg = 0"
          "filter is_message (calls seg) = [DmTaskSetMessage (unmanaged task) ?msg]"
          "first_call seg = Some (DmTaskCreate DeviceTargetMsg)"
          by blast
        show ?thesis
        proof (cases r4)
          case None
          with c s m r body have y: "y = (Break, w4, i)" by simp
          show ?thesis unfolding y
            by (rule snap_loop_postI [where seg = seg])
              (use seg None in \<open>auto\<close>)
        next
          case (Some err3)
          with Run_step [OF r] have err3: "err3 = ErrTaskRun" by auto
          show ?thesis
          proof (cases "dmSawExist w4")
            case False
            with c s m r Some body have
              y: "y = (Return (Some (Errorf (''Error running DeviceCreate (createSnapDevice) ''
                                          @ Error err3))),
                       (if ds then snd (ResumeDevice e b w4) else w4), i)"
              by simp
            from rollback_trace [of ds e b w4] obtain rb where
              rb: "trace (if ds then snd (ResumeDevice e b w4) else w4) = trace w4 @ rb"
                "plain rb (if ds then 1 else 0) 0" by blast
            show ?thesis unfolding y
              by (rule snap_loop_postI [where seg = "seg @ rb"])
                (use seg rb Some False first_call_append [OF seg(6)] in
                  \<open>auto simp: plain_def resume_calls_append
                    suspend_calls_append exist_failures_append messages_append silent_def\<close>)
          next
            case True
            with c s m r Some body have "f e p b bid ds w4 (i + 1) = Some y" by simp
            from IH [OF this] obtain seg' where seg':
              "trace (fst (snd y)) = trace w4 @ seg'"
              "fst y \<noteq> Return None"
              "suspend_calls seg' = 0"
              "resume_calls seg' = (if ds \<and> fst y \<noteq> Break then 1 else 0)"
              "\<forall>K. snd (snd y) = i + 1 + of_nat (exist_failures K seg')"
              "fst y = Break \<or> fst y = Return (Some (Errorf
                   ''Error running DeviceCreate (createSnapDevice) dm_task_run failed''))
                 \<longrightarrow> filter is_message (calls seg') \<noteq> []
                   \<and> (\<exists>t. last (filter is_message (calls seg'))
                         = DmTaskSetMessage t (''create_snap '' @ fmt_d (sint (snd (snd y))) @ '' ''
                          @ fmt_d (sint bid)))"
              unfolding snap_loop_post_def by blast
            have "trace (fst (snd y)) = trace w @ (seg @ seg')"
              using seg(1) seg'(1) by simp
            moreover have "suspend_calls (seg @ seg') = 0"
              "resume_calls (seg @ seg') = (if ds \<and> fst y \<noteq> Break then 1 else 0)"
              using seg(3,4) seg'(3,4) by (simp_all add: resume_calls_append suspend_calls_append)
            moreover have "first_call (seg @ seg') = Some (DmTaskCreate DeviceTargetMsg)"
              using seg(6) by (rule first_call_append)
            moreover note seg'(2)
            moreover have "\<forall>K. snd (snd y) = i + of_nat (exist_failures K (seg @ seg'))"
            proof
              fix K
              from seg'(5) have "snd (snd y) = i + 1 + of_nat (exist_failures (kinds K seg) seg')"
                by blast
              with seg(2) Some True show "snd (snd y) = i + of_nat (exist_failures K (seg @ seg'))"
                by (simp add: exist_failures_append add.assoc)
            qed
            moreover have "fst y = Break \<or> fst y = Return (Some (Errorf
                   ''Error running DeviceCreate (createSnapDevice) dm_task_run failed''))
                 \<longrightarrow> filter is_message (calls (seg @ seg')) \<noteq> []
                   \<and> (\<exists>t. last (filter is_message (calls (seg @ seg')))
                         = DmTaskSetMessage t (''create_snap '' @ fmt_d (sint (snd (snd y))) @ '' ''
                          @ fmt_d (sint bid)))"
              using seg'(6) by (auto simp: messages_append)
            ultimately show ?thesis
              unfolding snap_loop_post_def by blast
          qed
        qed
      qed
    qed
  qed
qed

lemma GetInfo_task_not_nil: "fst (GetInfo_task e t w) \<noteq> (None, None)"
  by (simp add: GetInfo_task_def)

lemma TaskCreateNamed_calls:
  assumes "TaskCreateNamed e ty n w = ((Some task, err), w1)"
  shows "calls (trace w1) = calls (trace w) @ [DmTaskCreate ty, DmTaskSetName (unmanaged task) n]"
  using assms
  by (auto simp: TaskCreateNamed_def TaskCreate_def SetName_def Let_def native_def calls_def
        split: if_splits)

lemma Run_calls: "calls (trace (snd (Run e t w))) = calls (trace w) @ [DmTaskRun (unmanaged t)]"
  by (simp add: Run_def native_def calls_def)

lemma GetInfo_task_calls:
  "calls (trace (snd (GetInfo_task e t w))) = calls (trace w) @ [DmTaskGetInfo (unmanaged t)]"
  by (simp add: GetInfo_task_def native_def calls_def)

lemma UdevWait_calls:
  "calls (trace (snd (UdevWait e c w))) = calls (trace w) @ [DmUdevWait c]"
  by (simp add: UdevWait_def native_def calls_def)

lemma SetSector_calls:
  "calls (trace (snd (SetSector e t n w))) = calls (trace w) @ [DmTaskSetSector (unmanaged t) n]"
  by (simp add: SetSector_def native_def calls_def)

lemma SetMessage_calls:
  "calls (trace (snd (SetMessage e t m w))) = calls (trace w) @ [DmTaskSetMessage (unmanaged t) m]"
  by (simp add: SetMessage_def native_def calls_def)

lemma iteration_calls:
  assumes "TaskCreateNamed e DeviceTargetMsg p w = ((Some task, err), w1)"
    and "SetSector e task 0 w1 = (r2, w2)"
    and "SetMessage e task msg w2 = (r3, w3)"
    and "Run e task (w3\<lparr>dmSawExist := False\<rparr>) = (r4, w4)"
  shows "calls (trace w4)
           = calls (trace w) @ [DmTaskCreate DeviceTargetMsg, DmTaskSetName (unmanaged task) p,
               DmTaskSetSector (unmanaged task) 0, DmTaskSetMessage (unmanaged task) msg,
               DmTaskRun (unmanaged task)]"
proof -
  have "calls (trace w1)
          = calls (trace w) @ [DmTaskCreate DeviceTargetMsg, DmTaskSetName (unmanaged task) p]"
    using assms(1) by (rule TaskCreateNamed_calls)
  moreover have "calls (trace w2) = calls (trace w1) @ [DmTaskSetSector (unmanaged task) 0]"
    using SetSector_calls [of e task 0 w1] assms(2) by simp
  moreover have "calls (trace w3) = calls (trace w2) @ [DmTaskSetMessage (unmanaged task) msg]"
    using SetMessage_calls [of e task msg w2] assms(3) by simp
  moreover have "calls (trace w4) = calls (trace w3) @ [DmTaskRun (unmanaged task)]"
    using Run_calls [of e task "w3\<lparr>dmSawExist := False\<rparr>"] assms(4) by simp
  ultimately show ?thesis by simp
qed

lemma Run_after_reset:
  assumes "Run e task (w3\<lparr>dmSawExist := False\<rparr>) = (r, w4)"
  shows "dmSawExist w4 \<longleftrightarrow> snd (logged e (trace w3) (DmTaskRun (unmanaged task)))"
    and "r \<noteq> None \<Longrightarrow> r = Some ErrTaskRun"
  using assms by (auto simp: Run_def native_def split: if_splits)

lemma GetInfo_error:
  assumes "GetInfo e n w = ((d, Some ierr), w0)"
  shows "d = None"
proof -
  obtain t err w1 where c: "TaskCreateNamed e DeviceInfo n w = ((t, err), w1)"
    by (metis surj_pair)
  show ?thesis
  proof (cases t)
    case None
    with c assms show ?thesis by (simp add: GetInfo_def)
  next
    case (Some task)
    with c assms show ?thesis
      by (auto simp: GetInfo_def GetInfo_task_def split: prod.splits option.splits if_splits)
  qed
qed

lemma SuspendDevice_error:
  assumes "SuspendDevice e n w = (Some err, w1)"
  shows "err \<noteq> Errorf ''Error running DeviceCreate (createSnapDevice) dm_task_run failed''"
proof -
  obtain t terr w0 where c: "TaskCreateNamed e DeviceSuspend n w = ((t, terr), w0)"
    by (metis surj_pair)
  show ?thesis
  proof (cases t)
    case None
    with TaskCreateNamed_err c obtain s where "terr = Some (Errorf (''Can't '' @ s))"
      by blast
    with c None assms show ?thesis by (auto simp: SuspendDevice_def)
  next
    case (Some task)
    with c assms show ?thesis
      by (auto simp: SuspendDevice_def split: prod.splits option.splits)
  qed
qed

text \<open>The three ways through \<open>CreateSnapDevice\<close>.\<close>

lemma CreateSnapDevice_not_suspended:
  assumes "GetInfo e b w = ((d, ierr), w0)"
    and "(case d of None \<Rightarrow> False | Some i \<Rightarrow> Exists i \<noteq> 0) = False"
  shows "CreateSnapDevice e p i b bid w
           = (case CreateSnapDevice_loop e p b bid False w0 i of
                None \<Rightarrow> None
              | Some (Return err, w2, i') \<Rightarrow> Some (err, w2, i')
              | Some (Break, w2, i') \<Rightarrow> Some (None, w2, i'))"
  using assms
  by (auto simp: CreateSnapDevice_def split: option.splits prod.splits loop_exit.splits)

lemma CreateSnapDevice_suspend_failed:
  assumes "GetInfo e b w = ((Some d, ierr), w0)" and "Exists d \<noteq> 0"
    and "SuspendDevice e b w0 = (Some err, ws)"
  shows "CreateSnapDevice e p i b bid w = Some (Some err, ws, i)"
  using assms by (simp add: CreateSnapDevice_def)

lemma CreateSnapDevice_suspended:
  assumes "GetInfo e b w = ((Some d, ierr), w0)" and "Exists d \<noteq> 0"
    and "SuspendDevice e b w0 = (None, ws)"
  shows "CreateSnapDevice e p i b bid w
           = (case CreateSnapDevice_loop e p b bid True ws i of
                None \<Rightarrow> None
              | Some (Return err, w2, i') \<Rightarrow> Some (err, w2, i')
              | Some (Break, w2, i') \<Rightarrow>
                  Some (fst (ResumeDevice e b w2), snd (ResumeDevice e b w2), i'))"
  using assms
  by (auto simp: CreateSnapDevice_def split: option.splits prod.splits loop_exit.splits)

text \<open>What holds of the events of a call of \<open>CreateSnapDevice\<close> that returns.\<close>

lemma CreateSnapDevice_obs:
  assumes g: "GetInfo e b w = ((d, ierr), w0)"
    and ret: "CreateSnapDevice e p i b bid w = Some (r, w', i')"
  defines "ds \<equiv> (case d of None \<Rightarrow> False | Some x \<Rightarrow> Exists x \<noteq> 0)"
  shows "\<exists>seg. trace w' = trace w @ seg
           \<and> suspend_calls seg = (if ds then 1 else 0)
           \<and> resume_calls seg = (if ds \<and> fst (SuspendDevice e b w0) = None then 1 else 0)
           \<and> (\<forall>K. i' = i + of_nat (exist_failures K seg))
           \<and> (r = None \<or> r = Some (Errorf
                 ''Error running DeviceCreate (createSnapDevice) dm_task_run failed'')
               \<longrightarrow> filter is_message (calls seg) \<noteq> []
                 \<and> (\<exists>t. last (filter is_message (calls seg))
                       = DmTaskSetMessage t (''create_snap '' @ fmt_d (sint i') @ '' ''
                            @ fmt_d (sint bid))))"
proof -
  from GetInfo_trace [of e b w] g obtain gs where
    gs: "trace w0 = trace w @ gs" "plain gs 0 0" by auto
  obtain serr ws where su: "SuspendDevice e b w0 = (serr, ws)" by (metis surj_pair)
  from SuspendDevice_trace [of e b w0] su obtain ss where
    ss: "trace ws = trace w0 @ ss" "plain ss 0 1" by auto
  let ?E = "Errorf ''Error running DeviceCreate (createSnapDevice) dm_task_run failed''"
  let ?msg = "\<lambda>j. ''create_snap '' @ fmt_d (sint j) @ '' '' @ fmt_d (sint bid)"
  show ?thesis
  proof (cases ds)
    case False
    then have nd: "(case d of None \<Rightarrow> False | Some i \<Rightarrow> Exists i \<noteq> 0) = False"
      by (simp add: ds_def)
    from ret CreateSnapDevice_not_suspended [OF g nd, of p i bid]
    obtain x where l: "CreateSnapDevice_loop e p b bid False w0 i = Some (x, w', i')"
      and x: "(x = Break \<and> r = None) \<or> x = Return r"
      by (auto split: option.splits prod.splits loop_exit.splits)
    from CreateSnapDevice_loop_obs [OF l] obtain seg where seg:
      "trace w' = trace w0 @ seg" "x \<noteq> Return None" "suspend_calls seg = 0"
      "resume_calls seg = 0" "\<forall>K. i' = i + of_nat (exist_failures K seg)"
      "x = Break \<or> x = Return (Some ?E)
         \<longrightarrow> filter is_message (calls seg) \<noteq> []
           \<and> (\<exists>t. last (filter is_message (calls seg)) = DmTaskSetMessage t (?msg i'))"
      unfolding snap_loop_post_def by auto
    have "trace w' = trace w @ (gs @ seg)" using gs(1) seg(1) by simp
    moreover have "suspend_calls (gs @ seg) = 0" "resume_calls (gs @ seg) = 0"
      using gs(2) seg(3,4) by (simp_all add: plain_def suspend_calls_append resume_calls_append)
    moreover have "\<forall>K. i' = i + of_nat (exist_failures K (gs @ seg))"
      using gs(2) seg(5) by (simp add: plain_def exist_failures_append)
    moreover have "r = None \<or> r = Some ?E
         \<longrightarrow> filter is_message (calls (gs @ seg)) \<noteq> []
           \<and> (\<exists>t. last (filter is_message (calls (gs @ seg))) = DmTaskSetMessage t (?msg i'))"
      using gs(2) seg(2,6) x by (auto simp: plain_def silent_def messages_append)
    ultimately show ?thesis using False by (intro exI [of _ "gs @ seg"]) simp
  next
    case True
    then obtain dv where d: "d = Some dv" "Exists dv \<noteq> 0"
      by (auto simp: ds_def split: option.splits)
    note g' = g [unfolded d(1)]
    show ?thesis
    proof (cases serr)
      case (Some err)
      from CreateSnapDevice_suspend_failed [OF g' d(2) su [unfolded Some], of p i bid] ret
      have y: "r = Some err" "w' = ws" "i' = i" by simp_all
      from SuspendDevice_error [OF su [unfolded Some]] have ne: "err \<noteq> ?E" .
      have "trace w' = trace w @ (gs @ ss)" using gs(1) ss(1) y by simp
      moreover have "suspend_calls (gs @ ss) = 1" "resume_calls (gs @ ss) = 0"
        using gs(2) ss(2) by (simp_all add: plain_def suspend_calls_append resume_calls_append)
      moreover have "\<forall>K. i' = i + of_nat (exist_failures K (gs @ ss))"
        using gs(2) ss(2) y by (simp add: plain_def exist_failures_append)
      ultimately show ?thesis using True su Some y ne
        by (intro exI [of _ "gs @ ss"]) simp
    next
      case None
      note su' = su [unfolded None]
      from ret CreateSnapDevice_suspended [OF g' d(2) su', of p i bid]
      obtain x w2 where l: "CreateSnapDevice_loop e p b bid True ws i = Some (x, w2, i')"
        and x: "(x = Break \<and> r = fst (ResumeDevice e b w2) \<and> w' = snd (ResumeDevice e b w2))
                 \<or> (x = Return r \<and> w' = w2)"
        by (auto split: option.splits prod.splits loop_exit.splits)
      from CreateSnapDevice_loop_obs [OF l] obtain seg where seg:
        "trace w2 = trace ws @ seg" "x \<noteq> Return None" "suspend_calls seg = 0"
        "resume_calls seg = (if x \<noteq> Break then 1 else 0)"
        "\<forall>K. i' = i + of_nat (exist_failures K seg)"
        "x = Break \<or> x = Return (Some ?E)
           \<longrightarrow> filter is_message (calls seg) \<noteq> []
             \<and> (\<exists>t. last (filter is_message (calls seg)) = DmTaskSetMessage t (?msg i'))"
        unfolding snap_loop_post_def by auto
      from rollback_trace [of "x = Break" e b w2] obtain rs where rs:
        "trace (if x = Break then snd (ResumeDevice e b w2) else w2) = trace w2 @ rs"
        "plain rs (if x = Break then 1 else 0) 0" by blast
      have w': "w' = (if x = Break then snd (ResumeDevice e b w2) else w2)"
        using x by auto
      have "trace w' = trace w @ (gs @ ss @ seg @ rs)"
        using gs(1) ss(1) seg(1) rs(1) w' by simp
      moreover have "suspend_calls (gs @ ss @ seg @ rs) = 1"
        "resume_calls (gs @ ss @ seg @ rs) = 1"
        using gs(2) ss(2) seg(3,4) rs(2)
        by (simp_all add: plain_def suspend_calls_append resume_calls_append)
      moreover have "\<forall>K. i' = i + of_nat (exist_failures K (gs @ ss @ seg @ rs))"
        using gs(2) ss(2) seg(5) rs(2) by (simp add: plain_def exist_failures_append)
      moreover have "r = None \<or> r = Some ?E
           \<longrightarrow> filter is_message (calls (gs @ ss @ seg @ rs)) \<noteq> []
             \<and> (\<exists>t. last (filter is_message (calls (gs @ ss @ seg @ rs)))
                   = DmTaskSetMessage t (?msg i'))"
        using gs(2) ss(2) rs(2) seg(2,6) x
        by (auto simp: plain_def silent_def messages_append)
      ultimately show ?thesis using True su None
        by (intro exI [of _ "gs @ ss @ seg @ rs"]) simp
    qed
  qed
qed

text \<open>Once the message of an iteration is set, it stays in the trace of the call.\<close>

lemma loop_issues_message:
  assumes c: "TaskCreateNamed e DeviceTargetMsg p w = ((Some task, err), w1)"
    and s: "SetSector e task 0 w1 = (None, w2)"
    and l: "CreateSnapDevice_loop e p b bid ds w i = Some (x, w', i')"
    and tr: "trace w' = trace w @ seg"
  shows "DmTaskSetMessage (unmanaged task)
           (''create_snap '' @ fmt_d (sint i) @ '' '' @ fmt_d (sint bid)) \<in> set (calls seg)"
proof -
  let ?msg = "''create_snap '' @ fmt_d (sint i) @ '' '' @ fmt_d (sint bid)"
  obtain r3 w3 where m: "SetMessage e task ?msg w2 = (r3, w3)" by (metis surj_pair)
  from iteration_message [OF c s m] obtain seg3 where seg3:
    "trace w3 = trace w @ seg3"
    "filter is_message (calls seg3) = [DmTaskSetMessage (unmanaged task) ?msg]"
    by blast
  have mem: "DmTaskSetMessage (unmanaged task) ?msg \<in> set (calls seg3)"
  proof -
    have "DmTaskSetMessage (unmanaged task) ?msg \<in> set (filter is_message (calls seg3))"
      using seg3(2) by simp
    then show ?thesis by simp
  qed
  note unfold = CreateSnapDevice_loop.simps [of e p b bid ds w i]
  have "\<exists>rest. trace w' = trace w3 @ rest"
  proof (cases r3)
    case (Some err2)
    with c s m l have "w' = (if ds then snd (ResumeDevice e b w3) else w3)"
      by (subst (asm) unfold) simp
    with rollback_trace [of ds e b w3] show ?thesis by auto
  next
    case None
    note m = m [unfolded None]
    obtain r4 w4 where r: "Run e task (w3\<lparr>dmSawExist := False\<rparr>) = (r4, w4)"
      by (metis surj_pair)
    from Run_step [OF r] have t4: "\<exists>ev. trace w4 = trace w3 @ [ev]"
      by (auto simp: step_def)
    show ?thesis
    proof (cases r4)
      case None
      with c s m r l have "w' = w4" by (subst (asm) unfold) simp
      with t4 show ?thesis by auto
    next
      case (Some err3)
      show ?thesis
      proof (cases "dmSawExist w4")
        case False
        with c s m r Some l have "w' = (if ds then snd (ResumeDevice e b w4) else w4)"
          by (subst (asm) unfold) simp
        with rollback_trace [of ds e b w4] t4 show ?thesis by auto
      next
        case True
        with c s m r Some l have
          "CreateSnapDevice_loop e p b bid ds w4 (i + 1) = Some (x, w', i')"
          by (subst (asm) unfold) simp
        from CreateSnapDevice_loop_obs [OF this] obtain seg' where
          "trace w' = trace w4 @ seg'" unfolding snap_loop_post_def by auto
        with t4 show ?thesis by auto
      qed
    qed
  qed
  then obtain rest where "trace w' = trace w3 @ rest" by blast
  with seg3(1) tr have "seg = seg3 @ rest" by simp
  with mem show ?thesis by (simp add: calls_def)
qed

text \<open>A call of \<open>CreateSnapDevice\<close> that found no origin to suspend.\<close>

lemma CreateSnapDevice_without_origin:
  assumes g: "GetInfo e b w = ((d, ierr), w0)"
    and nd: "(case d of None \<Rightarrow> False | Some x \<Rightarrow> Exists x \<noteq> 0) = False"
    and ret: "CreateSnapDevice e p i b bid w = Some (r, w', i')"
  shows "\<exists>seg. trace w' = trace w @ seg \<and> suspend_calls seg = 0 \<and> resume_calls seg = 0"
    and "\<exists>seg. trace w' = trace w0 @ seg
           \<and> first_call seg = Some (DmTaskCreate DeviceTargetMsg)
           \<and> (TaskCreateNamed e DeviceTargetMsg p w0 = ((Some task, err), w1)
                \<and> SetSector e task 0 w1 = (None, w2)
              \<longrightarrow> DmTaskSetMessage (unmanaged task)
                    (''create_snap '' @ fmt_d (sint i) @ '' '' @ fmt_d (sint bid))
                  \<in> set (calls seg))"
proof -
  from CreateSnapDevice_obs [OF g ret] nd
  show "\<exists>seg. trace w' = trace w @ seg \<and> suspend_calls seg = 0 \<and> resume_calls seg = 0"
    by auto
  from ret CreateSnapDevice_not_suspended [OF g nd, of p i bid]
  obtain x where l: "CreateSnapDevice_loop e p b bid False w0 i = Some (x, w', i')"
    by (auto split: option.splits prod.splits loop_exit.splits)
  from CreateSnapDevice_loop_obs [OF l] obtain seg where seg:
    "trace w' = trace w0 @ seg" "first_call seg = Some (DmTaskCreate DeviceTargetMsg)"
    unfolding snap_loop_post_def by auto
  have "TaskCreateNamed e DeviceTargetMsg p w0 = ((Some task, err), w1)
                \<and> SetSector e task 0 w1 = (None, w2)
              \<longrightarrow> DmTaskSetMessage (unmanaged task)
                    (''create_snap '' @ fmt_d (sint i) @ '' '' @ fmt_d (sint bid))
                  \<in> set (calls seg)"
    using loop_issues_message [OF _ _ l seg(1)] by blast
  with seg show "\<exists>seg. trace w' = trace w0 @ seg
           \<and> first_call seg = Some (DmTaskCreate DeviceTargetMsg)
           \<and> (TaskCreateNamed e DeviceTargetMsg p w0 = ((Some task, err), w1)
                \<and> SetSector e task 0 w1 = (None, w2)
              \<longrightarrow> DmTaskSetMessage (unmanaged task)
                    (''create_snap '' @ fmt_d (sint i) @ '' '' @ fmt_d (sint bid))
                  \<in> set (calls seg))"
    by blast
qed

lemma ResumeDevice_first_call:
  "\<exists>seg. trace (snd (ResumeDevice e n w)) = trace w @ seg
         \<and> first_call seg = Some (DmTaskCreate DeviceResume) \<and> resume_calls seg = 1"
proof -
  obtain t err w1 where c: "TaskCreateNamed e DeviceResume n w = ((t, err), w1)"
    by (metis surj_pair)
  from TaskCreateNamed_plain [OF c] obtain seg1 where
    s1: "trace w1 = trace w @ seg1" "first_call seg1 = Some (DmTaskCreate DeviceResume)"
    by auto
  from ResumeDevice_trace [of e n w] obtain seg where
    seg: "trace (snd (ResumeDevice e n w)) = trace w @ seg" "plain seg 1 0" by blast
  have "\<exists>rest. trace (snd (ResumeDevice e n w)) = trace w1 @ rest"
  proof (cases t)
    case None
    with c show ?thesis by (simp add: ResumeDevice_def)
  next
    case (Some task)
    obtain r2 c2 w2 where sc: "SetCookie e task (Some 0) 0 w1 = (r2, c2, w2)"
      by (metis surj_pair)
    from SetCookie_step [OF sc] have t2: "\<exists>ev. trace w2 = trace w1 @ [ev]"
      by (auto simp: step_def)
    show ?thesis
    proof (cases r2)
      case (Some err2)
      with c \<open>t = Some task\<close> sc have "snd (ResumeDevice e n w) = w2"
        by (simp add: ResumeDevice_def)
      with t2 show ?thesis by auto
    next
      case None
      obtain r3 w3 where r: "Run e task w2 = (r3, w3)" by (metis surj_pair)
      from Run_step [OF r] have t3: "\<exists>ev. trace w3 = trace w2 @ [ev]"
        by (auto simp: step_def)
      define ck where "ck = (case c2 of None \<Rightarrow> (0::64 word) | Some v \<Rightarrow> v)"
      obtain r4 w4 where u: "UdevWait e ck w3 = (r4, w4)" by (metis surj_pair)
      from UdevWait_step [OF u] have t4: "\<exists>ev. trace w4 = trace w3 @ [ev]"
        by (auto simp: step_def)
      from c \<open>t = Some task\<close> sc None r u have "snd (ResumeDevice e n w) = w4"
        by (auto simp: ResumeDevice_def Let_def ck_def split: option.splits)
      with t2 t3 t4 show ?thesis by auto
    qed
  qed
  then obtain rest where "trace (snd (ResumeDevice e n w)) = trace w1 @ rest" by blast
  with s1(1) seg(1) have "seg = seg1 @ rest" by simp
  with s1(2) seg show ?thesis by (auto simp: plain_def intro: first_call_append)
qed

text \<open>The five ways out of an iteration of the loop of \<open>CreateSnapDevice\<close>.\<close>

lemma loop_create_fails:
  assumes "TaskCreateNamed e DeviceTargetMsg p w = ((None, err), w1)"
  shows "CreateSnapDevice_loop e p b bid ds w i
           = Some (Return err, (if ds then snd (ResumeDevice e b w1) else w1), i)"
  using assms by (subst CreateSnapDevice_loop.simps) simp

lemma loop_sector_fails:
  assumes "TaskCreateNamed e DeviceTargetMsg p w = ((Some task, err), w1)"
    and "SetSector e task 0 w1 = (Some err1, w2)"
  shows "CreateSnapDevice_loop e p b bid ds w i
           = Some (Return (Some (Errorf (''Can't set sector '' @ Error err1))),
                   (if ds then snd (ResumeDevice e b w2) else w2), i)"
  using assms by (subst CreateSnapDevice_loop.simps) simp

lemma loop_message_fails:
  assumes "TaskCreateNamed e DeviceTargetMsg p w = ((Some task, err), w1)"
    and "SetSector e task 0 w1 = (None, w2)"
    and "SetMessage e task (''create_snap '' @ fmt_d (sint i) @ '' '' @ fmt_d (sint bid)) w2
           = (Some err2, w3)"
  shows "CreateSnapDevice_loop e p b bid ds w i
           = Some (Return (Some (Errorf (''Can't set message '' @ Error err2))),
                   (if ds then snd (ResumeDevice e b w3) else w3), i)"
  using assms by (subst CreateSnapDevice_loop.simps) simp

lemma loop_run_fails:
  assumes "TaskCreateNamed e DeviceTargetMsg p w = ((Some task, err), w1)"
    and "SetSector e task 0 w1 = (None, w2)"
    and "SetMessage e task (''create_snap '' @ fmt_d (sint i) @ '' '' @ fmt_d (sint bid)) w2
           = (None, w3)"
    and "Run e task (w3\<lparr>dmSawExist := False\<rparr>) = (Some err3, w4)"
    and "\<not> dmSawExist w4"
  shows "CreateSnapDevice_loop e p b bid ds w i
           = Some (Return (Some (Errorf
                     ''Error running DeviceCreate (createSnapDevice) dm_task_run failed'')),
                   (if ds then snd (ResumeDevice e b w4) else w4), i)"
proof -
  from Run_after_reset(2) [OF assms(4)] have "err3 = ErrTaskRun" by simp
  with assms show ?thesis by (subst CreateSnapDevice_loop.simps) simp
qed

lemma loop_run_succeeds:
  assumes "TaskCreateNamed e DeviceTargetMsg p w = ((Some task, err), w1)"
    and "SetSector e task 0 w1 = (None, w2)"
    and "SetMessage e task (''create_snap '' @ fmt_d (sint i) @ '' '' @ fmt_d (sint bid)) w2
           = (None, w3)"
    and "Run e task (w3\<lparr>dmSawExist := False\<rparr>) = (None, w4)"
  shows "CreateSnapDevice_loop e p b bid ds w i = Some (Break, w4, i)"
  using assms by (subst CreateSnapDevice_loop.simps) simp

text \<open>The call with the origin suspended, when the loop has come to \<open>wk\<close> and \<open>idk\<close>.\<close>

lemma CreateSnapDevice_from:
  assumes "GetInfo e b w = ((Some d, ierr), w0)" and "Exists d \<noteq> 0"
    and "SuspendDevice e b w0 = (None, ws)"
    and "CreateSnapDevice_loop e p b bid True ws i = CreateSnapDevice_loop e p b bid True wk idk"
  shows "CreateSnapDevice_loop e p b bid True wk idk = Some (Return err, w2, i')
           \<Longrightarrow> CreateSnapDevice e p i b bid w = Some (err, w2, i')"
    and "CreateSnapDevice_loop e p b bid True wk idk = Some (Break, w2, i')
           \<Longrightarrow> CreateSnapDevice e p i b bid w
                 = Some (fst (ResumeDevice e b w2), snd (ResumeDevice e b w2), i')"
  using CreateSnapDevice_suspended [OF assms(1,2,3), of p i bid] assms(4) by simp_all

lemma CreateSnapDevice_suspended_counts:
  assumes "GetInfo e b w = ((Some d, ierr), w0)" and "Exists d \<noteq> 0"
    and "SuspendDevice e b w0 = (None, ws)"
    and "CreateSnapDevice e p i b bid w = Some (r, w', i')"
  shows "\<exists>seg. trace w' = trace w @ seg \<and> resume_calls seg = 1 \<and> suspend_calls seg = 1"
  using CreateSnapDevice_obs [OF assms(1) assms(4)] assms(2,3) by auto


lemma quiet_runs_append: "quiet_runs (xs @ ys) \<longleftrightarrow> quiet_runs xs \<and> quiet_runs ys"
  by (simp add: quiet_runs_def)

lemma quiet_runs_no_run: "filter is_run (calls seg) = [] \<Longrightarrow> quiet_runs seg"
  by (induction seg) (auto simp: quiet_runs_def calls_def split: if_splits)

lemma sus_step_quiet:
  assumes "\<not> (is_run (fst ev) \<and> fst (snd ev) = 1)"
  shows "snd (snd (sus_step n st ev)) = snd (snd st)"
proof -
  obtain K N s where st: "st = (K, N, s)" by (metis surj_pair)
  obtain c rc l where ev: "ev = (c, rc, l)" by (metis surj_pair)
  show ?thesis using assms unfolding st ev by (cases c) auto
qed

lemma foldl_sus_quiet:
  "quiet_runs seg \<Longrightarrow> snd (snd (foldl (sus_step n) st seg)) = snd (snd st)"
proof (induction seg arbitrary: st)
  case Nil
  show ?case by simp
next
  case (Cons ev seg)
  then have "\<not> (is_run (fst ev) \<and> fst (snd ev) = 1)" "quiet_runs seg"
    by (simp_all add: quiet_runs_def)
  with Cons.IH [of "sus_step n st ev"] sus_step_quiet [of ev n st] show ?case
    by simp
qed

lemma left_suspended_quiet:
  assumes "trace w' = trace w @ seg" and "quiet_runs seg"
  shows "left_suspended n (trace w') = left_suspended n (trace w)"
  using assms foldl_sus_quiet [of seg n] by (simp add: left_suspended_def)

text \<open>The events of a task that is created and named, run with result 1, and then left.\<close>

lemma left_suspended_task_run:
  assumes "trace w' = trace w @ (DmTaskCreate ty, r, l1) # (DmTaskSetName r n, 1, l2) # mid
                        @ (DmTaskRun r, 1, l3) # rest"
    and "quiet_runs mid" and "quiet_runs rest"
    and "list_all (\<lambda>ev. \<forall>ty'. fst ev \<noteq> DmTaskCreate ty') mid"
    and "list_all (\<lambda>ev. \<forall>t nm. fst ev \<noteq> DmTaskSetName t nm) mid"
  shows "left_suspended n (trace w')
           = (if ty = DeviceSuspend then True
              else if ty = DeviceResume then False else left_suspended n (trace w))"
proof -
  obtain K N s where st: "foldl (sus_step n) (Map.empty, Map.empty, False) (trace w) = (K, N, s)"
    by (metis surj_pair)
  have mid: "\<exists>s'. foldl (sus_step n) (K', N', s0) mid = (K', N', s') \<and> s' = s0"
    if "True" for K' N' s0
    using assms(2,4,5)
  proof (induction mid arbitrary: s0)
    case Nil
    show ?case by simp
  next
    case (Cons ev mid)
    obtain c rc l where ev: "ev = (c, rc, l)" by (metis surj_pair)
    from Cons.prems have "sus_step n (K', N', s0) ev = (K', N', s0)"
      unfolding ev by (cases c) (auto simp: quiet_runs_def)
    moreover from Cons.prems have "quiet_runs mid"
      "list_all (\<lambda>ev. \<forall>ty'. fst ev \<noteq> DmTaskCreate ty') mid"
      "list_all (\<lambda>ev. \<forall>t nm. fst ev \<noteq> DmTaskSetName t nm) mid"
      by (simp_all add: quiet_runs_def)
    ultimately show ?case using Cons.IH [of s0] by simp
  qed
  from mid [of "K(r \<mapsto> ty)" "N(r \<mapsto> n)" s]
  have m: "foldl (sus_step n) (K(r \<mapsto> ty), N(r \<mapsto> n), s) mid = (K(r \<mapsto> ty), N(r \<mapsto> n), s)"
    by auto
  have "left_suspended n (trace w')
          = snd (snd (foldl (sus_step n)
              (K(r \<mapsto> ty), N(r \<mapsto> n),
               if ty = DeviceSuspend then True else if ty = DeviceResume then False else s) rest))"
    by (simp add: left_suspended_def assms(1) st m)
  also have "\<dots> = (if ty = DeviceSuspend then True else if ty = DeviceResume then False else s)"
    using foldl_sus_quiet [OF assms(3)] by simp
  finally show ?thesis using st by (simp add: left_suspended_def)
qed

text \<open>The events of \<open>TaskCreateNamed\<close> when it gives a task.\<close>

lemma TaskCreateNamed_events:
  assumes "TaskCreateNamed e ty n w = ((Some task, err), w1)"
  shows "\<exists>l1 l2. trace w1 = trace w @ [(DmTaskCreate ty, unmanaged task, l1),
                                        (DmTaskSetName (unmanaged task) n, 1, l2)]"
proof -
  obtain t0 w0 where c: "TaskCreate e ty w = (t0, w0)" by (metis surj_pair)
  from TaskCreate_step [OF c] obtain rc l where
    s0: "step w (DmTaskCreate ty) rc l w0" and
    nil: "rc = 0 \<longrightarrow> t0 = None" and ok: "rc \<noteq> 0 \<longrightarrow> t0 = Some \<lparr>unmanaged = rc\<rparr>"
    by blast
  from assms c nil have "rc \<noteq> 0" by (auto simp: TaskCreateNamed_def)
  with ok have t0: "t0 = Some \<lparr>unmanaged = rc\<rparr>" by simp
  obtain r2 w2 where sn: "SetName e \<lparr>unmanaged = rc\<rparr> n w0 = (r2, w2)" by (metis surj_pair)
  from SetName_step [OF sn] obtain rc2 l2 where
    s2: "step w0 (DmTaskSetName rc n) rc2 l2 w2" and r2: "r2 = None \<longleftrightarrow> rc2 = 1"
    by auto
  from assms c t0 sn have "w1 = w2" "task = \<lparr>unmanaged = rc\<rparr>" "r2 = None"
    by (auto simp: TaskCreateNamed_def split: option.splits)
  with s0 s2 r2 show ?thesis by (auto simp: step_def)
qed

lemma SuspendDevice_ok_suspends:
  assumes "SuspendDevice e n w = (None, ws)"
  shows "left_suspended n (trace ws)"
proof -
  obtain t err w1 where c: "TaskCreateNamed e DeviceSuspend n w = ((t, err), w1)"
    by (metis surj_pair)
  show ?thesis
  proof (cases t)
    case None
    with TaskCreateNamed_err c obtain s where "err = Some (Errorf (''Can't '' @ s))" by blast
    with c None assms show ?thesis by (simp add: SuspendDevice_def)
  next
    case (Some task)
    note c = c [unfolded Some]
    from TaskCreateNamed_events [OF c] obtain l1 l2 where
      t1: "trace w1 = trace w @ [(DmTaskCreate DeviceSuspend, unmanaged task, l1),
                                  (DmTaskSetName (unmanaged task) n, 1, l2)]" by blast
    obtain r2 w2 where r: "Run e task w1 = (r2, w2)" by (metis surj_pair)
    from c r assms have "r2 = None" "ws = w2"
      by (auto simp: SuspendDevice_def split: option.splits)
    with Run_step [OF r] obtain l3 where "step w1 (DmTaskRun (unmanaged task)) 1 l3 ws"
      by auto
    with t1 have "trace ws = trace w @ (DmTaskCreate DeviceSuspend, unmanaged task, l1)
        # (DmTaskSetName (unmanaged task) n, 1, l2) # [] @ (DmTaskRun (unmanaged task), 1, l3) # []"
      by (simp add: step_def)
    from left_suspended_task_run [OF this] show ?thesis
      by (simp add: quiet_runs_def)
  qed
qed

lemma ResumeDevice_left_suspended:
  "left_suspended n (trace (snd (ResumeDevice e n w)))
     = (if fst (ResumeDevice e n w) = None then False else left_suspended n (trace w))"
proof -
  obtain t err w1 where c: "TaskCreateNamed e DeviceResume n w = ((t, err), w1)"
    by (metis surj_pair)
  show ?thesis
  proof (cases t)
    case None
    with TaskCreateNamed_err c obtain s where err: "err = Some (Errorf (''Can't '' @ s))"
      by blast
    from TaskCreateNamed_plain [OF c] obtain seg where
      "trace w1 = trace w @ seg" "filter is_run (calls seg) = []" by blast
    then have "left_suspended n (trace w1) = left_suspended n (trace w)"
      using left_suspended_quiet quiet_runs_no_run by blast
    with c None err show ?thesis by (simp add: ResumeDevice_def)
  next
    case (Some task)
    note c = c [unfolded Some]
    from TaskCreateNamed_events [OF c] obtain l1 l2 where
      t1: "trace w1 = trace w @ [(DmTaskCreate DeviceResume, unmanaged task, l1),
                                  (DmTaskSetName (unmanaged task) n, 1, l2)]" by blast
    from TaskCreateNamed_plain [OF c] obtain seg1 where
      q1: "trace w1 = trace w @ seg1" "filter is_run (calls seg1) = []" by blast
    obtain r2 c2 w2 where sc: "SetCookie e task (Some 0) 0 w1 = (r2, c2, w2)"
      by (metis surj_pair)
    from SetCookie_step [OF sc] obtain rc2 l3 where
      s2: "step w1 (DmTaskSetCookie (unmanaged task) 0 0) rc2 l3 w2" by blast
    show ?thesis
    proof (cases r2)
      case (Some err2)
      with c sc have res: "ResumeDevice e n w = (Some (Errorf (''Can't set cookie '' @ Error err2)), w2)"
        by (simp add: ResumeDevice_def)
      have "trace w2 = trace w @ (seg1 @ [(DmTaskSetCookie (unmanaged task) 0 0, rc2, l3)])"
        using q1(1) s2 by (simp add: step_def)
      moreover have "quiet_runs (seg1 @ [(DmTaskSetCookie (unmanaged task) 0 0, rc2, l3)])"
        using quiet_runs_no_run [OF q1(2)] by (simp add: quiet_runs_append) (simp add: quiet_runs_def)
      ultimately have "left_suspended n (trace w2) = left_suspended n (trace w)"
        by (rule left_suspended_quiet)
      with res show ?thesis by simp
    next
      case None
      obtain r3 w3 where r: "Run e task w2 = (r3, w3)" by (metis surj_pair)
      from Run_step [OF r] obtain rc3 l4 where
        s3: "step w2 (DmTaskRun (unmanaged task)) rc3 l4 w3" and r3: "r3 = None \<longleftrightarrow> rc3 = 1"
        by blast
      define ck where "ck = (case c2 of None \<Rightarrow> (0::64 word) | Some v \<Rightarrow> v)"
      obtain r4 w4 where u: "UdevWait e ck w3 = (r4, w4)" by (metis surj_pair)
      from UdevWait_step [OF u] obtain rc4 l5 where
        s4: "step w3 (DmUdevWait ck) rc4 l5 w4" by blast
      from c sc None r u have res: "snd (ResumeDevice e n w) = w4"
        "fst (ResumeDevice e n w) = None \<longleftrightarrow> r3 = None"
        by (auto simp: ResumeDevice_def Let_def ck_def split: option.splits)
      show ?thesis
      proof (cases "rc3 = 1")
        case True
        have "trace w4 = trace w @ (DmTaskCreate DeviceResume, unmanaged task, l1)
            # (DmTaskSetName (unmanaged task) n, 1, l2)
            # [(DmTaskSetCookie (unmanaged task) 0 0, rc2, l3)]
            @ (DmTaskRun (unmanaged task), 1, l4) # [(DmUdevWait ck, rc4, l5)]"
          using t1 s2 s3 s4 True by (simp add: step_def)
        from left_suspended_task_run [OF this] have "\<not> left_suspended n (trace w4)"
          by (simp add: quiet_runs_def DeviceResume_def DeviceSuspend_def)
        with res r3 True show ?thesis by simp
      next
        case False
        have "trace w4 = trace w @ (seg1 @ [(DmTaskSetCookie (unmanaged task) 0 0, rc2, l3),
            (DmTaskRun (unmanaged task), rc3, l4), (DmUdevWait ck, rc4, l5)])"
          using q1(1) s2 s3 s4 by (simp add: step_def)
        moreover have "quiet_runs (seg1 @ [(DmTaskSetCookie (unmanaged task) 0 0, rc2, l3),
            (DmTaskRun (unmanaged task), rc3, l4), (DmUdevWait ck, rc4, l5)])"
          using quiet_runs_no_run [OF q1(2)] False
          by (simp add: quiet_runs_append) (simp add: quiet_runs_def)
        ultimately have "left_suspended n (trace w4) = left_suspended n (trace w)"
          by (rule left_suspended_quiet)
        moreover from res r3 False have "fst (ResumeDevice e n w) \<noteq> None" by simp
        ultimately show ?thesis using res(1) by auto
      qed
    qed
  qed
qed

text \<open>What the iterations before the current one have left in the trace.\<close>

lemma iteration_failed_quiet:
  assumes c: "TaskCreateNamed e DeviceTargetMsg p w = ((Some task, err), w1)"
    and s: "SetSector e task 0 w1 = (None, w2)"
    and m: "SetMessage e task msg w2 = (None, w3)"
    and r: "Run e task (w3\<lparr>dmSawExist := False\<rparr>) = (r4, w4)"
  shows "\<exists>seg. trace w4 = trace w @ seg
           \<and> suspend_calls seg = 0 \<and> resume_calls seg = 0
           \<and> (r4 \<noteq> None \<longrightarrow> quiet_runs seg)
           \<and> (\<forall>K. exist_failures K seg = (if r4 \<noteq> None \<and> dmSawExist w4 then 1 else 0))"
proof -
  from iteration_message [OF c s m] obtain seg3 where s3:
    "trace w3 = trace w @ seg3" "filter is_run (calls seg3) = []" by blast
  from Run_step [OF r] obtain rc l where
    s4: "step (w3\<lparr>dmSawExist := False\<rparr>) (DmTaskRun (unmanaged task)) rc l w4"
    and res: "r4 = None \<longleftrightarrow> rc = 1" by blast
  have t4: "trace w4 = trace w @ (seg3 @ [(DmTaskRun (unmanaged task), rc, l)])"
    using s3(1) s4 by (simp add: step_def)
  have q: "r4 \<noteq> None \<longrightarrow> quiet_runs (seg3 @ [(DmTaskRun (unmanaged task), rc, l)])"
    using quiet_runs_no_run [OF s3(2)] res
    by (simp add: quiet_runs_append) (simp add: quiet_runs_def)
  from iteration_run [OF c s m r] obtain seg where seg:
    "trace w4 = trace w @ seg"
    "\<forall>K. exist_failures K seg = (if r4 \<noteq> None \<and> dmSawExist w4 then 1 else 0)"
    "resume_calls seg = 0" "suspend_calls seg = 0" by blast
  from t4 seg(1) have "seg = seg3 @ [(DmTaskRun (unmanaged task), rc, l)]" by simp
  with q seg show ?thesis by blast
qed

lemma loop_reaches_trace:
  assumes "loop_reaches e p msg s t"
  shows "\<exists>seg. trace (fst t) = trace (fst s) @ seg
           \<and> suspend_calls seg = 0 \<and> resume_calls seg = 0 \<and> quiet_runs seg
           \<and> (\<forall>K. snd t = snd s + of_nat (exist_failures K seg))"
  using assms
proof (induction rule: loop_reaches.induct)
  case (entered s)
  show ?case
    by (rule exI [of _ "[]"])
      (simp add: suspend_calls_def resume_calls_def calls_def quiet_runs_def)
next
  case (retried s w i task err w1 w2 w3 err3 w4)
  from retried.IH obtain seg where seg:
    "trace w = trace (fst s) @ seg" "suspend_calls seg = 0" "resume_calls seg = 0"
    "quiet_runs seg" "\<forall>K. i = snd s + of_nat (exist_failures K seg)"
    by auto
  from iteration_failed_quiet [OF retried.hyps(2-5)] retried.hyps(6) obtain seg' where seg':
    "trace w4 = trace w @ seg'" "suspend_calls seg' = 0" "resume_calls seg' = 0"
    "quiet_runs seg'" "\<forall>K. exist_failures K seg' = 1"
    by auto
  have "trace (fst (w4, i + 1)) = trace (fst s) @ (seg @ seg')"
    using seg(1) seg'(1) by simp
  moreover have "suspend_calls (seg @ seg') = 0" "resume_calls (seg @ seg') = 0"
    "quiet_runs (seg @ seg')"
    using seg(2-4) seg'(2-4)
    by (simp_all add: suspend_calls_append resume_calls_append quiet_runs_append)
  moreover have "\<forall>K. snd (w4, i + 1) = snd s + of_nat (exist_failures K (seg @ seg'))"
    using seg(5) seg'(5) by (simp add: exist_failures_append add.assoc)
  ultimately show ?case by blast
qed

lemma loop_reaches_snap_loop:
  assumes "loop_reaches e p
             (\<lambda>i. ''create_snap '' @ fmt_d (sint i) @ '' '' @ fmt_d (sint bid)) s t"
  shows "CreateSnapDevice_loop e p b bid ds (fst s) (snd s)
           = CreateSnapDevice_loop e p b bid ds (fst t) (snd t)"
  using assms
proof (induction rule: loop_reaches.induct)
  case (entered s)
  show ?case by simp
next
  case (retried s w i task err w1 w2 w3 err3 w4)
  have "CreateSnapDevice_loop e p b bid ds w i
          = CreateSnapDevice_loop e p b bid ds w4 (i + 1)"
    using retried.hyps(2-6) by (subst CreateSnapDevice_loop.simps) simp
  with retried.IH show ?case by simp
qed

text \<open>An iteration of the loop of \<open>CreateSnapDevice\<close> when there is no origin to suspend.\<close>

lemma CreateSnapDevice_unsuspended_iteration:
  assumes g: "GetInfo e b w = ((d, ierr), w0)"
    and nd: "(case d of None \<Rightarrow> False | Some x \<Rightarrow> Exists x \<noteq> 0) = False"
    and reach: "loop_reaches e p
                  (\<lambda>i. ''create_snap '' @ fmt_d (sint i) @ '' '' @ fmt_d (sint bid))
                  (w0, i) (wk, ik)"
    and c: "TaskCreateNamed e DeviceTargetMsg p wk = ((Some task, err), w1)"
    and s: "SetSector e task 0 w1 = (None, w2)"
    and m: "SetMessage e task (''create_snap '' @ fmt_d (sint ik) @ '' '' @ fmt_d (sint bid)) w2
              = (None, w3)"
    and r: "Run e task (w3\<lparr>dmSawExist := False\<rparr>) = (r4, w4)"
  shows "calls (trace w4)
           = calls (trace wk) @ [DmTaskCreate DeviceTargetMsg, DmTaskSetName (unmanaged task) p,
               DmTaskSetSector (unmanaged task) 0,
               DmTaskSetMessage (unmanaged task)
                 (''create_snap '' @ fmt_d (sint ik) @ '' '' @ fmt_d (sint bid)),
               DmTaskRun (unmanaged task)]"
    and "\<exists>seg. trace w4 = trace w @ seg \<and> suspend_calls seg = 0 \<and> resume_calls seg = 0"
    and "r4 = None \<longrightarrow> CreateSnapDevice e p i b bid w = Some (None, w4, ik)"
    and "r4 \<noteq> None \<and> \<not> dmSawExist w4
           \<longrightarrow> CreateSnapDevice e p i b bid w
                 = Some (Some (Errorf
                      ''Error running DeviceCreate (createSnapDevice) dm_task_run failed''),
                    w4, ik)"
    and "r4 \<noteq> None \<and> dmSawExist w4
           \<longrightarrow> loop_reaches e p
                 (\<lambda>i. ''create_snap '' @ fmt_d (sint i) @ '' '' @ fmt_d (sint bid))
                 (w0, i) (w4, ik + 1)"
proof -
  show "calls (trace w4)
           = calls (trace wk) @ [DmTaskCreate DeviceTargetMsg, DmTaskSetName (unmanaged task) p,
               DmTaskSetSector (unmanaged task) 0,
               DmTaskSetMessage (unmanaged task)
                 (''create_snap '' @ fmt_d (sint ik) @ '' '' @ fmt_d (sint bid)),
               DmTaskRun (unmanaged task)]"
    using c s m r by (rule iteration_calls)
  from GetInfo_trace [of e b w] g obtain gs where
    gs: "trace w0 = trace w @ gs" "plain gs 0 0" by auto
  from loop_reaches_trace [OF reach] obtain ls where
    ls: "trace wk = trace w0 @ ls" "suspend_calls ls = 0" "resume_calls ls = 0" by auto
  from iteration_failed_quiet [OF c s m r] obtain seg where
    seg: "trace w4 = trace wk @ seg" "suspend_calls seg = 0" "resume_calls seg = 0" by auto
  have "trace w4 = trace w @ (gs @ ls @ seg)" using gs(1) ls(1) seg(1) by simp
  moreover have "suspend_calls (gs @ ls @ seg) = 0" "resume_calls (gs @ ls @ seg) = 0"
    using gs(2) ls(2,3) seg(2,3)
    by (simp_all add: plain_def suspend_calls_append resume_calls_append)
  ultimately show "\<exists>seg. trace w4 = trace w @ seg \<and> suspend_calls seg = 0 \<and> resume_calls seg = 0"
    by blast
  from loop_reaches_snap_loop [OF reach, of b False]
  have eq: "CreateSnapDevice e p i b bid w
           = (case CreateSnapDevice_loop e p b bid False wk ik of
                None \<Rightarrow> None
              | Some (Return err, w2, i') \<Rightarrow> Some (err, w2, i')
              | Some (Break, w2, i') \<Rightarrow> Some (None, w2, i'))"
    using CreateSnapDevice_not_suspended [OF g nd, of p i bid] by simp
  show "r4 = None \<longrightarrow> CreateSnapDevice e p i b bid w = Some (None, w4, ik)"
  proof
    assume "r4 = None"
    with loop_run_succeeds [OF c s m, of w4 b False] r show
      "CreateSnapDevice e p i b bid w = Some (None, w4, ik)"
      by (simp add: eq)
  qed
  show "r4 \<noteq> None \<and> \<not> dmSawExist w4
           \<longrightarrow> CreateSnapDevice e p i b bid w
                 = Some (Some (Errorf
                      ''Error running DeviceCreate (createSnapDevice) dm_task_run failed''),
                    w4, ik)"
  proof
    assume h: "r4 \<noteq> None \<and> \<not> dmSawExist w4"
    then obtain err3 where "r4 = Some err3" by auto
    with loop_run_fails [OF c s m, of err3 w4 b False] r h show
      "CreateSnapDevice e p i b bid w
                 = Some (Some (Errorf
                      ''Error running DeviceCreate (createSnapDevice) dm_task_run failed''),
                    w4, ik)"
      by (simp add: eq)
  qed
  show "r4 \<noteq> None \<and> dmSawExist w4
           \<longrightarrow> loop_reaches e p
                 (\<lambda>i. ''create_snap '' @ fmt_d (sint i) @ '' '' @ fmt_d (sint bid))
                 (w0, i) (w4, ik + 1)"
  proof
    assume h: "r4 \<noteq> None \<and> dmSawExist w4"
    then obtain err3 where "r4 = Some err3" by auto
    with loop_reaches.retried [OF reach c s m] r h show
      "loop_reaches e p
                 (\<lambda>i. ''create_snap '' @ fmt_d (sint i) @ '' '' @ fmt_d (sint bid))
                 (w0, i) (w4, ik + 1)"
      by simp
  qed
qed

section \<open>Properties\<close>

text \<open>
  C1. \<open>CreateDevice\<close>, in an iteration whose task is built (created, named, sector 0,
  message "create_thin" with the id in the slot) and run with the already-exists flag
  cleared just before: if the run fails and the flag was set during it, the call goes on
  as the call from the world after the run with the slot incremented by one; if the run
  fails without the flag, it returns the run error at once, the run being its last native
  call; if the run succeeds it returns success with the slot as it is. The five native
  calls of the iteration are the only ones. In particular, with the ids 5, 6 and 7 taken,
  the call that starts at 5 sends four messages, runs four tasks and returns success
  with the slot at 8.
\<close>

theorem CreateDevice_retries:
  "(TaskCreateNamed e DeviceTargetMsg poolName w = ((Some task, err), w1)
      \<and> SetSector e task 0 w1 = (None, w2)
      \<and> SetMessage e task (''create_thin '' @ fmt_d (sint deviceId)) w2 = (None, w3)
      \<and> Run e task (w3\<lparr>dmSawExist := False\<rparr>) = (r, w4)
    \<longrightarrow> (r \<noteq> None \<and> dmSawExist w4
           \<longrightarrow> CreateDevice e poolName w deviceId = CreateDevice e poolName w4 (deviceId + 1))
        \<and> (r \<noteq> None \<and> \<not> dmSawExist w4
           \<longrightarrow> CreateDevice e poolName w deviceId
                 = Some (Some (Errorf ''Error running CreateDevice dm_task_run failed''),
                         w4, deviceId))
        \<and> (r = None \<longrightarrow> CreateDevice e poolName w deviceId = Some (None, w4, deviceId))
        \<and> (dmSawExist w4 \<longleftrightarrow> snd (logged e (trace w3) (DmTaskRun (unmanaged task))))
        \<and> calls (trace w4)
            = calls (trace w) @ [DmTaskCreate DeviceTargetMsg,
                DmTaskSetName (unmanaged task) poolName, DmTaskSetSector (unmanaged task) 0,
                DmTaskSetMessage (unmanaged task) (''create_thin '' @ fmt_d (sint deviceId)),
                DmTaskRun (unmanaged task)])
   \<and> (\<exists>w'. CreateDevice ids_taken ''pool'' world0 5 = Some (None, w', 8)
          \<and> filter is_message (calls (trace w'))
              = [DmTaskSetMessage 1 ''create_thin 5'', DmTaskSetMessage 6 ''create_thin 6'',
                 DmTaskSetMessage 11 ''create_thin 7'', DmTaskSetMessage 16 ''create_thin 8'']
          \<and> length (filter is_run (calls (trace w'))) = 4)"
proof (rule conjI)
  show "TaskCreateNamed e DeviceTargetMsg poolName w = ((Some task, err), w1)
      \<and> SetSector e task 0 w1 = (None, w2)
      \<and> SetMessage e task (''create_thin '' @ fmt_d (sint deviceId)) w2 = (None, w3)
      \<and> Run e task (w3\<lparr>dmSawExist := False\<rparr>) = (r, w4)
    \<longrightarrow> (r \<noteq> None \<and> dmSawExist w4
           \<longrightarrow> CreateDevice e poolName w deviceId = CreateDevice e poolName w4 (deviceId + 1))
        \<and> (r \<noteq> None \<and> \<not> dmSawExist w4
           \<longrightarrow> CreateDevice e poolName w deviceId
                 = Some (Some (Errorf ''Error running CreateDevice dm_task_run failed''),
                         w4, deviceId))
        \<and> (r = None \<longrightarrow> CreateDevice e poolName w deviceId = Some (None, w4, deviceId))
        \<and> (dmSawExist w4 \<longleftrightarrow> snd (logged e (trace w3) (DmTaskRun (unmanaged task))))
        \<and> calls (trace w4)
            = calls (trace w) @ [DmTaskCreate DeviceTargetMsg,
                DmTaskSetName (unmanaged task) poolName, DmTaskSetSector (unmanaged task) 0,
                DmTaskSetMessage (unmanaged task) (''create_thin '' @ fmt_d (sint deviceId)),
                DmTaskRun (unmanaged task)]"
  proof (rule impI)
    assume h: "TaskCreateNamed e DeviceTargetMsg poolName w = ((Some task, err), w1)
      \<and> SetSector e task 0 w1 = (None, w2)
      \<and> SetMessage e task (''create_thin '' @ fmt_d (sint deviceId)) w2 = (None, w3)
      \<and> Run e task (w3\<lparr>dmSawExist := False\<rparr>) = (r, w4)"
    then have c: "TaskCreateNamed e DeviceTargetMsg poolName w = ((Some task, err), w1)"
      and s: "SetSector e task 0 w1 = (None, w2)"
      and m: "SetMessage e task (''create_thin '' @ fmt_d (sint deviceId)) w2 = (None, w3)"
      and r: "Run e task (w3\<lparr>dmSawExist := False\<rparr>) = (r, w4)"
      by simp_all
    note unfold = CreateDevice.simps [of e poolName w deviceId]
    have A: "r \<noteq> None \<and> dmSawExist w4
           \<longrightarrow> CreateDevice e poolName w deviceId = CreateDevice e poolName w4 (deviceId + 1)"
    proof
      assume "r \<noteq> None \<and> dmSawExist w4"
      with Run_after_reset(2) [OF r] have "r = Some ErrTaskRun" "dmSawExist w4" by simp_all
      with c s m r show "CreateDevice e poolName w deviceId
                           = CreateDevice e poolName w4 (deviceId + 1)"
        by (subst unfold) simp
    qed
    have B: "r \<noteq> None \<and> \<not> dmSawExist w4
           \<longrightarrow> CreateDevice e poolName w deviceId
                 = Some (Some (Errorf ''Error running CreateDevice dm_task_run failed''),
                         w4, deviceId)"
    proof
      assume "r \<noteq> None \<and> \<not> dmSawExist w4"
      with Run_after_reset(2) [OF r] have "r = Some ErrTaskRun" "\<not> dmSawExist w4" by simp_all
      with c s m r show "CreateDevice e poolName w deviceId
                 = Some (Some (Errorf ''Error running CreateDevice dm_task_run failed''),
                         w4, deviceId)"
        by (subst unfold) simp
    qed
    have C: "r = None \<longrightarrow> CreateDevice e poolName w deviceId = Some (None, w4, deviceId)"
      using c s m r by (subst unfold) simp
    have D: "dmSawExist w4 \<longleftrightarrow> snd (logged e (trace w3) (DmTaskRun (unmanaged task)))"
      using r by (rule Run_after_reset(1))
    have E: "calls (trace w4)
            = calls (trace w) @ [DmTaskCreate DeviceTargetMsg,
                DmTaskSetName (unmanaged task) poolName, DmTaskSetSector (unmanaged task) 0,
                DmTaskSetMessage (unmanaged task) (''create_thin '' @ fmt_d (sint deviceId)),
                DmTaskRun (unmanaged task)]"
      using c s m r by (rule iteration_calls)
    from A B C D E show "(r \<noteq> None \<and> dmSawExist w4
           \<longrightarrow> CreateDevice e poolName w deviceId = CreateDevice e poolName w4 (deviceId + 1))
        \<and> (r \<noteq> None \<and> \<not> dmSawExist w4
           \<longrightarrow> CreateDevice e poolName w deviceId
                 = Some (Some (Errorf ''Error running CreateDevice dm_task_run failed''),
                         w4, deviceId))
        \<and> (r = None \<longrightarrow> CreateDevice e poolName w deviceId = Some (None, w4, deviceId))
        \<and> (dmSawExist w4 \<longleftrightarrow> snd (logged e (trace w3) (DmTaskRun (unmanaged task))))
        \<and> calls (trace w4)
            = calls (trace w) @ [DmTaskCreate DeviceTargetMsg,
                DmTaskSetName (unmanaged task) poolName, DmTaskSetSector (unmanaged task) 0,
                DmTaskSetMessage (unmanaged task) (''create_thin '' @ fmt_d (sint deviceId)),
                DmTaskRun (unmanaged task)]"
      by (intro conjI)
  qed
  show "\<exists>w'. CreateDevice ids_taken ''pool'' world0 5 = Some (None, w', 8)
          \<and> filter is_message (calls (trace w'))
              = [DmTaskSetMessage 1 ''create_thin 5'', DmTaskSetMessage 6 ''create_thin 6'',
                 DmTaskSetMessage 11 ''create_thin 7'', DmTaskSetMessage 16 ''create_thin 8'']
          \<and> length (filter is_run (calls (trace w'))) = 4"
    by (rule exI [of _ "fst (snd (the (CreateDevice ids_taken ''pool'' world0 5)))"]) code_simp
qed

theorem CreateDevice_retries_witness:
  "snd (snd (the (CreateDevice ids_taken ''pool'' world0 7))) = 8
   \<and> fst (the (CreateDevice ids_taken ''pool'' world0 7)) = None
   \<and> CreateDevice msg_fails ''pool'' world0 5 \<noteq> None
   \<and> fst (the (CreateDevice msg_fails ''pool'' world0 5))
       = Some (Errorf ''Error running CreateDevice dm_task_run failed'')
   \<and> snd (snd (the (CreateDevice msg_fails ''pool'' world0 5))) = 5
   \<and> CreateDevice healthy ''pool'' world0 5 \<noteq> None
   \<and> fst (the (CreateDevice healthy ''pool'' world0 5)) = None
   \<and> snd (snd (the (CreateDevice healthy ''pool'' world0 5))) = 5"
proof -
  let ?t = "\<lparr>unmanaged = 1\<rparr>"
  have a: "snd (snd (the (CreateDevice ids_taken ''pool'' world0 7))) = 8
           \<and> fst (the (CreateDevice ids_taken ''pool'' world0 7)) = None"
  proof -
    let ?w1 = "snd (TaskCreateNamed ids_taken DeviceTargetMsg ''pool'' world0)"
    let ?w2 = "snd (SetSector ids_taken ?t 0 ?w1)"
    let ?w3 = "snd (SetMessage ids_taken ?t (''create_thin '' @ fmt_d (sint (7::64 word))) ?w2)"
    let ?w4 = "snd (Run ids_taken ?t (?w3\<lparr>dmSawExist := False\<rparr>))"
    have h: "TaskCreateNamed ids_taken DeviceTargetMsg ''pool'' world0 = ((Some ?t, None), ?w1)
        \<and> SetSector ids_taken ?t 0 ?w1 = (None, ?w2)
        \<and> SetMessage ids_taken ?t (''create_thin '' @ fmt_d (sint (7::64 word))) ?w2 = (None, ?w3)
        \<and> Run ids_taken ?t (?w3\<lparr>dmSawExist := False\<rparr>) = (Some ErrTaskRun, ?w4)"
      by code_simp
    have f: "Some ErrTaskRun \<noteq> None \<and> dmSawExist ?w4"
      by code_simp
    have nxt: "snd (snd (the (CreateDevice ids_taken ''pool'' ?w4 (7 + 1)))) = 8
           \<and> fst (the (CreateDevice ids_taken ''pool'' ?w4 (7 + 1))) = None"
      by code_simp
    from CreateDevice_retries [THEN conjunct1, rule_format, OF h, THEN conjunct1, rule_format, OF f]
    have "CreateDevice ids_taken ''pool'' world0 7 = CreateDevice ids_taken ''pool'' ?w4 (7 + 1)" .
    with nxt show ?thesis by simp
  qed
  have b: "CreateDevice msg_fails ''pool'' world0 5 \<noteq> None
   \<and> fst (the (CreateDevice msg_fails ''pool'' world0 5))
       = Some (Errorf ''Error running CreateDevice dm_task_run failed'')
   \<and> snd (snd (the (CreateDevice msg_fails ''pool'' world0 5))) = 5"
  proof -
    let ?w1 = "snd (TaskCreateNamed msg_fails DeviceTargetMsg ''pool'' world0)"
    let ?w2 = "snd (SetSector msg_fails ?t 0 ?w1)"
    let ?w3 = "snd (SetMessage msg_fails ?t (''create_thin '' @ fmt_d (sint (5::64 word))) ?w2)"
    let ?w4 = "snd (Run msg_fails ?t (?w3\<lparr>dmSawExist := False\<rparr>))"
    have h: "TaskCreateNamed msg_fails DeviceTargetMsg ''pool'' world0 = ((Some ?t, None), ?w1)
        \<and> SetSector msg_fails ?t 0 ?w1 = (None, ?w2)
        \<and> SetMessage msg_fails ?t (''create_thin '' @ fmt_d (sint (5::64 word))) ?w2 = (None, ?w3)
        \<and> Run msg_fails ?t (?w3\<lparr>dmSawExist := False\<rparr>) = (Some ErrTaskRun, ?w4)"
      by code_simp
    have f: "Some ErrTaskRun \<noteq> None \<and> \<not> dmSawExist ?w4"
      by code_simp
    from CreateDevice_retries [THEN conjunct1, rule_format, OF h, THEN conjunct2, THEN conjunct1,
        rule_format, OF f]
    show ?thesis by simp
  qed
  have c: "CreateDevice healthy ''pool'' world0 5 \<noteq> None
   \<and> fst (the (CreateDevice healthy ''pool'' world0 5)) = None
   \<and> snd (snd (the (CreateDevice healthy ''pool'' world0 5))) = 5"
  proof -
    let ?w1 = "snd (TaskCreateNamed healthy DeviceTargetMsg ''pool'' world0)"
    let ?w2 = "snd (SetSector healthy ?t 0 ?w1)"
    let ?w3 = "snd (SetMessage healthy ?t (''create_thin '' @ fmt_d (sint (5::64 word))) ?w2)"
    let ?w4 = "snd (Run healthy ?t (?w3\<lparr>dmSawExist := False\<rparr>))"
    have h: "TaskCreateNamed healthy DeviceTargetMsg ''pool'' world0 = ((Some ?t, None), ?w1)
        \<and> SetSector healthy ?t 0 ?w1 = (None, ?w2)
        \<and> SetMessage healthy ?t (''create_thin '' @ fmt_d (sint (5::64 word))) ?w2 = (None, ?w3)
        \<and> Run healthy ?t (?w3\<lparr>dmSawExist := False\<rparr>) = (None, ?w4)"
      by code_simp
    from CreateDevice_retries [THEN conjunct1, rule_format, OF h, THEN conjunct2, THEN conjunct2,
        THEN conjunct1, rule_format, OF refl]
    show ?thesis by simp
  qed
  from a b c show ?thesis by simp
qed

text \<open>
  C2 as stated does not hold: the origin can be left suspended on this error path. The
  rollback calls \<open>ResumeDevice\<close> as a statement and drops its result. On an engine where
  the run of the create_snap message fails, not as already-exists, and the run of the
  resume task fails as well, the origin has been suspended, the call returns the run error
  after exactly one call of \<open>ResumeDevice\<close>, and in the trace it leaves the origin is still
  suspended: the last successful run of a task named on the origin is the suspend.
\<close>

theorem origin_left_suspended:
  "fst (SuspendDevice msg_and_resume_fail ''base''
          (snd (GetInfo msg_and_resume_fail ''base'' world0))) = None
   \<and> CreateSnapDevice msg_and_resume_fail ''pool'' 5 ''base'' 2 world0
       = Some (Some (Errorf ''Error running DeviceCreate (createSnapDevice) dm_task_run failed''),
               snd (ResumeDevice msg_and_resume_fail ''base'' rollback_world), 5)
   \<and> resume_calls (trace (snd (ResumeDevice msg_and_resume_fail ''base'' rollback_world))) = 1
   \<and> left_suspended ''base''
        (trace (snd (ResumeDevice msg_and_resume_fail ''base'' rollback_world)))"
  by code_simp

text \<open>
  C2, amended. The origin exists and has been suspended; the loop, after any number of
  retries, is at an iteration whose task is built and whose run fails without the
  already-exists flag. Then \<open>CreateSnapDevice\<close> returns the run error in the world that
  \<open>ResumeDevice\<close> on the origin leaves after the failed run, whatever that call returned.
  The events of the whole call show exactly one call of \<open>ResumeDevice\<close> and one of
  \<open>SuspendDevice\<close>, and that one resume call starts right after the failed run. The origin
  is suspended when the run has failed, and it is still suspended when
  \<open>CreateSnapDevice\<close> returns exactly when that call of \<open>ResumeDevice\<close> failed.
\<close>

theorem CreateSnapDevice_run_failure_resume:
  assumes "GetInfo e baseName w = ((Some devinfo, ierr), w0)"
    and "Exists devinfo \<noteq> 0"
    and "SuspendDevice e baseName w0 = (None, ws)"
    and "loop_reaches e poolName
           (\<lambda>i. ''create_snap '' @ fmt_d (sint i) @ '' '' @ fmt_d (sint baseDeviceId))
           (ws, deviceId) (wk, idk)"
    and "TaskCreateNamed e DeviceTargetMsg poolName wk = ((Some task, err), w1)"
    and "SetSector e task 0 w1 = (None, w2)"
    and "SetMessage e task
           (''create_snap '' @ fmt_d (sint idk) @ '' '' @ fmt_d (sint baseDeviceId)) w2
           = (None, w3)"
    and "Run e task (w3\<lparr>dmSawExist := False\<rparr>) = (Some err3, w4)"
    and "\<not> dmSawExist w4"
  shows "CreateSnapDevice e poolName deviceId baseName baseDeviceId w
           = Some (Some (Errorf
                     ''Error running DeviceCreate (createSnapDevice) dm_task_run failed''),
                   snd (ResumeDevice e baseName w4), idk)
         \<and> (\<exists>seg. trace (snd (ResumeDevice e baseName w4)) = trace w @ seg
               \<and> resume_calls seg = 1 \<and> suspend_calls seg = 1)
         \<and> (\<exists>seg. trace (snd (ResumeDevice e baseName w4)) = trace w4 @ seg
               \<and> first_call seg = Some (DmTaskCreate DeviceResume) \<and> resume_calls seg = 1)
         \<and> left_suspended baseName (trace w4)
         \<and> (left_suspended baseName (trace (snd (ResumeDevice e baseName w4)))
              \<longleftrightarrow> fst (ResumeDevice e baseName w4) \<noteq> None)"
proof (intro conjI)
  from loop_reaches_snap_loop [OF assms(4), of baseName True]
  have reach: "CreateSnapDevice_loop e poolName baseName baseDeviceId True ws deviceId
           = CreateSnapDevice_loop e poolName baseName baseDeviceId True wk idk"
    by simp
  from loop_run_fails [OF assms(5-9), of baseName True]
  have l: "CreateSnapDevice_loop e poolName baseName baseDeviceId True wk idk
           = Some (Return (Some (Errorf
                     ''Error running DeviceCreate (createSnapDevice) dm_task_run failed'')),
                   snd (ResumeDevice e baseName w4), idk)"
    by simp
  from CreateSnapDevice_from(1) [OF assms(1-3) reach l]
  show ret: "CreateSnapDevice e poolName deviceId baseName baseDeviceId w
           = Some (Some (Errorf
                     ''Error running DeviceCreate (createSnapDevice) dm_task_run failed''),
                   snd (ResumeDevice e baseName w4), idk)" .
  from CreateSnapDevice_suspended_counts [OF assms(1-3) ret]
  show "\<exists>seg. trace (snd (ResumeDevice e baseName w4)) = trace w @ seg
               \<and> resume_calls seg = 1 \<and> suspend_calls seg = 1" .
  from ResumeDevice_first_call [of e baseName w4]
  show "\<exists>seg. trace (snd (ResumeDevice e baseName w4)) = trace w4 @ seg
               \<and> first_call seg = Some (DmTaskCreate DeviceResume) \<and> resume_calls seg = 1" .
  have "left_suspended baseName (trace ws)"
    using assms(3) by (rule SuspendDevice_ok_suspends)
  moreover from loop_reaches_trace [OF assms(4)] obtain seg where
    "trace wk = trace ws @ seg" "quiet_runs seg" by auto
  ultimately have "left_suspended baseName (trace wk)"
    using left_suspended_quiet by blast
  moreover from iteration_failed_quiet [OF assms(5-8)] obtain seg' where
    "trace w4 = trace wk @ seg'" "quiet_runs seg'" by auto
  ultimately show sus: "left_suspended baseName (trace w4)"
    using left_suspended_quiet by blast
  show "left_suspended baseName (trace (snd (ResumeDevice e baseName w4)))
              \<longleftrightarrow> fst (ResumeDevice e baseName w4) \<noteq> None"
    using ResumeDevice_left_suspended [of baseName e w4] sus by auto
qed

theorem CreateSnapDevice_run_failure_resume_witness:
  "CreateSnapDevice msg_fails ''pool'' 5 ''base'' 2 world0 \<noteq> None
   \<and> fst (the (CreateSnapDevice msg_fails ''pool'' 5 ''base'' 2 world0))
       = Some (Errorf ''Error running DeviceCreate (createSnapDevice) dm_task_run failed'')
   \<and> resume_calls (trace (fst (snd (the
          (CreateSnapDevice msg_fails ''pool'' 5 ''base'' 2 world0))))) = 1
   \<and> suspend_calls (trace (fst (snd (the
          (CreateSnapDevice msg_fails ''pool'' 5 ''base'' 2 world0))))) = 1
   \<and> \<not> left_suspended ''base'' (trace (fst (snd (the
          (CreateSnapDevice msg_fails ''pool'' 5 ''base'' 2 world0)))))"
proof -
  let ?t = "\<lparr>unmanaged = 8\<rparr>"
  let ?w0 = "snd (GetInfo msg_fails ''base'' world0)"
  let ?ws = "snd (SuspendDevice msg_fails ''base'' ?w0)"
  let ?w1 = "snd (TaskCreateNamed msg_fails DeviceTargetMsg ''pool'' ?ws)"
  let ?w2 = "snd (SetSector msg_fails ?t 0 ?w1)"
  let ?m = "''create_snap '' @ fmt_d (sint (5::64 word)) @ '' '' @ fmt_d (sint (2::64 word))"
  let ?w3 = "snd (SetMessage msg_fails ?t ?m ?w2)"
  let ?w4 = "snd (Run msg_fails ?t (?w3\<lparr>dmSawExist := False\<rparr>))"
  have g: "GetInfo msg_fails ''base'' world0 = ((Some (sim_info 1), None), ?w0)"
    by code_simp
  have x: "Exists (sim_info 1) \<noteq> 0"
    by (simp add: sim_info_def)
  have su: "SuspendDevice msg_fails ''base'' ?w0 = (None, ?ws)"
    by code_simp
  have c: "TaskCreateNamed msg_fails DeviceTargetMsg ''pool'' ?ws = ((Some ?t, None), ?w1)"
    by code_simp
  have s: "SetSector msg_fails ?t 0 ?w1 = (None, ?w2)"
    by code_simp
  have m: "SetMessage msg_fails ?t ?m ?w2 = (None, ?w3)"
    by code_simp
  have r: "Run msg_fails ?t (?w3\<lparr>dmSawExist := False\<rparr>) = (Some ErrTaskRun, ?w4)"
    by code_simp
  have f: "\<not> dmSawExist ?w4"
    by code_simp
  have ok: "fst (ResumeDevice msg_fails ''base'' ?w4) = None"
    by code_simp
  have e: "trace world0 = []"
    by (simp add: world0_def)
  from CreateSnapDevice_run_failure_resume [OF g x su loop_reaches.entered c s m r f] e ok
  show ?thesis
    by auto
qed

text \<open>
  C3. \<open>RemoveDevice\<close>, once the remove task is built and its cookie set: the busy flag
  is cleared and the task run with no native call in between, so that the flag after the
  run is exactly what the callback saw during the run; a failed run returns \<open>ErrBusy\<close>
  when that flag is set and the generic run error otherwise, never the generic error for
  a busy run; and whatever the run returned, the last native call is the wait on the
  cookie.
\<close>

theorem RemoveDevice_classifies_busy:
  assumes "TaskCreateNamed e DeviceRemove name w = ((Some task, err), w1)"
    and "SetCookie e task (Some 0) 0 w1 = (None, Some cookie, w2)"
    and "Run e task (w2\<lparr>dmSawBusy := False\<rparr>) = (r, w3)"
  shows "RemoveDevice e name w
           = (if r = None then None
              else if dmSawBusy w3 then Some ErrBusy
              else Some (Errorf ''Error running RemoveDevice dm_task_run failed''),
              snd (UdevWait e cookie w3))
         \<and> (dmSawBusy w3 \<longleftrightarrow> fst (logged e (trace w2) (DmTaskRun (unmanaged task))))
         \<and> (r = None \<longleftrightarrow> result e (trace w2) (DmTaskRun (unmanaged task)) = 1)
         \<and> calls (trace (snd (UdevWait e cookie w3)))
           = calls (trace w2) @ [DmTaskRun (unmanaged task), DmUdevWait cookie]"
proof (intro conjI)
  from Run_step [OF assms(3)] have r: "r \<noteq> None \<longrightarrow> r = Some ErrTaskRun"
    by blast
  show "RemoveDevice e name w
           = (if r = None then None
              else if dmSawBusy w3 then Some ErrBusy
              else Some (Errorf ''Error running RemoveDevice dm_task_run failed''),
              snd (UdevWait e cookie w3))"
    using assms r by (cases r) (auto simp: RemoveDevice_def)
  show "dmSawBusy w3 \<longleftrightarrow> fst (logged e (trace w2) (DmTaskRun (unmanaged task)))"
    using assms(3) by (auto simp: Run_def native_def split: if_splits)
  show "r = None \<longleftrightarrow> result e (trace w2) (DmTaskRun (unmanaged task)) = 1"
    using assms(3) by (auto simp: Run_def native_def split: if_splits)
  have "calls (trace w3) = calls (trace w2) @ [DmTaskRun (unmanaged task)]"
    using Run_calls [of e task "w2\<lparr>dmSawBusy := False\<rparr>"] assms(3) by simp
  then show "calls (trace (snd (UdevWait e cookie w3)))
           = calls (trace w2) @ [DmTaskRun (unmanaged task), DmUdevWait cookie]"
    by (simp add: UdevWait_calls)
qed

theorem RemoveDevice_classifies_busy_witness:
  "fst (RemoveDevice busy_remove ''dev'' world0) = Some ErrBusy
   \<and> fst (RemoveDevice failing_remove ''dev'' world0)
       = Some (Errorf ''Error running RemoveDevice dm_task_run failed'')
   \<and> fst (RemoveDevice healthy ''dev'' world0) = None"
proof (intro conjI)
  let ?t = "\<lparr>unmanaged = 1\<rparr>"
  show "fst (RemoveDevice busy_remove ''dev'' world0) = Some ErrBusy"
  proof -
    let ?w1 = "snd (TaskCreateNamed busy_remove DeviceRemove ''dev'' world0)"
    let ?w2 = "snd (snd (SetCookie busy_remove ?t (Some 0) 0 ?w1))"
    let ?w3 = "snd (Run busy_remove ?t (?w2\<lparr>dmSawBusy := False\<rparr>))"
    have h1: "TaskCreateNamed busy_remove DeviceRemove ''dev'' world0 = ((Some ?t, None), ?w1)"
      by code_simp
    have h2: "SetCookie busy_remove ?t (Some 0) 0 ?w1 = (None, Some 7, ?w2)"
      by code_simp
    have h3: "Run busy_remove ?t (?w2\<lparr>dmSawBusy := False\<rparr>) = (Some ErrTaskRun, ?w3)"
      by code_simp
    have b: "dmSawBusy ?w3"
      by code_simp
    from RemoveDevice_classifies_busy [OF h1 h2 h3] b show ?thesis
      by simp
  qed
  show "fst (RemoveDevice failing_remove ''dev'' world0)
       = Some (Errorf ''Error running RemoveDevice dm_task_run failed'')"
  proof -
    let ?w1 = "snd (TaskCreateNamed failing_remove DeviceRemove ''dev'' world0)"
    let ?w2 = "snd (snd (SetCookie failing_remove ?t (Some 0) 0 ?w1))"
    let ?w3 = "snd (Run failing_remove ?t (?w2\<lparr>dmSawBusy := False\<rparr>))"
    have h1: "TaskCreateNamed failing_remove DeviceRemove ''dev'' world0 = ((Some ?t, None), ?w1)"
      by code_simp
    have h2: "SetCookie failing_remove ?t (Some 0) 0 ?w1 = (None, Some 7, ?w2)"
      by code_simp
    have h3: "Run failing_remove ?t (?w2\<lparr>dmSawBusy := False\<rparr>) = (Some ErrTaskRun, ?w3)"
      by code_simp
    have b: "\<not> dmSawBusy ?w3"
      by code_simp
    from RemoveDevice_classifies_busy [OF h1 h2 h3] b show ?thesis
      by simp
  qed
  show "fst (RemoveDevice healthy ''dev'' world0) = None"
  proof -
    let ?w1 = "snd (TaskCreateNamed healthy DeviceRemove ''dev'' world0)"
    let ?w2 = "snd (snd (SetCookie healthy ?t (Some 0) 0 ?w1))"
    let ?w3 = "snd (Run healthy ?t (?w2\<lparr>dmSawBusy := False\<rparr>))"
    have h1: "TaskCreateNamed healthy DeviceRemove ''dev'' world0 = ((Some ?t, None), ?w1)"
      by code_simp
    have h2: "SetCookie healthy ?t (Some 0) 0 ?w1 = (None, Some 7, ?w2)"
      by code_simp
    have h3: "Run healthy ?t (?w2\<lparr>dmSawBusy := False\<rparr>) = (None, ?w3)"
      by code_simp
    from RemoveDevice_classifies_busy [OF h1 h2 h3] show ?thesis
      by simp
  qed
qed

text \<open>
  C4 as stated does not hold. On an engine where the run of the create_snap message
  fails and the run of the resume task fails too, \<open>CreateSnapDevice\<close> returns the error
  of the create_snap run; the error \<open>ResumeDevice\<close> returned in the rollback is not what
  the caller gets.
\<close>

theorem resume_failure_dropped:
  "CreateSnapDevice msg_and_resume_fail ''pool'' 5 ''base'' 2 world0
     = Some (Some (Errorf ''Error running DeviceCreate (createSnapDevice) dm_task_run failed''),
             snd (ResumeDevice msg_and_resume_fail ''base'' rollback_world), 5)
   \<and> fst (ResumeDevice msg_and_resume_fail ''base'' rollback_world)
       = Some (Errorf ''Error running DeviceResume dm_task_run failed'')"
  by code_simp

text \<open>
  C4, amended. The origin exists and has been suspended; the loop, after any number of
  retries, is at some iteration. If the iteration fails at the creation of the task, at
  the sector, at the message, or at a run without the already-exists flag,
  \<open>CreateSnapDevice\<close> returns the error of that step, in the world \<open>ResumeDevice\<close> on the
  origin leaves: the resume is called and its result dropped. If the run succeeds, the
  result of the call is the result of \<open>ResumeDevice\<close>: only there is a failure of the
  resume reported. Every call that returns has called \<open>ResumeDevice\<close> exactly once.
\<close>

theorem CreateSnapDevice_resume_on_exit:
  assumes "GetInfo e baseName w = ((Some devinfo, ierr), w0)"
    and "Exists devinfo \<noteq> 0"
    and "SuspendDevice e baseName w0 = (None, ws)"
    and "CreateSnapDevice_loop e poolName baseName baseDeviceId True ws deviceId
           = CreateSnapDevice_loop e poolName baseName baseDeviceId True wk idk"
  shows "(TaskCreateNamed e DeviceTargetMsg poolName wk = ((None, err), w1)
          \<longrightarrow> CreateSnapDevice e poolName deviceId baseName baseDeviceId w
                = Some (err, snd (ResumeDevice e baseName w1), idk))
       \<and> (TaskCreateNamed e DeviceTargetMsg poolName wk = ((Some task, err), w1)
            \<and> SetSector e task 0 w1 = (Some err1, w2)
          \<longrightarrow> CreateSnapDevice e poolName deviceId baseName baseDeviceId w
                = Some (Some (Errorf (''Can't set sector '' @ Error err1)),
                        snd (ResumeDevice e baseName w2), idk))
       \<and> (TaskCreateNamed e DeviceTargetMsg poolName wk = ((Some task, err), w1)
            \<and> SetSector e task 0 w1 = (None, w2)
            \<and> SetMessage e task
                 (''create_snap '' @ fmt_d (sint idk) @ '' '' @ fmt_d (sint baseDeviceId)) w2
                 = (Some err2, w3)
          \<longrightarrow> CreateSnapDevice e poolName deviceId baseName baseDeviceId w
                = Some (Some (Errorf (''Can't set message '' @ Error err2)),
                        snd (ResumeDevice e baseName w3), idk))
       \<and> (TaskCreateNamed e DeviceTargetMsg poolName wk = ((Some task, err), w1)
            \<and> SetSector e task 0 w1 = (None, w2)
            \<and> SetMessage e task
                 (''create_snap '' @ fmt_d (sint idk) @ '' '' @ fmt_d (sint baseDeviceId)) w2
                 = (None, w3)
            \<and> Run e task (w3\<lparr>dmSawExist := False\<rparr>) = (Some err3, w4)
            \<and> \<not> dmSawExist w4
          \<longrightarrow> CreateSnapDevice e poolName deviceId baseName baseDeviceId w
                = Some (Some (Errorf
                          ''Error running DeviceCreate (createSnapDevice) dm_task_run failed''),
                        snd (ResumeDevice e baseName w4), idk))
       \<and> (TaskCreateNamed e DeviceTargetMsg poolName wk = ((Some task, err), w1)
            \<and> SetSector e task 0 w1 = (None, w2)
            \<and> SetMessage e task
                 (''create_snap '' @ fmt_d (sint idk) @ '' '' @ fmt_d (sint baseDeviceId)) w2
                 = (None, w3)
            \<and> Run e task (w3\<lparr>dmSawExist := False\<rparr>) = (None, w4)
          \<longrightarrow> CreateSnapDevice e poolName deviceId baseName baseDeviceId w
                = Some (fst (ResumeDevice e baseName w4), snd (ResumeDevice e baseName w4), idk))
       \<and> (CreateSnapDevice e poolName deviceId baseName baseDeviceId w = Some (r, w', deviceId')
          \<longrightarrow> (\<exists>seg. trace w' = trace w @ seg \<and> resume_calls seg = 1
                  \<and> suspend_calls seg = 1))"
proof (intro conjI impI)
  note via = CreateSnapDevice_from [OF assms]
  show "CreateSnapDevice e poolName deviceId baseName baseDeviceId w
          = Some (err, snd (ResumeDevice e baseName w1), idk)"
    if "TaskCreateNamed e DeviceTargetMsg poolName wk = ((None, err), w1)"
    using via(1) [OF loop_create_fails [OF that, of baseName baseDeviceId True idk]] by simp
  show "CreateSnapDevice e poolName deviceId baseName baseDeviceId w
          = Some (Some (Errorf (''Can't set sector '' @ Error err1)),
                  snd (ResumeDevice e baseName w2), idk)"
    if "TaskCreateNamed e DeviceTargetMsg poolName wk = ((Some task, err), w1)
            \<and> SetSector e task 0 w1 = (Some err1, w2)"
    using via(1) [OF loop_sector_fails [of e poolName wk task err w1 err1 w2
          baseName baseDeviceId True idk]] that by simp
  show "CreateSnapDevice e poolName deviceId baseName baseDeviceId w
          = Some (Some (Errorf (''Can't set message '' @ Error err2)),
                  snd (ResumeDevice e baseName w3), idk)"
    if "TaskCreateNamed e DeviceTargetMsg poolName wk = ((Some task, err), w1)
            \<and> SetSector e task 0 w1 = (None, w2)
            \<and> SetMessage e task
                 (''create_snap '' @ fmt_d (sint idk) @ '' '' @ fmt_d (sint baseDeviceId)) w2
                 = (Some err2, w3)"
    using via(1) [OF loop_message_fails [of e poolName wk task err w1 w2 idk baseDeviceId
          err2 w3 baseName True]] that by simp
  show "CreateSnapDevice e poolName deviceId baseName baseDeviceId w
          = Some (Some (Errorf
                    ''Error running DeviceCreate (createSnapDevice) dm_task_run failed''),
                  snd (ResumeDevice e baseName w4), idk)"
    if "TaskCreateNamed e DeviceTargetMsg poolName wk = ((Some task, err), w1)
            \<and> SetSector e task 0 w1 = (None, w2)
            \<and> SetMessage e task
                 (''create_snap '' @ fmt_d (sint idk) @ '' '' @ fmt_d (sint baseDeviceId)) w2
                 = (None, w3)
            \<and> Run e task (w3\<lparr>dmSawExist := False\<rparr>) = (Some err3, w4)
            \<and> \<not> dmSawExist w4"
    using via(1) [OF loop_run_fails [of e poolName wk task err w1 w2 idk baseDeviceId
          w3 err3 w4 baseName True]] that by simp
  show "CreateSnapDevice e poolName deviceId baseName baseDeviceId w
          = Some (fst (ResumeDevice e baseName w4), snd (ResumeDevice e baseName w4), idk)"
    if "TaskCreateNamed e DeviceTargetMsg poolName wk = ((Some task, err), w1)
            \<and> SetSector e task 0 w1 = (None, w2)
            \<and> SetMessage e task
                 (''create_snap '' @ fmt_d (sint idk) @ '' '' @ fmt_d (sint baseDeviceId)) w2
                 = (None, w3)
            \<and> Run e task (w3\<lparr>dmSawExist := False\<rparr>) = (None, w4)"
    using via(2) [OF loop_run_succeeds [of e poolName wk task err w1 w2 idk baseDeviceId
          w3 w4 baseName True]] that by simp
  show "\<exists>seg. trace w' = trace w @ seg \<and> resume_calls seg = 1 \<and> suspend_calls seg = 1"
    if "CreateSnapDevice e poolName deviceId baseName baseDeviceId w = Some (r, w', deviceId')"
    using CreateSnapDevice_suspended_counts [OF assms(1-3) that] .
qed

theorem CreateSnapDevice_resume_on_exit_witness:
  "CreateSnapDevice msg_and_resume_fail ''pool'' 5 ''base'' 2 world0 \<noteq> None
   \<and> fst (the (CreateSnapDevice msg_and_resume_fail ''pool'' 5 ''base'' 2 world0))
       = Some (Errorf ''Error running DeviceCreate (createSnapDevice) dm_task_run failed'')
   \<and> resume_calls (trace (fst (snd (the
          (CreateSnapDevice msg_and_resume_fail ''pool'' 5 ''base'' 2 world0))))) = 1
   \<and> CreateSnapDevice resume_fails ''pool'' 5 ''base'' 2 world0 \<noteq> None
   \<and> fst (the (CreateSnapDevice resume_fails ''pool'' 5 ''base'' 2 world0))
       = Some (Errorf ''Error running DeviceResume dm_task_run failed'')
   \<and> resume_calls (trace (fst (snd (the
          (CreateSnapDevice resume_fails ''pool'' 5 ''base'' 2 world0))))) = 1"
proof -
  let ?t = "\<lparr>unmanaged = 8\<rparr>"
  let ?m = "''create_snap '' @ fmt_d (sint (5::64 word)) @ '' '' @ fmt_d (sint (2::64 word))"
  have x: "Exists (sim_info 1) \<noteq> 0"
    by (simp add: sim_info_def)
  have e: "trace world0 = []"
    by (simp add: world0_def)
  have a: "CreateSnapDevice msg_and_resume_fail ''pool'' 5 ''base'' 2 world0 \<noteq> None
   \<and> fst (the (CreateSnapDevice msg_and_resume_fail ''pool'' 5 ''base'' 2 world0))
       = Some (Errorf ''Error running DeviceCreate (createSnapDevice) dm_task_run failed'')
   \<and> resume_calls (trace (fst (snd (the
          (CreateSnapDevice msg_and_resume_fail ''pool'' 5 ''base'' 2 world0))))) = 1"
  proof -
    let ?w0 = "snd (GetInfo msg_and_resume_fail ''base'' world0)"
    let ?ws = "snd (SuspendDevice msg_and_resume_fail ''base'' ?w0)"
    let ?w1 = "snd (TaskCreateNamed msg_and_resume_fail DeviceTargetMsg ''pool'' ?ws)"
    let ?w2 = "snd (SetSector msg_and_resume_fail ?t 0 ?w1)"
    let ?w3 = "snd (SetMessage msg_and_resume_fail ?t ?m ?w2)"
    let ?w4 = "snd (Run msg_and_resume_fail ?t (?w3\<lparr>dmSawExist := False\<rparr>))"
    have g: "GetInfo msg_and_resume_fail ''base'' world0 = ((Some (sim_info 1), None), ?w0)"
      by code_simp
    have su: "SuspendDevice msg_and_resume_fail ''base'' ?w0 = (None, ?ws)"
      by code_simp
    have p: "TaskCreateNamed msg_and_resume_fail DeviceTargetMsg ''pool'' ?ws
               = ((Some ?t, None), ?w1)
            \<and> SetSector msg_and_resume_fail ?t 0 ?w1 = (None, ?w2)
            \<and> SetMessage msg_and_resume_fail ?t ?m ?w2 = (None, ?w3)
            \<and> Run msg_and_resume_fail ?t (?w3\<lparr>dmSawExist := False\<rparr>) = (Some ErrTaskRun, ?w4)
            \<and> \<not> dmSawExist ?w4"
      by code_simp
    note T = CreateSnapDevice_resume_on_exit [OF g x su refl]
    from T [THEN conjunct2, THEN conjunct2, THEN conjunct2, THEN conjunct1, rule_format, OF p]
    have ret: "CreateSnapDevice msg_and_resume_fail ''pool'' 5 ''base'' 2 world0
          = Some (Some (Errorf
                    ''Error running DeviceCreate (createSnapDevice) dm_task_run failed''),
                  snd (ResumeDevice msg_and_resume_fail ''base'' ?w4), 5)" .
    from T [THEN conjunct2, THEN conjunct2, THEN conjunct2, THEN conjunct2, THEN conjunct2,
        rule_format, OF ret] e
    have "resume_calls (trace (snd (ResumeDevice msg_and_resume_fail ''base'' ?w4))) = 1"
      by auto
    with ret show ?thesis by simp
  qed
  have b: "CreateSnapDevice resume_fails ''pool'' 5 ''base'' 2 world0 \<noteq> None
   \<and> fst (the (CreateSnapDevice resume_fails ''pool'' 5 ''base'' 2 world0))
       = Some (Errorf ''Error running DeviceResume dm_task_run failed'')
   \<and> resume_calls (trace (fst (snd (the
          (CreateSnapDevice resume_fails ''pool'' 5 ''base'' 2 world0))))) = 1"
  proof -
    let ?w0 = "snd (GetInfo resume_fails ''base'' world0)"
    let ?ws = "snd (SuspendDevice resume_fails ''base'' ?w0)"
    let ?w1 = "snd (TaskCreateNamed resume_fails DeviceTargetMsg ''pool'' ?ws)"
    let ?w2 = "snd (SetSector resume_fails ?t 0 ?w1)"
    let ?w3 = "snd (SetMessage resume_fails ?t ?m ?w2)"
    let ?w4 = "snd (Run resume_fails ?t (?w3\<lparr>dmSawExist := False\<rparr>))"
    have g: "GetInfo resume_fails ''base'' world0 = ((Some (sim_info 1), None), ?w0)"
      by code_simp
    have su: "SuspendDevice resume_fails ''base'' ?w0 = (None, ?ws)"
      by code_simp
    have p: "TaskCreateNamed resume_fails DeviceTargetMsg ''pool'' ?ws = ((Some ?t, None), ?w1)
            \<and> SetSector resume_fails ?t 0 ?w1 = (None, ?w2)
            \<and> SetMessage resume_fails ?t ?m ?w2 = (None, ?w3)
            \<and> Run resume_fails ?t (?w3\<lparr>dmSawExist := False\<rparr>) = (None, ?w4)"
      by code_simp
    have f: "fst (ResumeDevice resume_fails ''base'' ?w4)
               = Some (Errorf ''Error running DeviceResume dm_task_run failed'')"
      by code_simp
    note T = CreateSnapDevice_resume_on_exit [OF g x su refl]
    from T [THEN conjunct2, THEN conjunct2, THEN conjunct2, THEN conjunct2, THEN conjunct1,
        rule_format, OF p]
    have ret: "CreateSnapDevice resume_fails ''pool'' 5 ''base'' 2 world0
          = Some (fst (ResumeDevice resume_fails ''base'' ?w4),
                  snd (ResumeDevice resume_fails ''base'' ?w4), 5)" .
    from T [THEN conjunct2, THEN conjunct2, THEN conjunct2, THEN conjunct2, THEN conjunct2,
        rule_format, OF ret] e
    have "resume_calls (trace (snd (ResumeDevice resume_fails ''base'' ?w4))) = 1"
      by auto
    with ret f show ?thesis by simp
  qed
  from a b show ?thesis by blast
qed

text \<open>
  C5 as stated does not hold: a task keeps no record of having been run. On the healthy
  engine, after a task has been run, \<open>SetName\<close> on it is accepted and passed to the
  library, and a second \<open>Run\<close> runs it again.
\<close>

theorem Task_reconfigured_after_Run:
  "fst (TaskCreate healthy DeviceCreate world0) = Some \<lparr>unmanaged = 1\<rparr>
   \<and> calls (trace ran_once) = [DmTaskCreate DeviceCreate, DmTaskRun 1]
   \<and> fst (SetName healthy \<lparr>unmanaged = 1\<rparr> ''dev'' ran_once) = None
   \<and> calls (trace (snd (SetName healthy \<lparr>unmanaged = 1\<rparr> ''dev'' ran_once)))
       = [DmTaskCreate DeviceCreate, DmTaskRun 1, DmTaskSetName 1 ''dev'']
   \<and> fst (Run healthy \<lparr>unmanaged = 1\<rparr> ran_once) = None
   \<and> calls (trace (snd (Run healthy \<lparr>unmanaged = 1\<rparr> ran_once)))
       = [DmTaskCreate DeviceCreate, DmTaskRun 1, DmTaskRun 1]"
  by code_simp

text \<open>
  C5, amended. In any world, hence also after a \<open>Run\<close> of the same task, \<open>Run\<close> and
  each configuration call pass exactly their one call to the native library and fail if
  and only if the library does not return 1. The only calls rejected by the package
  itself are \<open>SetCookie\<close> with a nil pointer and \<open>SetAddNode\<close> with a policy other than
  on-resume and on-create, both without a native call.
\<close>

theorem Task_calls_forwarded:
  "(fst (Run e t w) = None \<longleftrightarrow> result e (trace w) (DmTaskRun (unmanaged t)) = 1)
   \<and> calls (trace (snd (Run e t w))) = calls (trace w) @ [DmTaskRun (unmanaged t)]
   \<and> (fst (SetName e t name w) = None
        \<longleftrightarrow> result e (trace w) (DmTaskSetName (unmanaged t) name) = 1)
   \<and> calls (trace (snd (SetName e t name w)))
       = calls (trace w) @ [DmTaskSetName (unmanaged t) name]
   \<and> (fst (SetMessage e t message w) = None
        \<longleftrightarrow> result e (trace w) (DmTaskSetMessage (unmanaged t) message) = 1)
   \<and> calls (trace (snd (SetMessage e t message w)))
       = calls (trace w) @ [DmTaskSetMessage (unmanaged t) message]
   \<and> (fst (SetSector e t sector w) = None
        \<longleftrightarrow> result e (trace w) (DmTaskSetSector (unmanaged t) sector) = 1)
   \<and> calls (trace (snd (SetSector e t sector w)))
       = calls (trace w) @ [DmTaskSetSector (unmanaged t) sector]
   \<and> (fst (SetRo e t w) = None \<longleftrightarrow> result e (trace w) (DmTaskSetRo (unmanaged t)) = 1)
   \<and> calls (trace (snd (SetRo e t w))) = calls (trace w) @ [DmTaskSetRo (unmanaged t)]
   \<and> (fst (AddTarget e t start sz ttype params w) = None
        \<longleftrightarrow> result e (trace w) (DmTaskAddTarget (unmanaged t) start sz ttype params) = 1)
   \<and> calls (trace (snd (AddTarget e t start sz ttype params w)))
       = calls (trace w) @ [DmTaskAddTarget (unmanaged t) start sz ttype params]
   \<and> (fst (SetCookie e t (Some c) flags w) = None
        \<longleftrightarrow> result e (trace w) (DmTaskSetCookie (unmanaged t) c flags) = 1)
   \<and> calls (trace (snd (snd (SetCookie e t (Some c) flags w))))
       = calls (trace w) @ [DmTaskSetCookie (unmanaged t) c flags]
   \<and> SetCookie e t None flags w = (Some ErrNilCookie, None, w)
   \<and> (addNode = AddNodeOnResume \<or> addNode = AddNodeOnCreate \<longrightarrow>
        (fst (SetAddNode e t addNode w) = None
          \<longleftrightarrow> result e (trace w) (DmTaskSetAddNode (unmanaged t) addNode) = 1)
        \<and> calls (trace (snd (SetAddNode e t addNode w)))
            = calls (trace w) @ [DmTaskSetAddNode (unmanaged t) addNode])
   \<and> (addNode \<noteq> AddNodeOnResume \<and> addNode \<noteq> AddNodeOnCreate \<longrightarrow>
        SetAddNode e t addNode w = (Some ErrInvalidAddNode, w))"
proof (intro conjI)
  show "fst (Run e t w) = None \<longleftrightarrow> result e (trace w) (DmTaskRun (unmanaged t)) = 1"
    by (simp add: Run_def)
  show "calls (trace (snd (Run e t w))) = calls (trace w) @ [DmTaskRun (unmanaged t)]"
    by (rule Run_calls)
  show "fst (SetName e t name w) = None
        \<longleftrightarrow> result e (trace w) (DmTaskSetName (unmanaged t) name) = 1"
    by (simp add: SetName_def)
  show "calls (trace (snd (SetName e t name w)))
       = calls (trace w) @ [DmTaskSetName (unmanaged t) name]"
    by (simp add: SetName_def native_def calls_def)
  show "fst (SetMessage e t message w) = None
        \<longleftrightarrow> result e (trace w) (DmTaskSetMessage (unmanaged t) message) = 1"
    by (simp add: SetMessage_def)
  show "calls (trace (snd (SetMessage e t message w)))
       = calls (trace w) @ [DmTaskSetMessage (unmanaged t) message]"
    by (simp add: SetMessage_def native_def calls_def)
  show "fst (SetSector e t sector w) = None
        \<longleftrightarrow> result e (trace w) (DmTaskSetSector (unmanaged t) sector) = 1"
    by (simp add: SetSector_def)
  show "calls (trace (snd (SetSector e t sector w)))
       = calls (trace w) @ [DmTaskSetSector (unmanaged t) sector]"
    by (simp add: SetSector_def native_def calls_def)
  show "fst (SetRo e t w) = None \<longleftrightarrow> result e (trace w) (DmTaskSetRo (unmanaged t)) = 1"
    by (simp add: SetRo_def)
  show "calls (trace (snd (SetRo e t w))) = calls (trace w) @ [DmTaskSetRo (unmanaged t)]"
    by (simp add: SetRo_def native_def calls_def)
  show "fst (AddTarget e t start sz ttype params w) = None
        \<longleftrightarrow> result e (trace w) (DmTaskAddTarget (unmanaged t) start sz ttype params) = 1"
    by (simp add: AddTarget_def)
  show "calls (trace (snd (AddTarget e t start sz ttype params w)))
       = calls (trace w) @ [DmTaskAddTarget (unmanaged t) start sz ttype params]"
    by (simp add: AddTarget_def native_def calls_def)
  show "fst (SetCookie e t (Some c) flags w) = None
        \<longleftrightarrow> result e (trace w) (DmTaskSetCookie (unmanaged t) c flags) = 1"
    by (simp add: SetCookie_def)
  show "calls (trace (snd (snd (SetCookie e t (Some c) flags w))))
       = calls (trace w) @ [DmTaskSetCookie (unmanaged t) c flags]"
    by (simp add: SetCookie_def native_def calls_def)
  show "SetCookie e t None flags w = (Some ErrNilCookie, None, w)"
    by (simp add: SetCookie_def)
  show "addNode = AddNodeOnResume \<or> addNode = AddNodeOnCreate \<longrightarrow>
        (fst (SetAddNode e t addNode w) = None
          \<longleftrightarrow> result e (trace w) (DmTaskSetAddNode (unmanaged t) addNode) = 1)
        \<and> calls (trace (snd (SetAddNode e t addNode w)))
            = calls (trace w) @ [DmTaskSetAddNode (unmanaged t) addNode]"
    by (auto simp: SetAddNode_def native_def calls_def)
  show "addNode \<noteq> AddNodeOnResume \<and> addNode \<noteq> AddNodeOnCreate \<longrightarrow>
        SetAddNode e t addNode w = (Some ErrInvalidAddNode, w)"
    by (simp add: SetAddNode_def)
qed

theorem Task_calls_forwarded_witness:
  "fst (SetAddNode healthy \<lparr>unmanaged = 1\<rparr> AddNodeOnCreate ran_once) = None
   \<and> calls (trace (snd (SetAddNode healthy \<lparr>unmanaged = 1\<rparr> AddNodeOnCreate ran_once)))
       = [DmTaskCreate DeviceCreate, DmTaskRun 1, DmTaskSetAddNode 1 AddNodeOnCreate]
   \<and> SetAddNode healthy \<lparr>unmanaged = 1\<rparr> 7 ran_once = (Some ErrInvalidAddNode, ran_once)
   \<and> fst (SetName healthy \<lparr>unmanaged = 1\<rparr> ''dev'' ran_once) = None"
proof -
  have r1: "result healthy (trace ran_once) (DmTaskSetAddNode 1 AddNodeOnCreate) = 1"
    by code_simp
  have r2: "result healthy (trace ran_once) (DmTaskSetName 1 ''dev'') = 1"
    by code_simp
  have c: "calls (trace ran_once) = [DmTaskCreate DeviceCreate, DmTaskRun 1]"
    by code_simp
  have n: "(7::int) \<noteq> AddNodeOnResume \<and> 7 \<noteq> AddNodeOnCreate"
    by (simp add: AddNodeOnResume_def AddNodeOnCreate_def)
  note A = Task_calls_forwarded [where e = healthy and t = "\<lparr>unmanaged = 1\<rparr>"
      and w = ran_once and addNode = AddNodeOnCreate and name = "''dev''"]
  note B = Task_calls_forwarded [where e = healthy and t = "\<lparr>unmanaged = 1\<rparr>"
      and w = ran_once and addNode = 7]
  from A B r1 r2 c n show ?thesis
    by simp
qed

text \<open>
  C6. When the info query on the origin reports the existence flag zero,
  \<open>CreateSnapDevice\<close> is the message loop entered without suspension in the world right
  after the query. At every iteration the loop reaches, once the target-message task is
  created, named on the pool and set to sector 0, and the message "create_snap" with the
  id in the slot and the origin's id is set, the native calls of the iteration are the
  creation of the task, its name, its sector, \<open>DmTaskSetMessage\<close> with that message and
  \<open>DmTaskRun\<close>, and no call of \<open>SuspendDevice\<close> or \<open>ResumeDevice\<close> has been made since
  the call began. If the run succeeds the call returns nil there; if it fails without the
  already-exists flag the call returns the run error there, with no resume; if it fails
  with the flag the loop reaches the next iteration with the next id. Any call that
  returns has made no suspend and no resume, and its first native call after the query
  creates the target-message task.
\<close>

theorem CreateSnapDevice_origin_absent:
  assumes "GetInfo e baseName w = ((Some devinfo, ierr), w0)"
    and "Exists devinfo = 0"
  shows "CreateSnapDevice e poolName deviceId baseName baseDeviceId w
           = (case CreateSnapDevice_loop e poolName baseName baseDeviceId False w0 deviceId of
                None \<Rightarrow> None
              | Some (Return err, w2, i') \<Rightarrow> Some (err, w2, i')
              | Some (Break, w2, i') \<Rightarrow> Some (None, w2, i'))
         \<and> (loop_reaches e poolName
               (\<lambda>i. ''create_snap '' @ fmt_d (sint i) @ '' '' @ fmt_d (sint baseDeviceId))
               (w0, deviceId) (wk, idk)
             \<and> TaskCreateNamed e DeviceTargetMsg poolName wk = ((Some task, err), w1)
             \<and> SetSector e task 0 w1 = (None, w2)
             \<and> SetMessage e task
                  (''create_snap '' @ fmt_d (sint idk) @ '' '' @ fmt_d (sint baseDeviceId)) w2
                  = (None, w3)
             \<and> Run e task (w3\<lparr>dmSawExist := False\<rparr>) = (r, w4)
            \<longrightarrow> calls (trace w4)
                  = calls (trace wk) @ [DmTaskCreate DeviceTargetMsg,
                      DmTaskSetName (unmanaged task) poolName,
                      DmTaskSetSector (unmanaged task) 0,
                      DmTaskSetMessage (unmanaged task)
                        (''create_snap '' @ fmt_d (sint idk) @ '' ''
                           @ fmt_d (sint baseDeviceId)),
                      DmTaskRun (unmanaged task)]
                \<and> (\<exists>seg. trace w4 = trace w @ seg
                      \<and> suspend_calls seg = 0 \<and> resume_calls seg = 0)
                \<and> (r = None
                    \<longrightarrow> CreateSnapDevice e poolName deviceId baseName baseDeviceId w
                          = Some (None, w4, idk))
                \<and> (r \<noteq> None \<and> \<not> dmSawExist w4
                    \<longrightarrow> CreateSnapDevice e poolName deviceId baseName baseDeviceId w
                          = Some (Some (Errorf
                               ''Error running DeviceCreate (createSnapDevice) dm_task_run failed''),
                             w4, idk))
                \<and> (r \<noteq> None \<and> dmSawExist w4
                    \<longrightarrow> loop_reaches e poolName
                          (\<lambda>i. ''create_snap '' @ fmt_d (sint i) @ '' ''
                                 @ fmt_d (sint baseDeviceId))
                          (w0, deviceId) (w4, idk + 1)))
         \<and> (CreateSnapDevice e poolName deviceId baseName baseDeviceId w
               = Some (r', w', deviceId')
            \<longrightarrow> (\<exists>seg. trace w' = trace w @ seg
                    \<and> suspend_calls seg = 0 \<and> resume_calls seg = 0)
                \<and> (\<exists>seg. trace w' = trace w0 @ seg
                      \<and> first_call seg = Some (DmTaskCreate DeviceTargetMsg)))"
proof -
  have nd: "(case Some devinfo of None \<Rightarrow> False | Some x \<Rightarrow> Exists x \<noteq> 0) = False"
    using assms(2) by simp
  note it = CreateSnapDevice_unsuspended_iteration [OF assms(1) nd]
  note ret = CreateSnapDevice_without_origin [OF assms(1) nd]
  show ?thesis
    apply (intro conjI impI)
            apply (rule CreateSnapDevice_not_suspended [OF assms(1) nd])
           apply (elim conjE, erule (4) it(1))
          apply (elim conjE, erule (4) it(2))
         apply (elim conjE, erule (4) it(3) [rule_format], assumption)
        apply (elim conjE, erule (4) it(4) [rule_format], blast)
       apply (elim conjE, erule (4) it(5) [rule_format], blast)
      apply (erule ret(1))
     apply (drule ret(2), blast)
    done
qed

theorem CreateSnapDevice_origin_absent_witness:
  "CreateSnapDevice snap_taken ''pool'' 5 ''base'' 2 world0 \<noteq> None
   \<and> fst (the (CreateSnapDevice snap_taken ''pool'' 5 ''base'' 2 world0)) = None
   \<and> snd (snd (the (CreateSnapDevice snap_taken ''pool'' 5 ''base'' 2 world0))) = 6
   \<and> calls (trace (fst (snd (the (CreateSnapDevice snap_taken ''pool'' 5 ''base'' 2 world0)))))
       = [DmTaskCreate DeviceInfo, DmTaskSetName 1 ''base'', DmTaskRun 1, DmTaskGetInfo 1,
          DmTaskCreate DeviceTargetMsg, DmTaskSetName 5 ''pool'', DmTaskSetSector 5 0,
          DmTaskSetMessage 5 ''create_snap 5 2'', DmTaskRun 5,
          DmTaskCreate DeviceTargetMsg, DmTaskSetName 10 ''pool'', DmTaskSetSector 10 0,
          DmTaskSetMessage 10 ''create_snap 6 2'', DmTaskRun 10]
   \<and> suspend_calls (trace (fst (snd (the (CreateSnapDevice snap_taken ''pool'' 5 ''base'' 2 world0))))) = 0
   \<and> resume_calls (trace (fst (snd (the (CreateSnapDevice snap_taken ''pool'' 5 ''base'' 2 world0))))) = 0"
proof -
  let ?e = "snap_taken"
  let ?s = "\<lparr>unmanaged = 5\<rparr>"
  let ?t = "\<lparr>unmanaged = 10\<rparr>"
  let ?m5 = "''create_snap '' @ fmt_d (sint (5::64 word)) @ '' '' @ fmt_d (sint (2::64 word))"
  let ?m6 = "''create_snap '' @ fmt_d (sint (5 + 1::64 word)) @ '' '' @ fmt_d (sint (2::64 word))"
  let ?w0 = "snd (GetInfo ?e ''base'' world0)"
  let ?a1 = "snd (TaskCreateNamed ?e DeviceTargetMsg ''pool'' ?w0)"
  let ?a2 = "snd (SetSector ?e ?s 0 ?a1)"
  let ?a3 = "snd (SetMessage ?e ?s ?m5 ?a2)"
  let ?a4 = "snd (Run ?e ?s (?a3\<lparr>dmSawExist := False\<rparr>))"
  let ?b1 = "snd (TaskCreateNamed ?e DeviceTargetMsg ''pool'' ?a4)"
  let ?b2 = "snd (SetSector ?e ?t 0 ?b1)"
  let ?b3 = "snd (SetMessage ?e ?t ?m6 ?b2)"
  let ?b4 = "snd (Run ?e ?t (?b3\<lparr>dmSawExist := False\<rparr>))"
  have g: "GetInfo ?e ''base'' world0 = ((Some (sim_info 0), None), ?w0)"
    by code_simp
  have x: "Exists (sim_info 0) = 0"
    by (simp add: sim_info_def)
  have c1: "TaskCreateNamed ?e DeviceTargetMsg ''pool'' ?w0 = ((Some ?s, None), ?a1)"
    by code_simp
  have s1: "SetSector ?e ?s 0 ?a1 = (None, ?a2)"
    by code_simp
  have m1: "SetMessage ?e ?s ?m5 ?a2 = (None, ?a3)"
    by code_simp
  have r1: "Run ?e ?s (?a3\<lparr>dmSawExist := False\<rparr>) = (Some ErrTaskRun, ?a4)"
    by code_simp
  have x1: "Some ErrTaskRun \<noteq> None \<and> dmSawExist ?a4"
    by code_simp
  have c2: "TaskCreateNamed ?e DeviceTargetMsg ''pool'' ?a4 = ((Some ?t, None), ?b1)"
    by code_simp
  have s2: "SetSector ?e ?t 0 ?b1 = (None, ?b2)"
    by code_simp
  have m2: "SetMessage ?e ?t ?m6 ?b2 = (None, ?b3)"
    by code_simp
  have r2: "Run ?e ?t (?b3\<lparr>dmSawExist := False\<rparr>) = (None, ?b4)"
    by code_simp
  have pre: "calls (trace ?w0) = [DmTaskCreate DeviceInfo, DmTaskSetName 1 ''base'', DmTaskRun 1, DmTaskGetInfo 1]"
    by code_simp
  have n5: "?m5 = ''create_snap 5 2''"
    by code_simp
  have n6: "?m6 = ''create_snap 6 2''"
    by code_simp
  have e: "trace world0 = []"
    by (simp add: world0_def)
  have u: "unmanaged ?s = 5" "unmanaged ?t = 10"
    by simp_all
  note T1 = CreateSnapDevice_origin_absent [OF g x, where poolName = "''pool''" and baseDeviceId = 2
      and wk = ?w0 and idk = 5 and task = ?s and err = None and ?w1.0 = ?a1 and ?w2.0 = ?a2
      and ?w3.0 = ?a3 and r = "Some ErrTaskRun" and ?w4.0 = ?a4]
  note T2 = CreateSnapDevice_origin_absent [OF g x, where poolName = "''pool''" and baseDeviceId = 2
      and wk = ?a4 and idk = "5 + 1" and task = ?t and err = None and ?w1.0 = ?b1
      and ?w2.0 = ?b2 and ?w3.0 = ?b3 and r = None and ?w4.0 = ?b4]
  from T1 loop_reaches.entered c1 s1 m1 r1 x1
  have A: "calls (trace ?a4)
        = calls (trace ?w0) @ [DmTaskCreate DeviceTargetMsg, DmTaskSetName (unmanaged ?s) ''pool'',
            DmTaskSetSector (unmanaged ?s) 0, DmTaskSetMessage (unmanaged ?s) ?m5,
            DmTaskRun (unmanaged ?s)]"
    and L: "loop_reaches ?e ''pool''
              (\<lambda>i. ''create_snap '' @ fmt_d (sint i) @ '' '' @ fmt_d (sint (2::64 word)))
              (?w0, 5) (?a4, 5 + 1)"
    by blast+
  from T2 L c2 s2 m2 r2
  have B: "calls (trace ?b4)
        = calls (trace ?a4) @ [DmTaskCreate DeviceTargetMsg, DmTaskSetName (unmanaged ?t) ''pool'',
            DmTaskSetSector (unmanaged ?t) 0, DmTaskSetMessage (unmanaged ?t) ?m6,
            DmTaskRun (unmanaged ?t)]"
    and Q: "\<exists>seg. trace ?b4 = trace world0 @ seg \<and> suspend_calls seg = 0 \<and> resume_calls seg = 0"
    and R: "CreateSnapDevice snap_taken ''pool'' 5 ''base'' 2 world0 = Some (None, ?b4, 5 + 1)"
    by blast+
  have C0: "calls (trace ?b4)
       = ([DmTaskCreate DeviceInfo, DmTaskSetName 1 ''base'', DmTaskRun 1, DmTaskGetInfo 1]
          @ [DmTaskCreate DeviceTargetMsg, DmTaskSetName (unmanaged ?s) ''pool'',
             DmTaskSetSector (unmanaged ?s) 0, DmTaskSetMessage (unmanaged ?s) ?m5,
             DmTaskRun (unmanaged ?s)])
          @ [DmTaskCreate DeviceTargetMsg, DmTaskSetName (unmanaged ?t) ''pool'',
             DmTaskSetSector (unmanaged ?t) 0, DmTaskSetMessage (unmanaged ?t) ?m6,
             DmTaskRun (unmanaged ?t)]"
    using B unfolding A pre .
  have C1: "([DmTaskCreate DeviceInfo, DmTaskSetName 1 ''base'', DmTaskRun 1, DmTaskGetInfo 1]
          @ [DmTaskCreate DeviceTargetMsg, DmTaskSetName (unmanaged ?s) ''pool'',
             DmTaskSetSector (unmanaged ?s) 0, DmTaskSetMessage (unmanaged ?s) ?m5,
             DmTaskRun (unmanaged ?s)])
          @ [DmTaskCreate DeviceTargetMsg, DmTaskSetName (unmanaged ?t) ''pool'',
             DmTaskSetSector (unmanaged ?t) 0, DmTaskSetMessage (unmanaged ?t) ?m6,
             DmTaskRun (unmanaged ?t)]
       = [DmTaskCreate DeviceInfo, DmTaskSetName 1 ''base'', DmTaskRun 1, DmTaskGetInfo 1,
          DmTaskCreate DeviceTargetMsg, DmTaskSetName 5 ''pool'', DmTaskSetSector 5 0,
          DmTaskSetMessage 5 ''create_snap 5 2'', DmTaskRun 5,
          DmTaskCreate DeviceTargetMsg, DmTaskSetName 10 ''pool'', DmTaskSetSector 10 0,
          DmTaskSetMessage 10 ''create_snap 6 2'', DmTaskRun 10]"
    unfolding n5 n6 by simp
  note C = trans [OF C0 C1]
  from Q e have Q': "suspend_calls (trace ?b4) = 0 \<and> resume_calls (trace ?b4) = 0"
    by auto
  have six: "(5 + 1 :: 64 word) = 6"
    by simp
  show ?thesis
    unfolding R six option.sel fst_conv snd_conv
    using C Q' by simp
qed

text \<open>
  C7. When the info query of \<open>GetStatus\<close> succeeds (the status task is created and named,
  it runs, and \<open>GetInfo\<close> returns) but reports the existence flag zero, \<open>GetStatus\<close>
  returns the error "Non existing device" with the name, and the native calls it made
  are the four of the query: \<open>DmGetNextTarget\<close> is not among them.
\<close>

theorem GetStatus_non_existing:
  assumes "TaskCreateNamed e DeviceStatus name w = ((Some task, err), w1)"
    and "Run e task w1 = (None, w2)"
    and "GetInfo_task e task w2 = ((Some devinfo, None), w3)"
    and "Exists devinfo = 0"
  shows "GetStatus e name w
           = ((0, 0, [], [], Some (Errorf (''Non existing device '' @ name))), w3)
         \<and> calls (trace w3)
           = calls (trace w) @ [DmTaskCreate DeviceStatus, DmTaskSetName (unmanaged task) name,
                                DmTaskRun (unmanaged task), DmTaskGetInfo (unmanaged task)]"
proof
  show "GetStatus e name w
           = ((0, 0, [], [], Some (Errorf (''Non existing device '' @ name))), w3)"
    using assms by (simp add: GetStatus_def)
  have "calls (trace w1) = calls (trace w) @ [DmTaskCreate DeviceStatus, DmTaskSetName (unmanaged task) name]"
    using assms(1) by (rule TaskCreateNamed_calls)
  moreover have "calls (trace w2) = calls (trace w1) @ [DmTaskRun (unmanaged task)]"
    using Run_calls [of e task w1] assms(2) by simp
  moreover have "calls (trace w3) = calls (trace w2) @ [DmTaskGetInfo (unmanaged task)]"
    using GetInfo_task_calls [of e task w2] assms(3) by simp
  ultimately show "calls (trace w3)
           = calls (trace w) @ [DmTaskCreate DeviceStatus, DmTaskSetName (unmanaged task) name,
                                DmTaskRun (unmanaged task), DmTaskGetInfo (unmanaged task)]"
    by simp
qed

theorem GetStatus_non_existing_witness:
  "fst (GetStatus absent ''dev'' world0)
     = (0, 0, [], [], Some (Errorf ''Non existing device dev''))
   \<and> calls (trace (snd (GetStatus absent ''dev'' world0)))
     = [DmTaskCreate DeviceStatus, DmTaskSetName 1 ''dev'', DmTaskRun 1, DmTaskGetInfo 1]"
proof -
  let ?t = "\<lparr>unmanaged = 1\<rparr>"
  let ?w1 = "snd (TaskCreateNamed absent DeviceStatus ''dev'' world0)"
  let ?w2 = "snd (Run absent ?t ?w1)"
  let ?w3 = "snd (GetInfo_task absent ?t ?w2)"
  have h1: "TaskCreateNamed absent DeviceStatus ''dev'' world0 = ((Some ?t, None), ?w1)"
    by code_simp
  have h2: "Run absent ?t ?w1 = (None, ?w2)"
    by code_simp
  have h3: "GetInfo_task absent ?t ?w2 = ((Some (sim_info 0), None), ?w3)"
    by code_simp
  have h4: "Exists (sim_info 0) = 0"
    by (simp add: sim_info_def)
  have tr: "calls (trace world0) = []"
    by (simp add: world0_def calls_def)
  from GetStatus_non_existing [OF h1 h2 h3 h4] show ?thesis
    by (simp add: tr)
qed

text \<open>
  C8. For every task and flags value, \<open>SetCookie\<close> with a nil cookie pointer returns
  \<open>ErrNilCookie\<close> and makes no native call: the trace and the flags are what they were.
\<close>

theorem SetCookie_nil:
  "SetCookie e t None flags w = (Some ErrNilCookie, None, w)"
  by (simp add: SetCookie_def)

text \<open>
  C9. When the info query on the origin returns an error, \<open>CreateSnapDevice\<close> goes on as
  for an origin that does not exist: it is the message loop entered without suspension
  in the world after the query, and the error of the query is dropped. At every iteration
  the loop reaches, once the target-message task is set up and the "create_snap" message
  is set, the native calls of the iteration end with \<open>DmTaskSetMessage\<close> of that message
  and \<open>DmTaskRun\<close>, and no call of \<open>SuspendDevice\<close> or \<open>ResumeDevice\<close> has been made
  since the call began. If the run succeeds the call returns nil; if it fails without the
  already-exists flag the call returns the run error, not the error of the query; if it
  fails with the flag the loop reaches the next iteration. Any call that returns has made
  no suspend and no resume, and its first native call after the query creates the
  target-message task.
\<close>

theorem CreateSnapDevice_info_query_fails:
  assumes "GetInfo e baseName w = ((devinfo, Some ierr), w0)"
  shows "CreateSnapDevice e poolName deviceId baseName baseDeviceId w
           = (case CreateSnapDevice_loop e poolName baseName baseDeviceId False w0 deviceId of
                None \<Rightarrow> None
              | Some (Return err, w2, i') \<Rightarrow> Some (err, w2, i')
              | Some (Break, w2, i') \<Rightarrow> Some (None, w2, i'))
         \<and> (loop_reaches e poolName
               (\<lambda>i. ''create_snap '' @ fmt_d (sint i) @ '' '' @ fmt_d (sint baseDeviceId))
               (w0, deviceId) (wk, idk)
             \<and> TaskCreateNamed e DeviceTargetMsg poolName wk = ((Some task, err), w1)
             \<and> SetSector e task 0 w1 = (None, w2)
             \<and> SetMessage e task
                  (''create_snap '' @ fmt_d (sint idk) @ '' '' @ fmt_d (sint baseDeviceId)) w2
                  = (None, w3)
             \<and> Run e task (w3\<lparr>dmSawExist := False\<rparr>) = (r, w4)
            \<longrightarrow> calls (trace w4)
                  = calls (trace wk) @ [DmTaskCreate DeviceTargetMsg,
                      DmTaskSetName (unmanaged task) poolName,
                      DmTaskSetSector (unmanaged task) 0,
                      DmTaskSetMessage (unmanaged task)
                        (''create_snap '' @ fmt_d (sint idk) @ '' ''
                           @ fmt_d (sint baseDeviceId)),
                      DmTaskRun (unmanaged task)]
                \<and> (\<exists>seg. trace w4 = trace w @ seg
                      \<and> suspend_calls seg = 0 \<and> resume_calls seg = 0)
                \<and> (r = None
                    \<longrightarrow> CreateSnapDevice e poolName deviceId baseName baseDeviceId w
                          = Some (None, w4, idk))
                \<and> (r \<noteq> None \<and> \<not> dmSawExist w4
                    \<longrightarrow> CreateSnapDevice e poolName deviceId baseName baseDeviceId w
                          = Some (Some (Errorf
                               ''Error running DeviceCreate (createSnapDevice) dm_task_run failed''),
                             w4, idk))
                \<and> (r \<noteq> None \<and> dmSawExist w4
                    \<longrightarrow> loop_reaches e poolName
                          (\<lambda>i. ''create_snap '' @ fmt_d (sint i) @ '' ''
                                 @ fmt_d (sint baseDeviceId))
                          (w0, deviceId) (w4, idk + 1)))
         \<and> (CreateSnapDevice e poolName deviceId baseName baseDeviceId w
               = Some (r', w', deviceId')
            \<longrightarrow> (\<exists>seg. trace w' = trace w @ seg
                    \<and> suspend_calls seg = 0 \<and> resume_calls seg = 0)
                \<and> (\<exists>seg. trace w' = trace w0 @ seg
                      \<and> first_call seg = Some (DmTaskCreate DeviceTargetMsg)))"
proof -
  from GetInfo_error [OF assms(1)] have d: "devinfo = None" .
  have nd: "(case devinfo of None \<Rightarrow> False | Some x \<Rightarrow> Exists x \<noteq> 0) = False"
    using d by simp
  note it = CreateSnapDevice_unsuspended_iteration [OF assms(1) nd]
  note ret = CreateSnapDevice_without_origin [OF assms(1) nd]
  show ?thesis
    apply (intro conjI impI)
            apply (rule CreateSnapDevice_not_suspended [OF assms(1) nd])
           apply (elim conjE, erule (4) it(1))
          apply (elim conjE, erule (4) it(2))
         apply (elim conjE, erule (4) it(3) [rule_format], assumption)
        apply (elim conjE, erule (4) it(4) [rule_format], blast)
       apply (elim conjE, erule (4) it(5) [rule_format], blast)
      apply (erule ret(1))
     apply (drule ret(2), blast)
    done
qed

theorem CreateSnapDevice_info_query_fails_witness:
  "fst (GetInfo info_fails ''base'' world0) = (None, Some ErrTaskRun)
   \<and> CreateSnapDevice info_fails ''pool'' 5 ''base'' 2 world0 \<noteq> None
   \<and> fst (the (CreateSnapDevice info_fails ''pool'' 5 ''base'' 2 world0)) = None
   \<and> snd (snd (the (CreateSnapDevice info_fails ''pool'' 5 ''base'' 2 world0))) = 6
   \<and> calls (trace (fst (snd (the (CreateSnapDevice info_fails ''pool'' 5 ''base'' 2 world0)))))
       = [DmTaskCreate DeviceInfo, DmTaskSetName 1 ''base'', DmTaskRun 1,
          DmTaskCreate DeviceTargetMsg, DmTaskSetName 4 ''pool'', DmTaskSetSector 4 0,
          DmTaskSetMessage 4 ''create_snap 5 2'', DmTaskRun 4,
          DmTaskCreate DeviceTargetMsg, DmTaskSetName 9 ''pool'', DmTaskSetSector 9 0,
          DmTaskSetMessage 9 ''create_snap 6 2'', DmTaskRun 9]
   \<and> suspend_calls (trace (fst (snd (the (CreateSnapDevice info_fails ''pool'' 5 ''base'' 2 world0))))) = 0
   \<and> resume_calls (trace (fst (snd (the (CreateSnapDevice info_fails ''pool'' 5 ''base'' 2 world0))))) = 0"
proof -
  let ?e = "info_fails"
  let ?s = "\<lparr>unmanaged = 4\<rparr>"
  let ?t = "\<lparr>unmanaged = 9\<rparr>"
  let ?m5 = "''create_snap '' @ fmt_d (sint (5::64 word)) @ '' '' @ fmt_d (sint (2::64 word))"
  let ?m6 = "''create_snap '' @ fmt_d (sint (5 + 1::64 word)) @ '' '' @ fmt_d (sint (2::64 word))"
  let ?w0 = "snd (GetInfo ?e ''base'' world0)"
  let ?a1 = "snd (TaskCreateNamed ?e DeviceTargetMsg ''pool'' ?w0)"
  let ?a2 = "snd (SetSector ?e ?s 0 ?a1)"
  let ?a3 = "snd (SetMessage ?e ?s ?m5 ?a2)"
  let ?a4 = "snd (Run ?e ?s (?a3\<lparr>dmSawExist := False\<rparr>))"
  let ?b1 = "snd (TaskCreateNamed ?e DeviceTargetMsg ''pool'' ?a4)"
  let ?b2 = "snd (SetSector ?e ?t 0 ?b1)"
  let ?b3 = "snd (SetMessage ?e ?t ?m6 ?b2)"
  let ?b4 = "snd (Run ?e ?t (?b3\<lparr>dmSawExist := False\<rparr>))"
  have g: "GetInfo ?e ''base'' world0 = ((None, Some ErrTaskRun), ?w0)"
    by code_simp
  have c1: "TaskCreateNamed ?e DeviceTargetMsg ''pool'' ?w0 = ((Some ?s, None), ?a1)"
    by code_simp
  have s1: "SetSector ?e ?s 0 ?a1 = (None, ?a2)"
    by code_simp
  have m1: "SetMessage ?e ?s ?m5 ?a2 = (None, ?a3)"
    by code_simp
  have r1: "Run ?e ?s (?a3\<lparr>dmSawExist := False\<rparr>) = (Some ErrTaskRun, ?a4)"
    by code_simp
  have x1: "Some ErrTaskRun \<noteq> None \<and> dmSawExist ?a4"
    by code_simp
  have c2: "TaskCreateNamed ?e DeviceTargetMsg ''pool'' ?a4 = ((Some ?t, None), ?b1)"
    by code_simp
  have s2: "SetSector ?e ?t 0 ?b1 = (None, ?b2)"
    by code_simp
  have m2: "SetMessage ?e ?t ?m6 ?b2 = (None, ?b3)"
    by code_simp
  have r2: "Run ?e ?t (?b3\<lparr>dmSawExist := False\<rparr>) = (None, ?b4)"
    by code_simp
  have pre: "calls (trace ?w0) = [DmTaskCreate DeviceInfo, DmTaskSetName 1 ''base'', DmTaskRun 1]"
    by code_simp
  have n5: "?m5 = ''create_snap 5 2''"
    by code_simp
  have n6: "?m6 = ''create_snap 6 2''"
    by code_simp
  have e: "trace world0 = []"
    by (simp add: world0_def)
  have u: "unmanaged ?s = 4" "unmanaged ?t = 9"
    by simp_all
  note T1 = CreateSnapDevice_info_query_fails [OF g, where poolName = "''pool''" and baseDeviceId = 2
      and wk = ?w0 and idk = 5 and task = ?s and err = None and ?w1.0 = ?a1 and ?w2.0 = ?a2
      and ?w3.0 = ?a3 and r = "Some ErrTaskRun" and ?w4.0 = ?a4]
  note T2 = CreateSnapDevice_info_query_fails [OF g, where poolName = "''pool''" and baseDeviceId = 2
      and wk = ?a4 and idk = "5 + 1" and task = ?t and err = None and ?w1.0 = ?b1
      and ?w2.0 = ?b2 and ?w3.0 = ?b3 and r = None and ?w4.0 = ?b4]
  from T1 loop_reaches.entered c1 s1 m1 r1 x1
  have A: "calls (trace ?a4)
        = calls (trace ?w0) @ [DmTaskCreate DeviceTargetMsg, DmTaskSetName (unmanaged ?s) ''pool'',
            DmTaskSetSector (unmanaged ?s) 0, DmTaskSetMessage (unmanaged ?s) ?m5,
            DmTaskRun (unmanaged ?s)]"
    and L: "loop_reaches ?e ''pool''
              (\<lambda>i. ''create_snap '' @ fmt_d (sint i) @ '' '' @ fmt_d (sint (2::64 word)))
              (?w0, 5) (?a4, 5 + 1)"
    by blast+
  from T2 L c2 s2 m2 r2
  have B: "calls (trace ?b4)
        = calls (trace ?a4) @ [DmTaskCreate DeviceTargetMsg, DmTaskSetName (unmanaged ?t) ''pool'',
            DmTaskSetSector (unmanaged ?t) 0, DmTaskSetMessage (unmanaged ?t) ?m6,
            DmTaskRun (unmanaged ?t)]"
    and Q: "\<exists>seg. trace ?b4 = trace world0 @ seg \<and> suspend_calls seg = 0 \<and> resume_calls seg = 0"
    and R: "CreateSnapDevice info_fails ''pool'' 5 ''base'' 2 world0 = Some (None, ?b4, 5 + 1)"
    by blast+
  have C0: "calls (trace ?b4)
       = ([DmTaskCreate DeviceInfo, DmTaskSetName 1 ''base'', DmTaskRun 1]
          @ [DmTaskCreate DeviceTargetMsg, DmTaskSetName (unmanaged ?s) ''pool'',
             DmTaskSetSector (unmanaged ?s) 0, DmTaskSetMessage (unmanaged ?s) ?m5,
             DmTaskRun (unmanaged ?s)])
          @ [DmTaskCreate DeviceTargetMsg, DmTaskSetName (unmanaged ?t) ''pool'',
             DmTaskSetSector (unmanaged ?t) 0, DmTaskSetMessage (unmanaged ?t) ?m6,
             DmTaskRun (unmanaged ?t)]"
    using B unfolding A pre .
  have C1: "([DmTaskCreate DeviceInfo, DmTaskSetName 1 ''base'', DmTaskRun 1]
          @ [DmTaskCreate DeviceTargetMsg, DmTaskSetName (unmanaged ?s) ''pool'',
             DmTaskSetSector (unmanaged ?s) 0, DmTaskSetMessage (unmanaged ?s) ?m5,
             DmTaskRun (unmanaged ?s)])
          @ [DmTaskCreate DeviceTargetMsg, DmTaskSetName (unmanaged ?t) ''pool'',
             DmTaskSetSector (unmanaged ?t) 0, DmTaskSetMessage (unmanaged ?t) ?m6,
             DmTaskRun (unmanaged ?t)]
       = [DmTaskCreate DeviceInfo, DmTaskSetName 1 ''base'', DmTaskRun 1,
          DmTaskCreate DeviceTargetMsg, DmTaskSetName 4 ''pool'', DmTaskSetSector 4 0,
          DmTaskSetMessage 4 ''create_snap 5 2'', DmTaskRun 4,
          DmTaskCreate DeviceTargetMsg, DmTaskSetName 9 ''pool'', DmTaskSetSector 9 0,
          DmTaskSetMessage 9 ''create_snap 6 2'', DmTaskRun 9]"
    unfolding n5 n6 by simp
  note C = trans [OF C0 C1]
  from Q e have Q': "suspend_calls (trace ?b4) = 0 \<and> resume_calls (trace ?b4) = 0"
    by auto
  have six: "(5 + 1 :: 64 word) = 6"
    by simp
  have G: "fst (GetInfo info_fails ''base'' world0) = (None, Some ErrTaskRun)"
    by code_simp
  show ?thesis
    unfolding R six option.sel fst_conv snd_conv
    using C Q' G by simp
qed




end
